(* ===== verification/Prelude.thy ===== *)
theory Prelude
  imports Main "HOL-Library.Sublist" "HOL-Library.AList" "HOL-Library.Code_Target_Numeral"
begin

text \<open>
  Shared vocabulary of the SafeConnect development (src/app.js).
  \<^item> \<open>js_error\<close>: the exceptions the script can raise, and the result type
    \<open>'a js = js_error + 'a\<close> (\<open>Inl\<close> is a thrown exception);
  \<^item> the string built-ins the script calls: \<open>String.prototype.toLowerCase\<close>,
    \<open>trim\<close>, \<open>includes\<close> and \<open>replaceAll\<close>, over strings as byte lists;
  \<^item> decimal digit strings of natural numbers, used by number printing;
  \<^item> the collection \<open>js_simps\<close> of evaluation rules for these built-ins.
  JavaScript strings are sequences of UTF-16 code units; here a string is a HOL
  \<open>string\<close>, a list of 8-bit characters (its UTF-8 bytes). On ASCII text the two agree;
  \<open>toLowerCase\<close> and \<open>trim\<close> are modelled on the ASCII range.
\<close>

named_theorems js_simps "evaluation rules of the modelled JavaScript built-ins"

section \<open>Exceptions\<close>

datatype js_error =
    TypeError string
  | SyntaxError
  | QuotaExceededError
  | InvalidLatLng
  | FileReadError

type_synonym 'a js = "js_error + 'a"

text \<open>Code that mutates state and may throw part-way leaves the state it had reached:
  \<open>'s js_st\<close> pairs that state with the exception, if one was thrown.\<close>

type_synonym 's js_st = "js_error option \<times> 's"

definition st_atomic :: "'s \<Rightarrow> 's js \<Rightarrow> 's js_st" where
  "st_atomic s r = (case r of Inl e \<Rightarrow> (Some e, s) | Inr s' \<Rightarrow> (None, s'))"

definition st_bind :: "'s js_st \<Rightarrow> ('s \<Rightarrow> 's js_st) \<Rightarrow> 's js_st" where
  "st_bind m f = (case m of (None, s) \<Rightarrow> f s | (Some e, s) \<Rightarrow> (Some e, s))"

lemma st_bind_None [simp, js_simps]: "st_bind (None, s) f = f s"
  by (simp add: st_bind_def)

lemma st_bind_Some [simp, js_simps]: "st_bind (Some e, s) f = (Some e, s)"
  by (simp add: st_bind_def)

lemma st_atomic_Inr [simp, js_simps]: "st_atomic s (Inr s') = (None, s')"
  by (simp add: st_atomic_def)

lemma st_atomic_Inl [simp, js_simps]: "st_atomic s (Inl e) = (Some e, s)"
  by (simp add: st_atomic_def)

definition js_bind :: "'a js \<Rightarrow> ('a \<Rightarrow> 'b js) \<Rightarrow> 'b js" where
  "js_bind m f = (case m of Inl e \<Rightarrow> Inl e | Inr x \<Rightarrow> f x)"

lemma js_bind_Inr [simp, js_simps]: "js_bind (Inr x) f = f x"
  by (simp add: js_bind_def)

lemma js_bind_Inl [simp, js_simps]: "js_bind (Inl e) f = Inl e"
  by (simp add: js_bind_def)

lemma js_bind_eq_Inr [simp]:
  "(js_bind m f = Inr y) \<longleftrightarrow> (\<exists>x. m = Inr x \<and> f x = Inr y)"
  by (cases m) (auto simp: js_bind_def)

text \<open>\<open>Array.prototype.filter\<close> with a predicate that may throw: the first exception
  in list order aborts the whole call.\<close>

fun js_filter :: "('a \<Rightarrow> bool js) \<Rightarrow> 'a list \<Rightarrow> 'a list js" where
  "js_filter p [] = Inr []"
| "js_filter p (x # xs) =
     js_bind (p x) (\<lambda>b. js_bind (js_filter p xs) (\<lambda>ys. Inr (if b then x # ys else ys)))"

lemma js_filter_total [simp]: "js_filter (\<lambda>x. Inr (P x)) xs = Inr (filter P xs)"
  by (induction xs) auto

lemma js_filter_cong:
  "(\<And>x. x \<in> set xs \<Longrightarrow> p x = Inr (P x)) \<Longrightarrow> js_filter p xs = Inr (filter P xs)"
  by (induction xs) auto

lemma js_filter_map:
  "(\<And>x. p (g x) = Inr (P x)) \<Longrightarrow> js_filter p (map g xs) = Inr (map g (filter P xs))"
  by (induction xs) auto

text \<open>\<open>Array.prototype.map\<close> with a callback that may throw.\<close>

fun js_map :: "('a \<Rightarrow> 'b js) \<Rightarrow> 'a list \<Rightarrow> 'b list js" where
  "js_map f [] = Inr []"
| "js_map f (x # xs) = js_bind (f x) (\<lambda>y. js_bind (js_map f xs) (\<lambda>ys. Inr (y # ys)))"

lemma js_map_total: "(\<And>x. x \<in> set xs \<Longrightarrow> f x = Inr (g x)) \<Longrightarrow> js_map f xs = Inr (map g xs)"
  by (induction xs) auto

lemma js_map_map: "(\<And>x. f (g x) = Inr (h x)) \<Longrightarrow> js_map f (map g xs) = Inr (map h xs)"
  by (induction xs) auto

lemma js_map_throws: "x \<in> set xs \<Longrightarrow> f x = Inl e \<Longrightarrow> \<exists>e'. js_map f xs = Inl e'"
  by (induction xs) (auto simp: js_bind_def split: sum.splits)

lemma js_filter_throws: "x \<in> set xs \<Longrightarrow> p x = Inl e \<Longrightarrow> \<exists>e'. js_filter p xs = Inl e'"
  by (induction xs) (auto simp: js_bind_def split: sum.splits)

lemma js_filter_keeps:
  "js_filter p xs = Inr ys \<Longrightarrow> x \<in> set xs \<Longrightarrow> p x = Inr True \<Longrightarrow> x \<in> set ys"
  by (induction xs arbitrary: ys) (auto simp: js_bind_def split: sum.splits)

lemma js_filter_ok: "(\<And>x. x \<in> set xs \<Longrightarrow> \<exists>b. p x = Inr b) \<Longrightarrow> \<exists>ys. js_filter p xs = Inr ys"
proof (induction xs)
  case (Cons x xs)
  obtain b ys where "p x = Inr b" "js_filter p xs = Inr ys" using Cons by fastforce
  then show ?case by (simp add: js_bind_def)
qed simp

lemma js_map_ok: "(\<And>x. x \<in> set xs \<Longrightarrow> \<exists>y. f x = Inr y) \<Longrightarrow> \<exists>ys. js_map f xs = Inr ys"
proof (induction xs)
  case (Cons x xs)
  obtain y ys where "f x = Inr y" "js_map f xs = Inr ys" using Cons by fastforce
  then show ?case by (simp add: js_bind_def)
qed simp

lemma js_filter_subset: "js_filter p xs = Inr ys \<Longrightarrow> set ys \<subseteq> set xs"
  by (induction xs arbitrary: ys) (auto simp: js_bind_def split: sum.splits if_splits)

section \<open>Characters and case mapping\<close>

definition is_upper :: "char \<Rightarrow> bool" where
  "is_upper c \<longleftrightarrow> (65::nat) \<le> of_char c \<and> (of_char c :: nat) \<le> 90"

definition to_lower_char :: "char \<Rightarrow> char" where
  "to_lower_char c = (if is_upper c then char_of (of_char c + (32::nat)) else c)"

definition to_lower :: "string \<Rightarrow> string" where
  "to_lower s = map to_lower_char s"

lemma to_lower_char_idem [simp]: "to_lower_char (to_lower_char c) = to_lower_char c"
  by (simp add: to_lower_char_def is_upper_def)

lemma to_lower_idem [simp]: "to_lower (to_lower s) = to_lower s"
  by (simp add: to_lower_def comp_def)

lemma to_lower_append [simp, js_simps]: "to_lower (a @ b) = to_lower a @ to_lower b"
  by (simp add: to_lower_def)

lemma length_to_lower [simp]: "length (to_lower s) = length s"
  by (simp add: to_lower_def)

lemma to_lower_char_space: "to_lower_char c = CHR '' '' \<longleftrightarrow> c = CHR '' ''"
proof (cases "is_upper c")
  case True
  then have "of_char (to_lower_char c) = of_char c + (32::nat)"
    by (simp add: to_lower_char_def is_upper_def of_char_of)
  moreover have "of_char c \<noteq> (32::nat)" using True by (simp add: is_upper_def)
  ultimately show ?thesis using True by (auto simp: is_upper_def)
qed (simp add: to_lower_char_def)

lemma to_lower_space: "CHR '' '' \<notin> set q \<Longrightarrow> CHR '' '' \<notin> set (to_lower q)"
  by (auto simp: to_lower_def) (metis to_lower_char_space)

lemma to_lower_Nil [simp, js_simps]: "to_lower [] = []"
  by (simp add: to_lower_def)

lemma to_lower_Cons [simp, js_simps]: "to_lower (c # s) = to_lower_char c # to_lower s"
  by (simp add: to_lower_def)

section \<open>Whitespace and trim\<close>

text \<open>The ASCII members of ECMAScript's WhiteSpace and LineTerminator: tab, line feed,
  vertical tab, form feed, carriage return and space.\<close>

definition is_js_space :: "char \<Rightarrow> bool" where
  "is_js_space c \<longleftrightarrow> of_char c \<in> ({9, 10, 11, 12, 13, 32} :: nat set)"

definition trim :: "string \<Rightarrow> string" where
  "trim s = rev (dropWhile is_js_space (rev (dropWhile is_js_space s)))"

lemma all_set_dropWhile:
  "(\<forall>x \<in> set (dropWhile P xs). P x) \<longleftrightarrow> (\<forall>x \<in> set xs. P x)"
  by (induction xs) auto

lemma trim_Nil_iff: "trim s = [] \<longleftrightarrow> (\<forall>c \<in> set s. is_js_space c)"
  by (simp add: trim_def dropWhile_eq_Nil_conv all_set_dropWhile)

section \<open>Substring search: String.prototype.includes\<close>

text \<open>\<open>hay.includes(pat)\<close> tries every start position of \<open>hay\<close> in turn; the empty
  pattern occurs everywhere.\<close>

fun str_includes :: "string \<Rightarrow> string \<Rightarrow> bool" where
  "str_includes [] pat \<longleftrightarrow> pat = []"
| "str_includes (c # cs) pat \<longleftrightarrow> prefix pat (c # cs) \<or> str_includes cs pat"

lemma str_includes_sublist [js_simps]: "str_includes hay pat \<longleftrightarrow> sublist pat hay"
  by (induction hay) (auto simp: sublist_Cons_right)

lemma str_includes_Nil_pat [simp]: "str_includes hay []"
  by (simp add: str_includes_sublist)

text \<open>A pattern without the separator occurs in two parts joined by it only if it
  occurs in one of them.\<close>

lemma sublist_sep_append:
  assumes "p \<noteq> []" "x \<notin> set p"
  shows "sublist p (a @ x # b) \<longleftrightarrow> sublist p a \<or> sublist p b"
proof -
  have "sublist p (x # b) \<longleftrightarrow> sublist p b"
    using assms by (cases p) (auto simp: sublist_Cons_right)
  moreover have "sublist p a" if "p = p1 @ p2" "suffix p1 a" "prefix p2 (x # b)" for p1 p2
  proof -
    have "p2 = []" using that(1,3) assms(2) by (cases p2) auto
    then show ?thesis using that(1,2) by simp
  qed
  ultimately show ?thesis by (auto simp: sublist_append)
qed

section \<open>String.prototype.replaceAll with a string pattern\<close>

text \<open>A left-to-right scan: at each position where \<open>pat\<close> starts, \<open>rep\<close> is emitted and
  the scan resumes after the match; matches never overlap. The script only calls it
  with non-empty patterns; the empty pattern inserts \<open>rep\<close> between all characters and
  at both ends, as ECMAScript specifies.\<close>

function replace_all :: "string \<Rightarrow> string \<Rightarrow> string \<Rightarrow> string" where
  "replace_all pat rep [] = (if pat = [] then rep else [])"
| "replace_all pat rep (c # cs) =
     (if pat = [] then rep @ c # replace_all pat rep cs
      else if prefix pat (c # cs) then rep @ replace_all pat rep (drop (length pat) (c # cs))
      else c # replace_all pat rep cs)"
  by pat_completeness auto
termination
  by (relation "measure (\<lambda>(pat, rep, s). length s)") auto

lemma replace_all_single [js_simps]:
  "replace_all [p] rep s = concat (map (\<lambda>x. if x = p then rep else [x]) s)"
  by (induction s) auto

section \<open>Decimal digits\<close>

fun nat_str :: "nat \<Rightarrow> string" where
  "nat_str n = (if n < 10 then [char_of (48 + n)]
                else nat_str (n div 10) @ [char_of (48 + n mod 10)])"

declare nat_str.simps [simp del]

definition is_digit :: "char \<Rightarrow> bool" where
  "is_digit c \<longleftrightarrow> 48 \<le> (of_char c :: nat) \<and> (of_char c :: nat) \<le> 57"

definition digit_val :: "char \<Rightarrow> nat" where
  "digit_val c = of_char c - 48"

text \<open>The value of a string of decimal digits, most significant first.\<close>

definition digits_val :: "string \<Rightarrow> nat" where
  "digits_val ds = foldl (\<lambda>acc d. 10 * acc + digit_val d) 0 ds"

end
