(* ===== verification/JsNumber.thy ===== *)
theory JsNumber
  imports Prelude
begin

text \<open>
  JavaScript numbers as the script uses them: coordinates from the geolocation API,
  the rounded accuracy, and the numbers read back by \<open>JSON.parse\<close>. A number is
  modelled by its shortest decimal representation \<open>m \<cdot> 10^e\<close> (\<open>Num m e\<close>), in canonical
  form (\<open>m\<close> has no trailing zero digit, and zero is \<open>Num 0 0\<close>). ECMAScript's
  \<open>Number::toString\<close> is defined on exactly this representation (its digits \<open>s\<close>, their
  count \<open>k\<close> and the decimal point position \<open>n\<close>), so it is modelled exactly.
  \<open>Number.prototype.toFixed\<close> rounds the decimal value half away from zero; the engine
  rounds the exact binary value, which differs only when the decimal lies exactly
  half-way between two outputs. NaN, the infinities and \<open>-0\<close> never reach the script's
  formatting code and are not modelled.
\<close>

datatype jsnum = Num int int

fun canonical :: "jsnum \<Rightarrow> bool" where
  "canonical (Num m e) \<longleftrightarrow> (if m = 0 then e = 0 else \<not> (10::int) dvd m)"

function norm_num :: "int \<Rightarrow> int \<Rightarrow> jsnum" where
  "norm_num m e =
     (if m = 0 then Num 0 0
      else if (10::int) dvd m then norm_num (m div 10) (e + 1)
      else Num m e)"
  by pat_completeness auto
termination
  by (relation "measure (\<lambda>(m, e). nat \<bar>m\<bar>)") auto

declare norm_num.simps [simp del]

definition num_of_int :: "int \<Rightarrow> jsnum" where
  "num_of_int i = norm_num i 0"

section \<open>Number::toString\<close>

text \<open>ECMAScript 2024, 6.1.6.1.20, for a positive number with digit string \<open>s\<close>
  (\<open>k\<close> digits) and decimal exponent \<open>n\<close>, so that the value is \<open>s \<cdot> 10^(n-k)\<close>.\<close>

definition exp_str :: "int \<Rightarrow> string" where
  "exp_str x = (if 0 \<le> x then ''+'' else ''-'') @ nat_str (nat \<bar>x\<bar>)"

definition pos_num_str :: "nat \<Rightarrow> int \<Rightarrow> string" where
  "pos_num_str d e =
     (let s = nat_str d; k = int (length s); n = e + k in
      if k \<le> n \<and> n \<le> 21 then s @ replicate (nat (n - k)) CHR ''0''
      else if 0 < n \<and> n \<le> 21 then take (nat n) s @ ''.'' @ drop (nat n) s
      else if -6 < n \<and> n \<le> 0 then ''0.'' @ replicate (nat (- n)) CHR ''0'' @ s
      else if k = 1 then s @ ''e'' @ exp_str (n - 1)
      else [hd s] @ ''.'' @ tl s @ ''e'' @ exp_str (n - 1))"

fun num_to_string :: "jsnum \<Rightarrow> string" where
  "num_to_string (Num m e) =
     (if m = 0 then ''0''
      else if m < 0 then ''-'' @ pos_num_str (nat (- m)) e
      else pos_num_str (nat m) e)"

section \<open>Number.prototype.toFixed\<close>

text \<open>ECMAScript 2024, 21.1.3.3, for \<open>0 \<le> f \<le> 100\<close>: the integer \<open>n\<close> nearest to
  \<open>x \<cdot> 10^f\<close> (the larger on a tie), printed with \<open>f\<close> digits after the point; values
  of magnitude \<open>10^21\<close> or more are printed by \<open>Number::toString\<close>.\<close>

definition round_scaled :: "nat \<Rightarrow> int \<Rightarrow> nat \<Rightarrow> nat" where
  "round_scaled d e f =
     (if 0 \<le> e + int f then d * 10 ^ nat (e + int f)
      else let p = 10 ^ nat (- (e + int f)) in d div p + (if p \<le> 2 * (d mod p) then 1 else 0))"

definition fixed_digits :: "nat \<Rightarrow> nat \<Rightarrow> string" where
  "fixed_digits f n =
     (let m = (if n = 0 then ''0'' else nat_str n) in
      if f = 0 then m
      else let m' = (if length m \<le> f then replicate (f + 1 - length m) CHR ''0'' @ m else m);
               k = length m'
           in take (k - f) m' @ ''.'' @ drop (k - f) m')"

definition num_ge_1e21 :: "nat \<Rightarrow> int \<Rightarrow> bool" where
  "num_ge_1e21 d e \<longleftrightarrow>
     (if 0 \<le> e then 10 ^ 21 \<le> d * 10 ^ nat e else 10 ^ 21 * 10 ^ nat (- e) \<le> d)"

fun to_fixed :: "nat \<Rightarrow> jsnum \<Rightarrow> string" where
  "to_fixed f (Num m e) =
     (let s = (if m < 0 then ''-'' else []); d = nat \<bar>m\<bar> in
      if num_ge_1e21 d e then s @ pos_num_str d e
      else s @ fixed_digits f (round_scaled d e f))"

end
