(* ===== verification/Json.thy ===== *)
theory Json
  imports JsNumber
begin

text \<open>
  JSON values and \<open>JSON.stringify\<close> / \<open>JSON.parse\<close> as the item store uses them
  (src/app.js \<open>loadItems\<close>, \<open>saveItems\<close>). Objects are association lists in
  property order. A JavaScript object orders its properties with the array-index keys
  (canonical numerals below \<open>2^32 - 1\<close>) first, ascending, then the other keys in
  insertion order; a key set twice keeps its first position and its last value.
  \<open>obj_put\<close> is that rule, and \<open>wf_json\<close> says a value is one \<open>JSON.parse\<close> can
  produce: canonical numbers and objects whose property order is the one the rule gives.
\<close>

datatype json =
    JNull
  | JBool bool
  | JNum jsnum
  | JStr string
  | JArr "json list"
  | JObj "(string \<times> json) list"

section \<open>Property order of objects\<close>

definition is_array_index :: "string \<Rightarrow> bool" where
  "is_array_index k \<longleftrightarrow>
     k \<noteq> [] \<and> list_all is_digit k \<and> (hd k = CHR ''0'' \<longrightarrow> k = ''0'')
     \<and> digits_val k < 4294967295"

fun insert_index :: "(string \<times> 'v) list \<Rightarrow> string \<Rightarrow> 'v \<Rightarrow> (string \<times> 'v) list" where
  "insert_index [] k v = [(k, v)]"
| "insert_index ((k', v') # kvs) k v =
     (if is_array_index k' \<and> digits_val k' < digits_val k
      then (k', v') # insert_index kvs k v
      else (k, v) # (k', v') # kvs)"

definition obj_put :: "(string \<times> 'v) list \<Rightarrow> string \<Rightarrow> 'v \<Rightarrow> (string \<times> 'v) list" where
  "obj_put kvs k v =
     (if k \<in> set (map fst kvs) then AList.update k v kvs
      else if is_array_index k then insert_index kvs k v
      else kvs @ [(k, v)])"

definition build_obj :: "(string \<times> 'v) list \<Rightarrow> (string \<times> 'v) list" where
  "build_obj kvs = foldl (\<lambda>acc (k, v). obj_put acc k v) [] kvs"

fun wf_json :: "json \<Rightarrow> bool" where
  "wf_json (JNum x) = canonical x"
| "wf_json (JArr vs) = (\<forall>v \<in> set vs. wf_json v)"
| "wf_json (JObj kvs) = (build_obj kvs = kvs \<and> (\<forall>kv \<in> set kvs. wf_json (snd kv)))"
| "wf_json _ = True"

section \<open>JSON.stringify\<close>

text \<open>QuoteJSONString (ECMAScript 2024, 25.5.2.3): the two-character escapes for
  backspace, tab, line feed, form feed, carriage return, quote and backslash, a
  lower-case \<open>\u00xx\<close> escape for the other control characters, and every other
  character as it is.\<close>

definition hex_digit :: "nat \<Rightarrow> char" where
  "hex_digit n = (if n < 10 then char_of (48 + n) else char_of (87 + n))"

abbreviation bslash :: char where
  "bslash \<equiv> CHR 0x5C"

abbreviation dquote :: char where
  "dquote \<equiv> CHR 0x22"

definition quote_char :: "char \<Rightarrow> string" where
  "quote_char c =
     (let n = (of_char c :: nat) in
      if n = 8 then [bslash, CHR ''b'']
      else if n = 9 then [bslash, CHR ''t'']
      else if n = 10 then [bslash, CHR ''n'']
      else if n = 12 then [bslash, CHR ''f'']
      else if n = 13 then [bslash, CHR ''r'']
      else if c = dquote then [bslash, dquote]
      else if c = bslash then [bslash, bslash]
      else if n < 32 then [bslash, CHR ''u'', CHR ''0'', CHR ''0'', hex_digit (n div 16), hex_digit (n mod 16)]
      else [c])"

definition quote_str :: "string \<Rightarrow> string" where
  "quote_str s = dquote # concat (map quote_char s) @ [dquote]"

fun join :: "string \<Rightarrow> string list \<Rightarrow> string" where
  "join sep [] = []"
| "join sep [x] = x"
| "join sep (x # y # ys) = x @ sep @ join sep (y # ys)"

text \<open>SerializeJSONProperty, SerializeJSONArray and SerializeJSONObject without
  indentation (\<open>JSON.stringify(items)\<close> passes no \<open>space\<close> argument).\<close>

fun stringify :: "json \<Rightarrow> string" where
  "stringify JNull = ''null''"
| "stringify (JBool b) = (if b then ''true'' else ''false'')"
| "stringify (JNum x) = num_to_string x"
| "stringify (JStr s) = quote_str s"
| "stringify (JArr vs) = ''['' @ join '','' (map stringify vs) @ '']''"
| "stringify (JObj kvs) =
     ''{'' @ join '','' (map (\<lambda>(k, v). quote_str k @ '':'' @ stringify v) kvs) @ ''}''"

section \<open>JSON.parse\<close>

text \<open>The JSON grammar of ECMA-404 as \<open>JSON.parse\<close> accepts it, with no reviver.
  A \<open>\u\<close> escape denotes a UTF-16 code unit; it is stored as the UTF-8 bytes of the
  code point (a surrogate pair as one supplementary code point, a lone surrogate as
  its three-byte form). Numbers are read as exact decimals.\<close>

definition is_json_ws :: "char \<Rightarrow> bool" where
  "is_json_ws c \<longleftrightarrow> c \<in> {CHR 0x20, CHR 0x09, CHR 0x0A, CHR 0x0D}"

abbreviation skip_ws :: "string \<Rightarrow> string" where
  "skip_ws \<equiv> dropWhile is_json_ws"

definition hex_val :: "char \<Rightarrow> nat option" where
  "hex_val c =
     (let n = (of_char c :: nat) in
      if 48 \<le> n \<and> n \<le> 57 then Some (n - 48)
      else if 97 \<le> n \<and> n \<le> 102 then Some (n - 87)
      else if 65 \<le> n \<and> n \<le> 70 then Some (n - 55)
      else None)"

definition is_hex4 :: "string \<Rightarrow> bool" where
  "is_hex4 s \<longleftrightarrow> 4 \<le> length s \<and> (\<forall>c \<in> set (take 4 s). hex_val c \<noteq> None)"

definition hex4_val :: "string \<Rightarrow> nat" where
  "hex4_val s = foldl (\<lambda>acc c. 16 * acc + (case hex_val c of Some d \<Rightarrow> d | None \<Rightarrow> 0)) 0 (take 4 s)"

definition utf8_encode :: "nat \<Rightarrow> string" where
  "utf8_encode cp =
     (if cp < 128 then [char_of cp]
      else if cp < 2048 then [char_of (192 + cp div 64), char_of (128 + cp mod 64)]
      else if cp < 65536 then
        [char_of (224 + cp div 4096), char_of (128 + (cp div 64) mod 64), char_of (128 + cp mod 64)]
      else [char_of (240 + cp div 262144), char_of (128 + (cp div 4096) mod 64),
            char_of (128 + (cp div 64) mod 64), char_of (128 + cp mod 64)])"

definition simple_escape :: "char \<Rightarrow> char option" where
  "simple_escape e =
     (if e = dquote \<or> e = bslash \<or> e = CHR ''/'' then Some e
      else if e = CHR ''b'' then Some (CHR 0x08)
      else if e = CHR ''f'' then Some (CHR 0x0C)
      else if e = CHR ''n'' then Some (CHR 0x0A)
      else if e = CHR ''r'' then Some (CHR 0x0D)
      else if e = CHR ''t'' then Some (CHR 0x09)
      else None)"

definition cons_str :: "string \<Rightarrow> (string \<times> string) option \<Rightarrow> (string \<times> string) option" where
  "cons_str p = map_option (\<lambda>(t, r). (p @ t, r))"

definition is_high_surrogate :: "nat \<Rightarrow> bool" where
  "is_high_surrogate u \<longleftrightarrow> 55296 \<le> u \<and> u < 56320"

definition is_low_surrogate :: "nat \<Rightarrow> bool" where
  "is_low_surrogate u \<longleftrightarrow> 56320 \<le> u \<and> u < 57344"

text \<open>The characters of a string literal after its opening quote, up to and
  including the closing quote; \<open>None\<close> is a \<open>SyntaxError\<close>.\<close>

function parse_string :: "string \<Rightarrow> (string \<times> string) option" where
  "parse_string [] = None"
| "parse_string (c # cs) =
     (if c = dquote then Some ([], cs)
      else if c = bslash then
        (case cs of
           [] \<Rightarrow> None
         | e # r \<Rightarrow>
             if e = CHR ''u'' then
               (if is_hex4 r then
                  (let u = hex4_val r; r1 = drop 4 r in
                   if is_high_surrogate u \<and> take 2 r1 = [bslash, CHR ''u''] \<and> is_hex4 (drop 2 r1)
                      \<and> is_low_surrogate (hex4_val (drop 2 r1))
                   then cons_str (utf8_encode (65536 + (u - 55296) * 1024 + (hex4_val (drop 2 r1) - 56320)))
                          (parse_string (drop 6 r1))
                   else cons_str (utf8_encode u) (parse_string r1))
                else None)
             else (case simple_escape e of
                     None \<Rightarrow> None
                   | Some d \<Rightarrow> cons_str [d] (parse_string r)))
      else if (of_char c :: nat) < 32 then None
      else cons_str [c] (parse_string cs))"
  by pat_completeness auto
termination
  by (relation "measure length") (auto simp: is_hex4_def)

text \<open>A number: \<open>-? (0 | [1-9][0-9]* ) (. [0-9]+)? ([eE] [+-]? [0-9]+)?\<close>.\<close>

definition parse_int_part :: "string \<Rightarrow> (string \<times> string) option" where
  "parse_int_part s =
     (case s of
        [] \<Rightarrow> None
      | c # r \<Rightarrow> if c = CHR ''0'' then Some (''0'', r)
                 else if is_digit c then Some (takeWhile is_digit s, dropWhile is_digit s)
                 else None)"

definition parse_frac :: "string \<Rightarrow> (string \<times> string) option" where
  "parse_frac s =
     (case s of
        c # r \<Rightarrow> if c = CHR ''.'' then
                   (if takeWhile is_digit r = [] then None
                    else Some (takeWhile is_digit r, dropWhile is_digit r))
                 else Some ([], s)
      | [] \<Rightarrow> Some ([], s))"

definition parse_exp :: "string \<Rightarrow> (int \<times> string) option" where
  "parse_exp s =
     (case s of
        c # r \<Rightarrow> if c = CHR ''e'' \<or> c = CHR ''E'' then
                   (let (neg, r') = (case r of
                                       d # r'' \<Rightarrow> if d = CHR ''-'' then (True, r'')
                                                  else if d = CHR ''+'' then (False, r'')
                                                  else (False, r)
                                     | [] \<Rightarrow> (False, r)) in
                    if takeWhile is_digit r' = [] then None
                    else let x = int (digits_val (takeWhile is_digit r')) in
                         Some (if neg then - x else x, dropWhile is_digit r'))
                 else Some (0, s)
      | [] \<Rightarrow> Some (0, s))"

definition parse_number :: "string \<Rightarrow> (jsnum \<times> string) option" where
  "parse_number s =
     (let (neg, s1) = (case s of c # r \<Rightarrow> if c = CHR ''-'' then (True, r) else (False, s)
                                | [] \<Rightarrow> (False, s)) in
      case parse_int_part s1 of
        None \<Rightarrow> None
      | Some (ip, s2) \<Rightarrow>
          (case parse_frac s2 of
             None \<Rightarrow> None
           | Some (fp, s3) \<Rightarrow>
               (case parse_exp s3 of
                  None \<Rightarrow> None
                | Some (ex, s4) \<Rightarrow>
                    let m = int (digits_val (ip @ fp)) in
                    Some (norm_num (if neg then - m else m) (ex - int (length fp)), s4))))"

text \<open>Values, array elements and object members by recursive descent. The fuel
  \<open>n\<close> bounds the nesting of calls; JsonFuel shows that \<open>2 * length s + 1\<close> is
  enough, so that \<open>json_parse\<close> is the parser of the whole grammar.\<close>

fun parse_value :: "nat \<Rightarrow> string \<Rightarrow> (json \<times> string) option"
and parse_elems :: "nat \<Rightarrow> json list \<Rightarrow> string \<Rightarrow> (json list \<times> string) option"
and parse_members ::
  "nat \<Rightarrow> (string \<times> json) list \<Rightarrow> string \<Rightarrow> ((string \<times> json) list \<times> string) option" where
  "parse_value 0 s = None"
| "parse_value (Suc n) s =
     (case skip_ws s of
        [] \<Rightarrow> None
      | c # r \<Rightarrow>
          if c = CHR ''{'' then
            (case skip_ws r of
               [] \<Rightarrow> None
             | d # r' \<Rightarrow> if d = CHR ''}'' then Some (JObj [], r')
                        else map_option (\<lambda>(kvs, r''). (JObj kvs, r'')) (parse_members n [] (d # r')))
          else if c = CHR ''['' then
            (case skip_ws r of
               [] \<Rightarrow> None
             | d # r' \<Rightarrow> if d = CHR '']'' then Some (JArr [], r')
                        else map_option (\<lambda>(vs, r''). (JArr vs, r'')) (parse_elems n [] (d # r')))
          else if c = dquote then map_option (\<lambda>(t, r'). (JStr t, r')) (parse_string r)
          else if prefix ''true'' (c # r) then Some (JBool True, drop 3 r)
          else if prefix ''false'' (c # r) then Some (JBool False, drop 4 r)
          else if prefix ''null'' (c # r) then Some (JNull, drop 3 r)
          else map_option (\<lambda>(x, r'). (JNum x, r')) (parse_number (c # r)))"
| "parse_elems 0 acc s = None"
| "parse_elems (Suc n) acc s =
     (case parse_value n s of
        None \<Rightarrow> None
      | Some (v, r) \<Rightarrow>
          (case skip_ws r of
             [] \<Rightarrow> None
           | c # r' \<Rightarrow> if c = CHR '','' then parse_elems n (acc @ [v]) r'
                      else if c = CHR '']'' then Some (acc @ [v], r')
                      else None))"
| "parse_members 0 acc s = None"
| "parse_members (Suc n) acc s =
     (case skip_ws s of
        [] \<Rightarrow> None
      | c # r \<Rightarrow>
          if c \<noteq> dquote then None
          else (case parse_string r of
                  None \<Rightarrow> None
                | Some (k, r1) \<Rightarrow>
                    (case skip_ws r1 of
                       [] \<Rightarrow> None
                     | d # r2 \<Rightarrow>
                         if d \<noteq> CHR '':'' then None
                         else (case parse_value n r2 of
                                 None \<Rightarrow> None
                               | Some (v, r3) \<Rightarrow>
                                   (case skip_ws r3 of
                                      [] \<Rightarrow> None
                                    | e # r4 \<Rightarrow>
                                        if e = CHR '','' then parse_members n (obj_put acc k v) r4
                                        else if e = CHR ''}'' then Some (obj_put acc k v, r4)
                                        else None)))))"

text \<open>\<open>JSON.parse(text)\<close>: one value, surrounded by whitespace only; \<open>None\<close> is the
  \<open>SyntaxError\<close> it throws.\<close>

definition json_parse :: "string \<Rightarrow> json option" where
  "json_parse text =
     (case parse_value (2 * length text + 1) text of
        None \<Rightarrow> None
      | Some (v, r) \<Rightarrow> if skip_ws r = [] then Some v else None)"

end
