(* ===== verification/JsValue.thy ===== *)
theory JsValue
  imports Json
begin

text \<open>
  The dynamic JavaScript semantics the script relies on when it reads parsed JSON
  (src/app.js): property access \<open>o.p\<close> (a \<open>TypeError\<close> on \<open>null\<close>, \<open>undefined\<close> for a
  missing property), truthiness (\<open>||\<close>, \<open>?:\<close>, \<open>if (!x)\<close>), the string conversion
  of template literals, strict equality with a string, \<open>x.toFixed(f)\<close> (a
  \<open>TypeError\<close> unless \<open>x\<close> is a number), \<open>encodeURIComponent\<close>, and the script's own
  \<open>coordsToMapsLink\<close> (lines 85-88). The property names the script reads (\<open>id\<close>,
  \<open>kind\<close>, \<open>type\<close>, \<open>description\<close>, \<open>location\<close>, \<open>createdAt\<close>, \<open>imageDataUrl\<close>,
  \<open>lat\<close>, \<open>lng\<close>, \<open>acc\<close>) are not properties of any built-in prototype, so a read
  sees only the value's own data.
\<close>

datatype jsval = Undefined | V json

section \<open>Property access\<close>

definition get_prop :: "json \<Rightarrow> string \<Rightarrow> jsval js" where
  "get_prop ob p =
     (case ob of
        JNull \<Rightarrow> Inl (TypeError ''Cannot read properties of null'')
      | JObj kvs \<Rightarrow> Inr (case map_of kvs p of None \<Rightarrow> Undefined | Some v \<Rightarrow> V v)
      | JArr vs \<Rightarrow> Inr (if p = ''length'' then V (JNum (num_of_int (int (length vs))))
                      else if is_array_index p \<and> digits_val p < length vs then V (vs ! digits_val p)
                      else Undefined)
      | JStr s \<Rightarrow> Inr (if p = ''length'' then V (JNum (num_of_int (int (length s))))
                      else if is_array_index p \<and> digits_val p < length s then V (JStr [s ! digits_val p])
                      else Undefined)
      | _ \<Rightarrow> Inr Undefined)"

text \<open>Reading a property of \<open>undefined\<close> throws as well.\<close>

definition get_prop_v :: "jsval \<Rightarrow> string \<Rightarrow> jsval js" where
  "get_prop_v x p =
     (case x of
        Undefined \<Rightarrow> Inl (TypeError ''Cannot read properties of undefined'')
      | V ob \<Rightarrow> get_prop ob p)"

section \<open>Truthiness, ||, string conversion, ===\<close>

fun truthy :: "jsval \<Rightarrow> bool" where
  "truthy Undefined = False"
| "truthy (V JNull) = False"
| "truthy (V (JBool b)) = b"
| "truthy (V (JNum (Num m e))) = (m \<noteq> 0)"
| "truthy (V (JStr s)) = (s \<noteq> [])"
| "truthy (V (JArr vs)) = True"
| "truthy (V (JObj kvs)) = True"

definition js_or :: "jsval \<Rightarrow> jsval \<Rightarrow> jsval" where
  "js_or a b = (if truthy a then a else b)"

text \<open>ToString as a template literal applies it; an array is joined with commas,
  its \<open>null\<close> elements printed as the empty string.\<close>

fun json_to_string :: "json \<Rightarrow> string" where
  "json_to_string JNull = ''null''"
| "json_to_string (JBool b) = (if b then ''true'' else ''false'')"
| "json_to_string (JNum x) = num_to_string x"
| "json_to_string (JStr s) = s"
| "json_to_string (JArr vs) = join '','' (map (\<lambda>v. if v = JNull then [] else json_to_string v) vs)"
| "json_to_string (JObj kvs) = ''[object Object]''"

fun to_str :: "jsval \<Rightarrow> string" where
  "to_str Undefined = ''undefined''"
| "to_str (V v) = json_to_string v"

definition str_eq :: "jsval \<Rightarrow> string \<Rightarrow> bool" where
  "str_eq x s \<longleftrightarrow> x = V (JStr s)"

section \<open>Number.prototype.toFixed on a dynamic value\<close>

definition js_to_fixed :: "nat \<Rightarrow> jsval \<Rightarrow> string js" where
  "js_to_fixed f x =
     (case x of
        V (JNum n) \<Rightarrow> Inr (to_fixed f n)
      | Undefined \<Rightarrow> Inl (TypeError ''Cannot read properties of undefined'')
      | V JNull \<Rightarrow> Inl (TypeError ''Cannot read properties of null'')
      | _ \<Rightarrow> Inl (TypeError ''toFixed is not a function''))"

text \<open>The plus-minus sign, U+00B1, as its UTF-8 bytes.\<close>

abbreviation plus_minus :: string where
  "plus_minus \<equiv> [CHR 0xC2, CHR 0xB1]"

section \<open>encodeURIComponent and coordsToMapsLink\<close>

text \<open>Every byte except the unreserved marks \<open>A-Z a-z 0-9 - _ . ! ~ * ' ( )\<close> is
  written \<open>%XY\<close> with upper-case hex digits (on UTF-8 text this is the encoding of
  each code point's UTF-8 bytes, as the built-in does).\<close>

definition uri_unreserved :: "char \<Rightarrow> bool" where
  "uri_unreserved c \<longleftrightarrow>
     (let n = (of_char c :: nat) in
      (65 \<le> n \<and> n \<le> 90) \<or> (97 \<le> n \<and> n \<le> 122) \<or> (48 \<le> n \<and> n \<le> 57)
      \<or> c \<in> set ''-_.!~*'()'')"

definition hex_upper :: "nat \<Rightarrow> char" where
  "hex_upper n = (if n < 10 then char_of (48 + n) else char_of (55 + n))"

definition encode_uri_component :: "string \<Rightarrow> string" where
  "encode_uri_component s =
     concat (map (\<lambda>c. if uri_unreserved c then [c]
                      else [CHR ''%'', hex_upper (of_char c div 16), hex_upper (of_char c mod 16)]) s)"

text \<open>\<open>coordsToMapsLink(lat, lng)\<close>, lines 85-88.\<close>

definition coords_to_maps_link :: "jsval \<Rightarrow> jsval \<Rightarrow> string" where
  "coords_to_maps_link la ln =
     ''https://www.google.com/maps?q='' @ encode_uri_component (to_str la) @ '',''
       @ encode_uri_component (to_str ln)"

end
