(* ===== verification/Item.thy ===== *)
theory Item
  imports JsValue
begin

text \<open>
  The incident record (src/app.js, the object literals \<open>panicItem\<close>, lines 318-326,
  and \<open>reportItem\<close>, lines 420-428) and the position object built by
  \<open>ensureGeolocation\<close> (lines 90-108). \<open>item_json\<close> is the object the script
  stores, with its properties in the literal's order; \<open>item_of_json\<close> reads a stored
  object back into a record and is the abstraction function of the item store.
  Record fields are prefixed where a source name clashes with a HOL constant
  (\<open>id\<close>) or keyword (\<open>type\<close>).
\<close>

datatype kind = PANIC | REPORT

definition kind_str :: "kind \<Rightarrow> string" where
  "kind_str k = (case k of PANIC \<Rightarrow> ''PANIC'' | REPORT \<Rightarrow> ''REPORT'')"

record coords =
  lat :: jsnum
  lng :: jsnum
  acc :: int

record item =
  item_id :: string
  kind :: kind
  item_type :: string
  description :: string
  location :: "coords option"
  createdAt :: string
  imageDataUrl :: "string option"

section \<open>Geolocation\<close>

text \<open>\<open>Math.round(x)\<close> is \<open>\<lfloor>x + 1/2\<rfloor>\<close>.\<close>

fun math_round :: "jsnum \<Rightarrow> int" where
  "math_round (Num m e) =
     (if 0 \<le> e then m * 10 ^ nat e
      else let p = 10 ^ nat (- e) in (2 * m + p) div (2 * p))"

text \<open>What the platform's \<open>getCurrentPosition\<close> delivers: no geolocation object, an
  error callback (permission denied, unavailable, timeout), or a position with
  latitude, longitude and accuracy.\<close>

datatype geo_outcome = GeoUnsupported | GeoFailed | GeoPosition jsnum jsnum jsnum

definition ensure_geolocation :: "geo_outcome \<Rightarrow> coords option" where
  "ensure_geolocation g =
     (case g of
        GeoUnsupported \<Rightarrow> None
      | GeoFailed \<Rightarrow> None
      | GeoPosition la ln ac \<Rightarrow> Some \<lparr>lat = la, lng = ln, acc = math_round ac\<rparr>)"

section \<open>The two record constructors\<close>

definition panic_description :: string where
  "panic_description = ''Emergency alert sent. Please respond or contact emergency services.''"

definition panic_item :: "string \<Rightarrow> string \<Rightarrow> coords option \<Rightarrow> item" where
  "panic_item uid now loc =
     \<lparr>item_id = uid, kind = PANIC, item_type = ''Emergency Panic'',
      description = panic_description, location = loc, createdAt = now, imageDataUrl = None\<rparr>"

definition report_item ::
  "string \<Rightarrow> string \<Rightarrow> string \<Rightarrow> string \<Rightarrow> coords option \<Rightarrow> string option \<Rightarrow> item" where
  "report_item uid now ty desc loc img =
     \<lparr>item_id = uid, kind = REPORT, item_type = ty, description = trim desc,
      location = loc, createdAt = now, imageDataUrl = img\<rparr>"

section \<open>Encoding as the stored object\<close>

definition coords_json :: "coords \<Rightarrow> json" where
  "coords_json c =
     JObj [(''lat'', JNum (lat c)), (''lng'', JNum (lng c)), (''acc'', JNum (num_of_int (acc c)))]"

definition item_json :: "item \<Rightarrow> json" where
  "item_json it =
     JObj [(''id'', JStr (item_id it)),
           (''kind'', JStr (kind_str (kind it))),
           (''type'', JStr (item_type it)),
           (''description'', JStr (description it)),
           (''location'', case location it of None \<Rightarrow> JNull | Some c \<Rightarrow> coords_json c),
           (''createdAt'', JStr (createdAt it)),
           (''imageDataUrl'', case imageDataUrl it of None \<Rightarrow> JNull | Some u \<Rightarrow> JStr u)]"

text \<open>A record whose numbers are in canonical form: what the platform delivers, since a
  number has exactly one canonical representation.\<close>

definition wf_item :: "item \<Rightarrow> bool" where
  "wf_item it \<longleftrightarrow> (case location it of None \<Rightarrow> True | Some c \<Rightarrow> canonical (lat c) \<and> canonical (lng c))"

definition loc_ok :: "coords option \<Rightarrow> bool" where
  "loc_ok loc \<longleftrightarrow> (case loc of None \<Rightarrow> True | Some c \<Rightarrow> canonical (lat c) \<and> canonical (lng c))"

section \<open>Reading a stored object back\<close>

fun num_int :: "jsnum \<Rightarrow> int option" where
  "num_int (Num m e) = (if 0 \<le> e then Some (m * 10 ^ nat e) else None)"

definition str_of :: "json \<Rightarrow> string option" where
  "str_of v = (case v of JStr s \<Rightarrow> Some s | _ \<Rightarrow> None)"

definition kind_of :: "json \<Rightarrow> kind option" where
  "kind_of v = (if v = JStr ''PANIC'' then Some PANIC else if v = JStr ''REPORT'' then Some REPORT else None)"

definition coords_of :: "json \<Rightarrow> coords option option" where
  "coords_of v =
     (case v of
        JNull \<Rightarrow> Some None
      | JObj kvs \<Rightarrow>
          (case (map_of kvs ''lat'', map_of kvs ''lng'', map_of kvs ''acc'') of
             (Some (JNum la), Some (JNum ln), Some (JNum ac)) \<Rightarrow>
               map_option (\<lambda>a. Some \<lparr>lat = la, lng = ln, acc = a\<rparr>) (num_int ac)
           | _ \<Rightarrow> None)
      | _ \<Rightarrow> None)"

definition image_of :: "json \<Rightarrow> string option option" where
  "image_of v = (case v of JNull \<Rightarrow> Some None | JStr u \<Rightarrow> Some (Some u) | _ \<Rightarrow> None)"

definition item_of_json :: "json \<Rightarrow> item option" where
  "item_of_json v =
     (case v of
        JObj kvs \<Rightarrow>
          (case (Option.bind (map_of kvs ''id'') str_of, Option.bind (map_of kvs ''kind'') kind_of,
                 Option.bind (map_of kvs ''type'') str_of, Option.bind (map_of kvs ''description'') str_of,
                 Option.bind (map_of kvs ''location'') coords_of, Option.bind (map_of kvs ''createdAt'') str_of,
                 Option.bind (map_of kvs ''imageDataUrl'') image_of) of
             (Some i, Some k, Some t, Some d, Some l, Some c, Some u) \<Rightarrow>
               Some \<lparr>item_id = i, kind = k, item_type = t, description = d,
                     location = l, createdAt = c, imageDataUrl = u\<rparr>
           | _ \<Rightarrow> None)
      | _ \<Rightarrow> None)"

section \<open>Encoding lemmas\<close>

lemma num_int_norm_num: "0 \<le> e \<Longrightarrow> num_int (norm_num m e) = Some (m * 10 ^ nat e)"
proof (induction m e rule: norm_num.induct)
  case (1 m e)
  show ?case
  proof (cases "m = 0 \<or> \<not> (10::int) dvd m")
    case True
    with "1.prems" show ?thesis by (auto simp: norm_num.simps[of m e])
  next
    case False
    then have eq: "norm_num m e = norm_num (m div 10) (e + 1)"
      by (simp add: norm_num.simps[of m e])
    have "num_int (norm_num (m div 10) (e + 1)) = Some (m div 10 * 10 ^ nat (e + 1))"
      using False "1.prems" by (intro "1.IH") auto
    moreover have "m div 10 * 10 ^ nat (e + 1) = m * 10 ^ nat e"
      using False "1.prems" by (simp add: nat_add_distrib)
    ultimately show ?thesis by (simp add: eq)
  qed
qed

lemma num_int_num_of_int [simp]: "num_int (num_of_int i) = Some i"
  by (simp add: num_of_int_def num_int_norm_num)

lemma kind_of_kind_str [simp]: "kind_of (JStr (kind_str k)) = Some k"
  by (cases k) (simp_all add: kind_of_def kind_str_def)

lemma item_of_json_item_json: "item_of_json (item_json it) = Some it"
  by (cases "location it"; cases "imageDataUrl it")
     (simp_all add: item_of_json_def item_json_def str_of_def coords_of_def coords_json_def image_of_def)

lemma not_array_index_alpha: "k \<noteq> [] \<Longrightarrow> \<not> is_digit (hd k) \<Longrightarrow> \<not> is_array_index k"
  by (cases k) (auto simp: is_array_index_def)

lemma canonical_norm_num: "canonical (norm_num m e)"
  by (induction m e rule: norm_num.induct) (simp add: norm_num.simps)

lemma wf_json_coords_json: "canonical (lat c) \<Longrightarrow> canonical (lng c) \<Longrightarrow> wf_json (coords_json c)"
  by (simp add: coords_json_def build_obj_def obj_put_def is_array_index_def is_digit_def num_of_int_def canonical_norm_num)

lemma wf_json_item_json: "wf_item it \<Longrightarrow> wf_json (item_json it)"
  by (cases "location it"; cases "imageDataUrl it")
     (simp_all add: wf_item_def item_json_def build_obj_def obj_put_def is_array_index_def is_digit_def wf_json_coords_json)
section \<open>Reading encoded records\<close>

lemma get_prop_item_json [simp]:
  "get_prop (item_json it) ''kind'' = Inr (V (JStr (kind_str (kind it))))"
  by (simp add: get_prop_def item_json_def)
lemma get_prop_item_json2 [simp]:
  "get_prop (item_json it) ''type'' = Inr (V (JStr (item_type it)))"
  "get_prop (item_json it) ''description'' = Inr (V (JStr (description it)))"
  "get_prop (item_json it) ''id'' = Inr (V (JStr (item_id it)))"
  "get_prop (item_json it) ''createdAt'' = Inr (V (JStr (createdAt it)))"
  "get_prop (item_json it) ''location'' = Inr (V (case location it of None \<Rightarrow> JNull | Some c \<Rightarrow> coords_json c))"
  "get_prop (item_json it) ''imageDataUrl'' = Inr (V (case imageDataUrl it of None \<Rightarrow> JNull | Some u \<Rightarrow> JStr u))"
  by (simp_all add: get_prop_def item_json_def)

lemma get_prop_coords_json [simp]:
  "get_prop (coords_json c) ''lat'' = Inr (V (JNum (lat c)))"
  "get_prop (coords_json c) ''lng'' = Inr (V (JNum (lng c)))"
  "get_prop (coords_json c) ''acc'' = Inr (V (JNum (num_of_int (acc c))))"
  by (simp_all add: get_prop_def coords_json_def)

lemma truthy_coords_json [simp]: "truthy (V (coords_json c))"
  by (simp add: coords_json_def)

lemma to_str_or_empty [simp]: "to_str (js_or (V (JStr s)) (V (JStr ''''))) = s"
  by (simp add: js_or_def)

lemma kind_str_eq_iff [simp]: "kind_str k = kind_str k' \<longleftrightarrow> k = k'"
  by (cases k; cases k') (simp_all add: kind_str_def)

lemma kind_str_not_ALL [simp]: "kind_str k \<noteq> ''ALL''"
  by (cases k) (simp_all add: kind_str_def)

lemma wf_item_loc_ok: "wf_item it \<longleftrightarrow> loc_ok (location it)"
  by (simp add: wf_item_def loc_ok_def)

end
