(* ===== verification/Query.thy ===== *)
theory Query
  imports Item
begin

text \<open>
  The query engine (src/app.js \<open>matchesSearch\<close>, lines 191-195, \<open>matchesFilter\<close>,
  lines 197-200, and the \<open>items.filter(...)\<close> of \<open>renderFeed\<close>, line 207). The code
  runs on whatever \<open>JSON.parse\<close> returned, so it is modelled over \<open>json\<close> values
  with JavaScript's property access and string conversion; a stored \<open>null\<close> entry
  makes it throw. \<open>query\<close> is the specification over typed records (spec 4.2), and
  \<open>filter_feed_item_json\<close> shows the code computes it on every store of encoded
  records.
\<close>

section \<open>The code\<close>

definition matches_search :: "json \<Rightarrow> string \<Rightarrow> bool js" where
  "matches_search it q =
     (if q = [] then Inr True
      else js_bind (get_prop it ''kind'') (\<lambda>k.
           js_bind (get_prop it ''type'') (\<lambda>t.
           js_bind (get_prop it ''description'') (\<lambda>d.
             let hay = to_str k @ '' '' @ to_str (js_or t (V (JStr ''''))) @ '' ''
                       @ to_str (js_or d (V (JStr '''')))
             in Inr (str_includes (to_lower hay) (to_lower q))))))"

definition matches_filter :: "json \<Rightarrow> string \<Rightarrow> bool js" where
  "matches_filter it f =
     (if f = ''ALL'' then Inr True
      else js_bind (get_prop it ''kind'') (\<lambda>k. Inr (str_eq k f)))"

text \<open>\<open>items.filter(it => matchesSearch(it, q) && matchesFilter(it, f))\<close>: \<open>&&\<close>
  evaluates its right operand only when the left one is true.\<close>

definition feed_pred :: "string \<Rightarrow> string \<Rightarrow> json \<Rightarrow> bool js" where
  "feed_pred q f it = js_bind (matches_search it q) (\<lambda>b. if b then matches_filter it f else Inr False)"

definition filter_feed :: "json list \<Rightarrow> string \<Rightarrow> string \<Rightarrow> json list js" where
  "filter_feed items q f = js_filter (feed_pred q f) items"

section \<open>The specification\<close>

datatype category = AllKinds | Only kind

definition category_str :: "category \<Rightarrow> string" where
  "category_str c = (case c of AllKinds \<Rightarrow> ''ALL'' | Only k \<Rightarrow> kind_str k)"

definition hay :: "item \<Rightarrow> string" where
  "hay it = kind_str (kind it) @ '' '' @ item_type it @ '' '' @ description it"

definition item_matches :: "string \<Rightarrow> category \<Rightarrow> item \<Rightarrow> bool" where
  "item_matches q c it \<longleftrightarrow>
     (q = [] \<or> sublist (to_lower q) (to_lower (hay it)))
     \<and> (case c of AllKinds \<Rightarrow> True | Only k \<Rightarrow> kind it = k)"

definition query :: "item list \<Rightarrow> string \<Rightarrow> category \<Rightarrow> item list" where
  "query its q c = filter (item_matches q c) its"

section \<open>Reading encoded records\<close>

lemma matches_search_item_json:
  "matches_search (item_json it) q = Inr (q = [] \<or> sublist (to_lower q) (to_lower (hay it)))"
  by (simp add: matches_search_def hay_def str_includes_sublist)

lemma matches_filter_item_json:
  "matches_filter (item_json it) (category_str c) = Inr (case c of AllKinds \<Rightarrow> True | Only k \<Rightarrow> kind it = k)"
  by (cases c) (simp_all add: matches_filter_def category_str_def str_eq_def)

lemma filter_feed_item_json:
  "filter_feed (map item_json its) q (category_str c) = Inr (map item_json (query its q c))"
  unfolding filter_feed_def query_def
  by (rule js_filter_map)
     (simp add: feed_pred_def matches_search_item_json matches_filter_item_json item_matches_def)

end
