(* ===== verification/Html.thy ===== *)
theory Html
  imports Prelude
begin

text \<open>
  \<open>escapeHtml\<close> (src/app.js lines 182-189): five \<open>replaceAll\<close> passes, ampersand
  first. \<open>esc_char\<close> is the one-pass reference it is equivalent to. \<open>html_decode\<close>
  is what the HTML parser makes of an attribute value the feed template wrote, which
  \<open>btn.getAttribute(...)\<close> returns (lines 250, 260): the input stream's newline
  normalisation (CR LF and a lone CR become LF), the tokenizer's replacement of NUL
  in an attribute value by U+FFFD, and the decoding of character references. On text
  produced by \<open>escape_html\<close> every ampersand starts one of the five references it
  writes, so \<open>decode_refs\<close> decodes only those five.
\<close>

abbreviation squote :: char where
  "squote \<equiv> CHR 0x27"

abbreviation dq :: char where
  "dq \<equiv> CHR 0x22"

definition escape_html :: "string \<Rightarrow> string" where
  "escape_html s =
     replace_all [squote] ''&#039;''
       (replace_all [dq] ''&quot;''
         (replace_all ''>'' ''&gt;''
           (replace_all ''<'' ''&lt;''
             (replace_all ''&'' ''&amp;'' s))))"

definition esc_char :: "char \<Rightarrow> string" where
  "esc_char c =
     (if c = CHR ''&'' then ''&amp;''
      else if c = CHR ''<'' then ''&lt;''
      else if c = CHR ''>'' then ''&gt;''
      else if c = dq then ''&quot;''
      else if c = squote then ''&#039;''
      else [c])"

function decode_refs :: "string \<Rightarrow> string" where
  "decode_refs [] = []"
| "decode_refs (c # cs) =
     (if c = CHR ''&'' then
        (if prefix ''amp;'' cs then CHR ''&'' # decode_refs (drop 4 cs)
         else if prefix ''lt;'' cs then CHR ''<'' # decode_refs (drop 3 cs)
         else if prefix ''gt;'' cs then CHR ''>'' # decode_refs (drop 3 cs)
         else if prefix ''quot;'' cs then dq # decode_refs (drop 5 cs)
         else if prefix ''#039;'' cs then squote # decode_refs (drop 5 cs)
         else c # decode_refs cs)
      else c # decode_refs cs)"
  by pat_completeness auto
termination
  by (relation "measure length") auto

text \<open>Newline normalisation of the input stream, and an attribute value's NUL.\<close>

fun html_newlines :: "string \<Rightarrow> string" where
  "html_newlines [] = []"
| "html_newlines [c] = (if c = CHR 0x0D then [CHR 0x0A] else [c])"
| "html_newlines (c # d # cs) =
     (if c = CHR 0x0D then CHR 0x0A # (if d = CHR 0x0A then html_newlines cs else html_newlines (d # cs))
      else c # html_newlines (d # cs))"

definition attr_char :: "char \<Rightarrow> string" where
  "attr_char c = (if c = CHR 0x00 then [CHR 0xEF, CHR 0xBF, CHR 0xBD] else [c])"

definition attr_norm :: "string \<Rightarrow> string" where
  "attr_norm s = concat (map attr_char (html_newlines s))"

definition html_decode :: "string \<Rightarrow> string" where
  "html_decode s = decode_refs (attr_norm s)"

lemma replace_all_single_append:
  "replace_all [p] rep (a @ b) = replace_all [p] rep a @ replace_all [p] rep b"
  by (simp add: replace_all_single)

lemma escape_html_Nil: "escape_html [] = []"
  by (simp add: escape_html_def)

lemma escape_html_Cons: "escape_html (c # s) = esc_char c @ escape_html s"
proof -
  have "escape_html (c # s) = escape_html ([c] @ s)"
    by simp
  also have "\<dots> = escape_html [c] @ escape_html s"
    unfolding escape_html_def by (simp only: replace_all_single_append)
  finally have "escape_html (c # s) = escape_html [c] @ escape_html s" .
  moreover have "escape_html [c] = esc_char c"
    by (simp add: escape_html_def esc_char_def)
  ultimately show ?thesis by simp
qed

lemma escape_html_eq: "escape_html s = concat (map esc_char s)"
  by (induction s) (simp_all add: escape_html_Nil escape_html_Cons)

lemma decode_refs_esc_char: "decode_refs (esc_char c @ r) = c # decode_refs r"
  by (simp add: esc_char_def)

lemma decode_refs_escape_html: "decode_refs (escape_html s) = s"
  by (induction s) (simp_all add: escape_html_eq decode_refs_esc_char[simplified append_assoc])

lemma html_newlines_Cons_other: "CHR 0x0D \<noteq> c \<Longrightarrow> html_newlines (c # r) = c # html_newlines r"
  by (cases r) simp_all

lemma html_newlines_append_other:
  "CHR 0x0D \<notin> set xs \<Longrightarrow> html_newlines (xs @ ys) = xs @ html_newlines ys"
  by (induction xs) (simp_all add: html_newlines_Cons_other)

lemma html_newlines_escape: "html_newlines (escape_html s) = escape_html (html_newlines s)"
proof (induction s rule: html_newlines.induct)
  case (3 c d cs)
  show ?case
  proof (cases "c = CHR 0x0D")
    case True
    then show ?thesis using 3
      by (cases "d = CHR 0x0A")
         (auto simp: escape_html_eq esc_char_def html_newlines_append_other html_newlines_Cons_other)
  next
    case False
    then show ?thesis using 3
      by (simp add: escape_html_eq html_newlines_append_other esc_char_def)
  qed
qed (simp_all add: escape_html_eq esc_char_def)

lemma attr_escape: "concat (map attr_char (escape_html s)) = escape_html (concat (map attr_char s))"
  by (induction s) (simp_all add: escape_html_eq esc_char_def attr_char_def)

lemma html_decode_escape_html: "html_decode (escape_html s) = attr_norm s"
  by (simp add: html_decode_def attr_norm_def html_newlines_escape attr_escape decode_refs_escape_html)

lemma html_newlines_no_cr: "CHR 0x0D \<notin> set (html_newlines s)"
  by (induction s rule: html_newlines.induct) auto

lemma html_newlines_id: "CHR 0x0D \<notin> set s \<Longrightarrow> html_newlines s = s"
  using html_newlines_append_other[of s "[]"] by simp

lemma attr_norm_id_iff: "attr_norm s = s \<longleftrightarrow> CHR 0x0D \<notin> set s \<and> CHR 0x00 \<notin> set s"
proof
  assume e: "attr_norm s = s"
  have "CHR 0x0D \<notin> set (attr_norm s) \<and> CHR 0x00 \<notin> set (attr_norm s)"
    using html_newlines_no_cr[of s] by (auto simp: attr_norm_def attr_char_def split: if_splits)
  then show "CHR 0x0D \<notin> set s \<and> CHR 0x00 \<notin> set s" using e by simp
next
  assume "CHR 0x0D \<notin> set s \<and> CHR 0x00 \<notin> set s"
  moreover have "CHR 0x00 \<notin> set t \<Longrightarrow> concat (map attr_char t) = t" for t
    by (induction t) (auto simp: attr_char_def)
  ultimately show "attr_norm s = s" by (simp add: attr_norm_def html_newlines_id)
qed

lemma escape_html_safe: "c \<in> set (escape_html s) \<Longrightarrow> c \<notin> {CHR ''<'', CHR ''>'', dq, squote}"
  by (auto simp: escape_html_eq esc_char_def split: if_splits)

end
