(* ===== verification/JsonRoundtrip.thy ===== *)
theory JsonRoundtrip
  imports Json
begin

text \<open>
  \<open>JSON.parse\<close> inverts \<open>JSON.stringify\<close> on every value it can produce
  (\<open>json_parse_stringify\<close>). The proof goes bottom-up: digit strings
  (\<open>digits_val_nat_str\<close>), string literals character by character
  (\<open>parse_string_quote_char\<close>), the five printing forms of \<open>Number::toString\<close>
  (\<open>pos_num_parts\<close>, \<open>parse_num_to_string\<close>), array elements and object members
  (\<open>parse_elems_join\<close>, \<open>parse_members_join\<close>), and a computation induction
  over \<open>stringify\<close> (\<open>parses_back_all\<close>) with fuel at least the length of the text.
\<close>

section \<open>Digit strings\<close>

lemma is_digit_char_of [simp]: "(n::nat) < 10 \<Longrightarrow> is_digit (char_of (48 + n))"
  by (simp add: is_digit_def)

lemma digit_val_char_of [simp]: "(n::nat) < 10 \<Longrightarrow> digit_val (char_of (48 + n)) = n"
  by (simp add: digit_val_def)

lemma nat_str_digits: "c \<in> set (nat_str n) \<Longrightarrow> is_digit c"
  by (induction n rule: nat_str.induct) (subst (asm) nat_str.simps, auto split: if_splits)

lemma nat_str_not_Nil [simp]: "nat_str n \<noteq> []"
  by (subst nat_str.simps) (simp add: char_of_eq_iff take_bit_eq_mod)

lemma digits_val_append: "digits_val (a @ b) = digits_val a * 10 ^ length b + digits_val b"
proof (induction b rule: rev_induct)
  case Nil
  then show ?case by (simp add: digits_val_def)
next
  case (snoc x b)
  then show ?case by (simp add: digits_val_def algebra_simps)
qed

lemma digits_val_single [simp]: "digits_val [c] = digit_val c"
  by (simp add: digits_val_def)

lemma digits_val_nat_str [simp]: "digits_val (nat_str n) = n"
  by (induction n rule: nat_str.induct) (subst nat_str.simps, simp add: digits_val_append)

lemma hd_nat_str: "0 < n \<Longrightarrow> hd (nat_str n) \<noteq> CHR ''0''"
proof (induction n rule: nat_str.induct)
  case (1 n)
  show ?case
  proof (cases "n < 10")
    case True
    with "1.prems" show ?thesis by (subst nat_str.simps) (simp add: char_of_eq_iff take_bit_eq_mod)
  next
    case False
    then have "hd (nat_str (n div 10)) \<noteq> CHR ''0''" by (intro "1.IH") auto
    with False show ?thesis by (subst nat_str.simps) (simp add: char_of_eq_iff take_bit_eq_mod)
  qed
qed

lemma digits_val_zeros [simp]: "digits_val (replicate k CHR ''0'') = 0"
  by (induction k) (simp_all add: digits_val_def digit_val_def)

lemma hex_val_hex_digit [simp]: "(d::nat) < 16 \<Longrightarrow> hex_val (hex_digit d) = Some d"
  by (auto simp: hex_val_def hex_digit_def Let_def)

lemma hex_val_zero [simp]: "hex_val (CHR ''0'') = Some 0"
  by (simp add: hex_val_def)

lemma char_of_of_char_eq: "of_char c = (n::nat) \<Longrightarrow> char_of n = c"
  by auto

lemma parse_string_quote_char:
  "parse_string (quote_char c @ rest) = cons_str [c] (parse_string rest)"
proof -
  define n where "n = (of_char c :: nat)"
  have c: "c = char_of n" by (simp add: n_def)
  have n256: "n < 256" by (simp add: n_def)
  consider "n = 8" | "n = 9" | "n = 10" | "n = 12" | "n = 13" | "c = dquote" | "c = bslash"
    | "n < 32" "n \<notin> {8, 9, 10, 12, 13}" | "32 \<le> n" "c \<noteq> dquote" "c \<noteq> bslash"
    by (cases "n < 32") (auto simp: n_def)
  then show ?thesis
  proof cases
    case 8
    have nq: "c \<noteq> dquote" "c \<noteq> bslash"
      using 8 c by (auto simp: char_of_eq_iff take_bit_eq_mod)
    have "quote_char c = [bslash, CHR ''u'', CHR ''0'', CHR ''0'', hex_digit (n div 16), hex_digit (n mod 16)]"
      using 8 nq by (auto simp: quote_char_def n_def[symmetric] Let_def)
    moreover have "is_hex4 [CHR ''0'', CHR ''0'', hex_digit (n div 16), hex_digit (n mod 16)]"
      using 8 by (simp add: is_hex4_def)
    moreover have "hex4_val ([CHR ''0'', CHR ''0'', hex_digit (n div 16), hex_digit (n mod 16)] @ rest) = n"
      using 8 by (simp add: hex4_val_def)
    moreover have "utf8_encode n = [c]" using 8 c by (simp add: utf8_encode_def)
    moreover have "\<not> is_high_surrogate n" using 8 by (simp add: is_high_surrogate_def)
    ultimately show ?thesis
      using nq by (simp add: is_hex4_def)
  next
    case 1
    then have "c = CHR 0x08" using c by (simp add: char_of_eq_iff)
    then show ?thesis by (simp add: quote_char_def simple_escape_def)
  next
    case 2
    then have "c = CHR 0x09" using c by (simp add: char_of_eq_iff)
    then show ?thesis by (simp add: quote_char_def simple_escape_def)
  next
    case 3
    then have "c = CHR 0x0A" using c by (simp add: char_of_eq_iff)
    then show ?thesis by (simp add: quote_char_def simple_escape_def)
  next
    case 4
    then have "c = CHR 0x0C" using c by (simp add: char_of_eq_iff)
    then show ?thesis by (simp add: quote_char_def simple_escape_def)
  next
    case 5
    then have "c = CHR 0x0D" using c by (simp add: char_of_eq_iff)
    then show ?thesis by (simp add: quote_char_def simple_escape_def)
  next
    case 6
    then show ?thesis by (simp add: quote_char_def simple_escape_def)
  next
    case 7
    then show ?thesis by (simp add: quote_char_def simple_escape_def)
  next
    case 9
    then have "quote_char c = [c]" by (simp add: quote_char_def n_def[symmetric] Let_def)
    with 9 show ?thesis by (simp add: n_def[symmetric])
  qed
qed

lemma parse_string_quoted:
  "parse_string (concat (map quote_char s) @ dquote # r) = Some (s, r)"
  by (induction s) (simp_all add: parse_string_quote_char cons_str_def)

lemma parse_quote_str:
  "quote_str s @ r = dquote # (concat (map quote_char s) @ dquote # r)"
  by (simp add: quote_str_def)

section \<open>Numbers\<close>

definition value_end :: "string \<Rightarrow> bool" where
  "value_end r \<longleftrightarrow> (case r of [] \<Rightarrow> True | c # _ \<Rightarrow> c \<in> {CHR '','', CHR '']'', CHR ''}''})"

lemma value_end_simps [simp]:
  "value_end []"
  "value_end (CHR '','' # r)" "value_end (CHR '']'' # r)" "value_end (CHR ''}'' # r)"
  by (simp_all add: value_end_def)

lemma value_end_no_digit: "value_end r \<Longrightarrow> takeWhile is_digit r = [] \<and> dropWhile is_digit r = r"
  by (cases r) (auto simp: value_end_def is_digit_def)

lemma takeWhile_digits: "\<forall>c \<in> set ds. is_digit c \<Longrightarrow> takeWhile is_digit (ds @ r) = ds @ takeWhile is_digit r"
  by (induction ds) auto

lemma dropWhile_digits: "\<forall>c \<in> set ds. is_digit c \<Longrightarrow> dropWhile is_digit (ds @ r) = dropWhile is_digit r"
  by (induction ds) auto

lemma int_part_digits:
  assumes "ds \<noteq> []" "\<forall>c \<in> set ds. is_digit c" "hd ds \<noteq> CHR ''0''" "takeWhile is_digit r = []"
    "dropWhile is_digit r = r"
  shows "parse_int_part (ds @ r) = Some (ds, r)"
  using assms by (cases ds) (auto simp: parse_int_part_def takeWhile_digits dropWhile_digits)

lemma int_part_zero: "parse_int_part (CHR ''0'' # r) = Some (''0'', r)"
  by (simp add: parse_int_part_def)

lemma frac_none: "(case r of [] \<Rightarrow> True | c # _ \<Rightarrow> c \<noteq> CHR ''.'') \<Longrightarrow> parse_frac r = Some ([], r)"
  by (cases r) (auto simp: parse_frac_def)

lemma frac_digits:
  assumes "fs \<noteq> []" "\<forall>c \<in> set fs. is_digit c" "takeWhile is_digit r = []" "dropWhile is_digit r = r"
  shows "parse_frac (CHR ''.'' # fs @ r) = Some (fs, r)"
  using assms by (simp add: parse_frac_def takeWhile_digits dropWhile_digits)

lemma exp_none: "(case r of [] \<Rightarrow> True | c # _ \<Rightarrow> c \<noteq> CHR ''e'' \<and> c \<noteq> CHR ''E'') \<Longrightarrow> parse_exp r = Some (0, r)"
  by (cases r) (auto simp: parse_exp_def)

lemma exp_digits:
  assumes "takeWhile is_digit r = []" "dropWhile is_digit r = r"
  shows "parse_exp (CHR ''e'' # exp_str x @ r) = Some (x, r)"
proof -
  have d: "\<forall>c \<in> set (nat_str (nat \<bar>x\<bar>)). is_digit c" by (auto intro: nat_str_digits)
  show ?thesis
    using assms d
    by (cases "0 \<le> x") (simp_all add: parse_exp_def exp_str_def takeWhile_digits dropWhile_digits)
qed

lemma parse_number_unsigned:
  assumes "case s1 of [] \<Rightarrow> True | c # _ \<Rightarrow> c \<noteq> CHR ''-''"
    "parse_int_part s1 = Some (ip, s2)" "parse_frac s2 = Some (fp, s3)" "parse_exp s3 = Some (ex, s4)"
  shows "parse_number s1 = Some (norm_num (int (digits_val (ip @ fp))) (ex - int (length fp)), s4)"
proof -
  have "(case s1 of c # r \<Rightarrow> if c = CHR ''-'' then (True, r) else (False, s1) | [] \<Rightarrow> (False, s1)) = (False, s1)"
    using assms(1) by (cases s1) auto
  then show ?thesis using assms(2-4) by (simp add: parse_number_def)
qed

lemma parse_number_neg:
  assumes "parse_int_part s1 = Some (ip, s2)" "parse_frac s2 = Some (fp, s3)" "parse_exp s3 = Some (ex, s4)"
  shows "parse_number (CHR ''-'' # s1) = Some (norm_num (- int (digits_val (ip @ fp))) (ex - int (length fp)), s4)"
  using assms by (simp add: parse_number_def)

lemma norm_num_canonical: "canonical (Num m e) \<Longrightarrow> norm_num m e = Num m e"
  by (subst norm_num.simps) (auto split: if_splits)

lemma norm_num_shift: "norm_num (m * 10 ^ j) e = norm_num m (e + int j)"
proof (induction j arbitrary: e)
  case 0
  then show ?case by simp
next
  case (Suc j)
  show ?case
  proof (cases "m = 0")
    case True
    then show ?thesis by (simp add: norm_num.simps)
  next
    case False
    then have "norm_num (m * 10 ^ Suc j) e = norm_num (m * 10 ^ j) (e + 1)"
      by (subst norm_num.simps) (simp add: mult.commute[of 10] mult.assoc)
    also have "\<dots> = norm_num m (e + int (Suc j))"
      using Suc.IH by (simp add: add.assoc)
    finally show ?thesis .
  qed
qed

lemma value_end_frac: "value_end r \<Longrightarrow> parse_frac r = Some ([], r)"
  by (rule frac_none) (auto simp: value_end_def split: list.splits)

lemma value_end_exp: "value_end r \<Longrightarrow> parse_exp r = Some (0, r)"
  by (rule exp_none) (auto simp: value_end_def split: list.splits)

lemma zeros_digits: "\<forall>c \<in> set (replicate j CHR ''0''). is_digit c"
  by (simp add: is_digit_def)

lemma nat_str_facts:
  assumes "0 < d"
  shows "nat_str d \<noteq> []" "\<forall>c \<in> set (nat_str d). is_digit c" "hd (nat_str d) \<noteq> CHR ''0''"
proof -
  show "nat_str d \<noteq> []" by simp
  show "\<forall>c \<in> set (nat_str d). is_digit c" by (blast intro: nat_str_digits)
  show "hd (nat_str d) \<noteq> CHR ''0''" using assms by (rule hd_nat_str)
qed

text \<open>Parts of the decimal \<open>s \<cdot> 10^j\<close> printed as digits and zeros.\<close>

lemma parts_int:
  assumes "0 < d" "value_end r"
  shows "parse_int_part ((nat_str d @ replicate j CHR ''0'') @ r) = Some (nat_str d @ replicate j CHR ''0'', r)"
proof -
  have "takeWhile is_digit r = []" "dropWhile is_digit r = r" using assms(2) by (auto dest: value_end_no_digit)
  with nat_str_facts[OF assms(1)] show ?thesis
    by (intro int_part_digits) (auto simp: zeros_digits)
qed

lemma parts_point:
  assumes "0 < d" "0 < p" "p < length (nat_str d)" "value_end r"
  shows "parse_int_part ((take p (nat_str d) @ ''.'' @ drop p (nat_str d)) @ r)
           = Some (take p (nat_str d), CHR ''.'' # drop p (nat_str d) @ r)"
    and "parse_frac (CHR ''.'' # drop p (nat_str d) @ r) = Some (drop p (nat_str d), r)"
proof -
  note f = nat_str_facts[OF assms(1)]
  have r: "takeWhile is_digit r = []" "dropWhile is_digit r = r" using assms(4) by (auto dest: value_end_no_digit)
  have t: "take p (nat_str d) \<noteq> []" "hd (take p (nat_str d)) = hd (nat_str d)"
    using assms(2) f(1) by (auto simp: hd_take)
  have dg: "\<forall>c \<in> set (take p (nat_str d)). is_digit c" "\<forall>c \<in> set (drop p (nat_str d)). is_digit c"
    using f(2) by (auto dest: in_set_takeD in_set_dropD)
  show "parse_int_part ((take p (nat_str d) @ ''.'' @ drop p (nat_str d)) @ r)
           = Some (take p (nat_str d), CHR ''.'' # drop p (nat_str d) @ r)"
    using t dg f(3) by (simp only: append_assoc append.simps(1) append.simps(2))
                       (rule int_part_digits, auto simp: is_digit_def)
  show "parse_frac (CHR ''.'' # drop p (nat_str d) @ r) = Some (drop p (nat_str d), r)"
    using dg r assms(3) by (intro frac_digits) auto
qed

lemma digits_val_zero_char [simp]: "digits_val ''0'' = 0"
  by (simp add: digits_val_def digit_val_def)

lemma digits_val_lead_zero [simp]: "digits_val (CHR ''0'' # xs) = digits_val xs"
  by (simp add: digits_val_def digit_val_def)

lemma digits_val_lead_zeros [simp]: "digits_val (replicate j CHR ''0'' @ xs) = digits_val xs"
  by (induction j) simp_all

lemma pos_num_parts:
  assumes d: "0 < d" and r: "value_end r"
  shows "\<exists>ip fp ex s2 s3. parse_int_part (pos_num_str d e @ r) = Some (ip, s2)
           \<and> parse_frac s2 = Some (fp, s3) \<and> parse_exp s3 = Some (ex, r)
           \<and> norm_num (int (digits_val (ip @ fp))) (ex - int (length fp)) = norm_num (int d) e"
proof -
  define s where "s = nat_str d"
  define k where "k = int (length s)"
  define n where "n = e + k"
  note f = nat_str_facts[OF d, folded s_def]
  have rr: "takeWhile is_digit r = []" "dropWhile is_digit r = r" using r by (auto dest: value_end_no_digit)
  have sv: "digits_val s = d" by (simp add: s_def)
  have kpos: "0 < k" using f(1) by (simp add: k_def)
  have pn: "pos_num_str d e =
      (if k \<le> n \<and> n \<le> 21 then s @ replicate (nat (n - k)) CHR ''0''
       else if 0 < n \<and> n \<le> 21 then take (nat n) s @ ''.'' @ drop (nat n) s
       else if -6 < n \<and> n \<le> 0 then ''0.'' @ replicate (nat (- n)) CHR ''0'' @ s
       else if k = 1 then s @ ''e'' @ exp_str (n - 1)
       else [hd s] @ ''.'' @ tl s @ ''e'' @ exp_str (n - 1))"
    by (simp add: pos_num_str_def Let_def s_def k_def n_def)
  consider (B1) "k \<le> n \<and> n \<le> 21" | (B2) "\<not> (k \<le> n \<and> n \<le> 21)" "0 < n \<and> n \<le> 21"
    | (B3) "\<not> (0 < n \<and> n \<le> 21)" "-6 < n \<and> n \<le> 0"
    | (B4) "\<not> (k \<le> n \<and> n \<le> 21)" "\<not> (0 < n \<and> n \<le> 21)" "\<not> (-6 < n \<and> n \<le> 0)" "k = 1"
    | (B5) "\<not> (k \<le> n \<and> n \<le> 21)" "\<not> (0 < n \<and> n \<le> 21)" "\<not> (-6 < n \<and> n \<le> 0)" "k \<noteq> 1"
    by linarith
  then show ?thesis
  proof cases
    case B1
    let ?j = "nat (n - k)"
    have "norm_num (int (digits_val (s @ replicate ?j CHR ''0''))) 0 = norm_num (int d) e"
      using B1 norm_num_shift[of "int d" ?j 0] by (simp add: digits_val_append sv n_def)
    moreover have "pos_num_str d e = s @ replicate ?j CHR ''0''" using B1 by (simp add: pn)
    ultimately show ?thesis
      using parts_int[OF d r, of ?j] value_end_frac[OF r] value_end_exp[OF r]
      by (simp add: s_def)
  next
    case B2
    have p: "0 < nat n" "nat n < length s" using B2 by (auto simp: k_def)
    have "norm_num (int (digits_val (take (nat n) s @ drop (nat n) s))) (0 - int (length (drop (nat n) s)))
          = norm_num (int d) e"
      using p B2 by (simp add: sv n_def k_def)
    moreover have "pos_num_str d e = take (nat n) s @ ''.'' @ drop (nat n) s" using B2 by (simp add: pn)
    ultimately show ?thesis
      using parts_point[OF d _ _ r, of "nat n", folded s_def] p value_end_exp[OF r]
      by simp
  next
    case B3
    let ?j = "nat (- n)"
    have z: "parse_int_part ((''0.'' @ replicate ?j CHR ''0'' @ s) @ r)
             = Some (''0'', CHR ''.'' # (replicate ?j CHR ''0'' @ s) @ r)"
      by (simp add: int_part_zero)
    have fr: "parse_frac (CHR ''.'' # (replicate ?j CHR ''0'' @ s) @ r) = Some (replicate ?j CHR ''0'' @ s, r)"
      using f rr by (intro frac_digits) (auto simp: is_digit_def)
    have "norm_num (int (digits_val (''0'' @ replicate ?j CHR ''0'' @ s)))
            (0 - int (length (replicate ?j CHR ''0'' @ s))) = norm_num (int d) e"
      using B3 by (simp add: digits_val_append sv n_def k_def)
    moreover have "pos_num_str d e = ''0.'' @ replicate ?j CHR ''0'' @ s" using B3 kpos by (simp add: pn)
    ultimately show ?thesis
      using z fr value_end_exp[OF r] by (simp del: append.simps)
  next
    case B4
    have ne: "\<not> is_digit (CHR ''e'')" by (simp add: is_digit_def)
    have ip: "parse_int_part (s @ CHR ''e'' # exp_str (n - 1) @ r) = Some (s, CHR ''e'' # exp_str (n - 1) @ r)"
      using f ne by (intro int_part_digits) auto
    have fr: "parse_frac (CHR ''e'' # exp_str (n - 1) @ r) = Some ([], CHR ''e'' # exp_str (n - 1) @ r)"
      by (rule frac_none) simp
    have ex: "parse_exp (CHR ''e'' # exp_str (n - 1) @ r) = Some (n - 1, r)"
      using rr by (rule exp_digits)
    have "norm_num (int (digits_val (s @ []))) (n - 1 - int (length ([]::string))) = norm_num (int d) e"
      using B4 by (simp add: sv n_def k_def)
    moreover have "pos_num_str d e = s @ ''e'' @ exp_str (n - 1)"
      by (simp only: pn B4(1-3) if_False) (simp add: B4(4))
    ultimately show ?thesis
      using ip fr ex by simp
  next
    case B5
    have ne: "\<not> is_digit (CHR ''e'')" "\<not> is_digit (CHR ''.'')" by (simp_all add: is_digit_def)
    have tl: "tl s \<noteq> []" using B5 f(1) by (cases s) (auto simp: k_def)
    have dg: "is_digit (hd s)" "\<forall>c \<in> set (tl s). is_digit c"
      using f(1,2) by (cases s; simp)+
    have ip: "parse_int_part ([hd s] @ CHR ''.'' # tl s @ CHR ''e'' # exp_str (n - 1) @ r)
              = Some ([hd s], CHR ''.'' # tl s @ CHR ''e'' # exp_str (n - 1) @ r)"
      using f(3) dg ne by (intro int_part_digits) auto
    have fr: "parse_frac (CHR ''.'' # tl s @ CHR ''e'' # exp_str (n - 1) @ r)
              = Some (tl s, CHR ''e'' # exp_str (n - 1) @ r)"
      using tl dg ne by (intro frac_digits) auto
    have ex: "parse_exp (CHR ''e'' # exp_str (n - 1) @ r) = Some (n - 1, r)"
      using rr by (rule exp_digits)
    have "norm_num (int (digits_val ([hd s] @ tl s))) (n - 1 - int (length (tl s))) = norm_num (int d) e"
      using f(1) tl by (simp add: sv n_def k_def of_nat_diff Suc_le_eq)
    moreover have "pos_num_str d e = [hd s] @ ''.'' @ tl s @ ''e'' @ exp_str (n - 1)"
      by (simp only: pn B5(1-3) if_False) (simp add: B5(4))
    ultimately show ?thesis
      using ip fr ex by simp
  qed
qed

lemma norm_num_uminus: "norm_num (- m) e = (case norm_num m e of Num a b \<Rightarrow> Num (- a) b)"
proof (induction m e rule: norm_num.induct)
  case (1 m e)
  show ?case
  proof (cases "m \<noteq> 0 \<and> (10::int) dvd m")
    case True
    then obtain q where q: "m = 10 * q" "q \<noteq> 0" by (auto elim!: dvdE)
    have d: "(- (10 * q)) div 10 = - q"
      by simp
    have "norm_num (- m) e = norm_num (- (m div 10)) (e + 1)"
      using q d by (subst norm_num.simps) simp
    moreover have "norm_num m e = norm_num (m div 10) (e + 1)"
      using True by (subst norm_num.simps) simp
    ultimately show ?thesis using "1.IH" True by simp
  next
    case False
    then show ?thesis by (auto simp: norm_num.simps[of m e] norm_num.simps[of "- m" e])
  qed
qed

lemma int_part_first: "parse_int_part s = Some (ip, s2) \<Longrightarrow> (case s of [] \<Rightarrow> True | c # _ \<Rightarrow> c \<noteq> CHR ''-'')"
  by (cases s) (auto simp: parse_int_part_def is_digit_def split: if_splits)

lemma parse_num_to_string:
  assumes x: "canonical x" and r: "value_end r"
  shows "parse_number (num_to_string x @ r) = Some (x, r)"
proof (cases x)
  case (Num m e)
  consider "m = 0" | "0 < m" | "m < 0" by linarith
  then show ?thesis
  proof cases
    case 1
    with x Num have e: "e = 0" by simp
    have "parse_number (''0'' @ r) = Some (norm_num (int (digits_val (''0'' @ []))) (0 - int (length ([]::string))), r)"
      by (rule parse_number_unsigned[of "''0'' @ r" "''0''" r "[]" r 0 r])
         (simp_all add: int_part_zero value_end_frac[OF r] value_end_exp[OF r])
    then show ?thesis using 1 Num e by (simp add: norm_num.simps[of 0 0] digit_val_def)
  next
    case 2
    obtain ip fp ex s2 s3 where p: "parse_int_part (pos_num_str (nat m) e @ r) = Some (ip, s2)"
      "parse_frac s2 = Some (fp, s3)" "parse_exp s3 = Some (ex, r)"
      "norm_num (int (digits_val (ip @ fp))) (ex - int (length fp)) = norm_num (int (nat m)) e"
      using pos_num_parts[of "nat m" r e] 2 r by auto
    have "parse_number (pos_num_str (nat m) e @ r) = Some (norm_num (int (nat m)) e, r)"
      using parse_number_unsigned[OF int_part_first[OF p(1)] p(1-3)] p(4) by simp
    then show ?thesis using 2 Num x by (simp add: norm_num_canonical)
  next
    case 3
    obtain ip fp ex s2 s3 where p: "parse_int_part (pos_num_str (nat (- m)) e @ r) = Some (ip, s2)"
      "parse_frac s2 = Some (fp, s3)" "parse_exp s3 = Some (ex, r)"
      "norm_num (int (digits_val (ip @ fp))) (ex - int (length fp)) = norm_num (int (nat (- m))) e"
      using pos_num_parts[of "nat (- m)" r e] 3 r by auto
    have c: "canonical (Num (- m) e)" using x Num 3 by simp
    have "parse_number (CHR ''-'' # pos_num_str (nat (- m)) e @ r) = Some (norm_num (- int (nat (- m))) e, r)"
      using parse_number_neg[OF p(1-3)] p(4) by (simp add: norm_num_uminus)
    then show ?thesis using 3 Num c by (simp add: norm_num_uminus norm_num_canonical)
  qed
qed


section \<open>Values\<close>

lemma int_part_digit_first:
  "parse_int_part s = Some p \<Longrightarrow> \<exists>c cs. s = c # cs \<and> is_digit c"
  by (cases s) (auto simp: parse_int_part_def is_digit_def split: if_splits)

lemma parse_number_first:
  "parse_number s = Some p \<Longrightarrow> \<exists>c cs. s = c # cs \<and> (c = CHR ''-'' \<or> is_digit c)"
  by (cases s) (auto simp: parse_number_def split: option.splits if_splits dest: int_part_digit_first)

lemma num_to_string_first:
  "canonical x \<Longrightarrow> \<exists>c cs. num_to_string x = c # cs \<and> (c = CHR ''-'' \<or> is_digit c)"
  using parse_number_first[OF parse_num_to_string[of x "[]"]] by simp

lemma stringify_first:
  "wf_json v \<Longrightarrow> \<exists>c cs. stringify v = c # cs \<and> \<not> is_json_ws c \<and> c \<noteq> CHR '']'' \<and> c \<noteq> CHR ''}''
                     \<and> (c \<noteq> CHR ''-'' \<and> \<not> is_digit c \<longrightarrow> (\<forall>x. v \<noteq> JNum x))"
proof (cases v)
  case (JNum x)
  assume "wf_json v"
  with JNum have "canonical x" by simp
  then obtain c cs where "num_to_string x = c # cs" "c = CHR ''-'' \<or> is_digit c"
    using num_to_string_first by blast
  then show ?thesis using JNum by (auto simp: is_json_ws_def is_digit_def)
qed (auto simp: is_json_ws_def quote_str_def)

lemma skip_ws_stringify: "wf_json v \<Longrightarrow> skip_ws (stringify v @ r) = stringify v @ r"
  using stringify_first[of v] by auto

lemma not_json_ws_punct [simp]:
  "\<not> is_json_ws CHR '']''" "\<not> is_json_ws CHR ''}''" "\<not> is_json_ws CHR '',''"
  "\<not> is_json_ws CHR '':''" "\<not> is_json_ws CHR ''[''" "\<not> is_json_ws CHR ''{''" "\<not> is_json_ws dquote"
  by (simp_all add: is_json_ws_def)

definition parses_back :: "json \<Rightarrow> bool" where
  "parses_back v \<longleftrightarrow>
     (\<forall>n r. value_end r \<longrightarrow> length (stringify v) \<le> n \<longrightarrow> parse_value n (stringify v @ r) = Some (v, r))"

lemma parse_elems_join:
  assumes "\<forall>v \<in> set vs. wf_json v \<and> parses_back v" "vs \<noteq> []"
    "length (join '','' (map stringify vs) @ '']'') \<le> n"
  shows "parse_elems n acc (join '','' (map stringify vs) @ '']'' @ r) = Some (acc @ vs, r)"
  using assms
proof (induction vs arbitrary: acc n)
  case Nil
  then show ?case by simp
next
  case (Cons v vs)
  then obtain m where n: "n = Suc m" by (cases n) auto
  have pv: "\<And>r'. value_end r' \<Longrightarrow> length (stringify v) \<le> m \<Longrightarrow> parse_value m (stringify v @ r') = Some (v, r')"
    using Cons.prems(1) by (simp add: parses_back_def)
  show ?case
  proof (cases vs)
    case Nil
    have "parse_value m (stringify v @ CHR '']'' # r) = Some (v, CHR '']'' # r)"
      using Cons.prems(3) Nil n by (intro pv) auto
    then show ?thesis using Nil n by simp
  next
    case (Cons w ws)
    have j: "join '','' (map stringify (v # vs)) = stringify v @ CHR '','' # join '','' (map stringify vs)"
      using Cons by simp
    have "parse_value m (stringify v @ CHR '','' # join '','' (map stringify vs) @ '']'' @ r)
          = Some (v, CHR '','' # join '','' (map stringify vs) @ '']'' @ r)"
      using Cons.prems(3) n j by (intro pv) auto
    moreover have "parse_elems m (acc @ [v]) (join '','' (map stringify vs) @ '']'' @ r) = Some (acc @ [v] @ vs, r)"
      using Cons.prems Cons.IH[where acc = "acc @ [v]" and n = m] n j \<open>vs = w # ws\<close> by auto
    ultimately show ?thesis using n j by simp
  qed
qed

abbreviation member_str :: "string \<times> json \<Rightarrow> string" where
  "member_str \<equiv> \<lambda>(k, v). quote_str k @ '':'' @ stringify v"

lemma parse_member_head:
  assumes "parse_value m (stringify v @ rest) = Some (v, rest)"
  shows "parse_members (Suc m) acc (member_str (k, v) @ rest) =
           (case skip_ws rest of
              [] \<Rightarrow> None
            | e # r4 \<Rightarrow> if e = CHR '','' then parse_members m (obj_put acc k v) r4
                       else if e = CHR ''}'' then Some (obj_put acc k v, r4) else None)"
  using assms by (simp add: quote_str_def parse_string_quoted)

lemma parse_members_join:
  assumes "\<forall>kv \<in> set kvs. wf_json (snd kv) \<and> parses_back (snd kv)" "kvs \<noteq> []"
    "length (join '','' (map member_str kvs) @ ''}'') \<le> n"
  shows "parse_members n acc (join '','' (map member_str kvs) @ ''}'' @ r)
           = Some (foldl (\<lambda>acc (k, v). obj_put acc k v) acc kvs, r)"
  using assms
proof (induction kvs arbitrary: acc n)
  case Nil
  then show ?case by simp
next
  case (Cons kv kvs)
  obtain k v where kv: "kv = (k, v)" by (cases kv)
  then obtain m where n: "n = Suc m" using Cons.prems(3) by (cases n) auto
  have pv: "\<And>r'. value_end r' \<Longrightarrow> length (stringify v) \<le> m \<Longrightarrow> parse_value m (stringify v @ r') = Some (v, r')"
    using Cons.prems(1) kv by (simp add: parses_back_def)
  have ml: "length (member_str (k, v)) = length (quote_str k) + 1 + length (stringify v)" by simp
  show ?case
  proof (cases kvs)
    case Nil
    have "parse_value m (stringify v @ CHR ''}'' # r) = Some (v, CHR ''}'' # r)"
      using Cons.prems(3) Nil n kv ml by (intro pv) auto
    then show ?thesis using Nil n kv parse_member_head[of m v "CHR ''}'' # r" acc k] by simp
  next
    case (Cons w ws)
    have j: "join '','' (map member_str (kv # kvs)) = member_str (k, v) @ CHR '','' # join '','' (map member_str kvs)"
      using Cons kv by simp
    have "parse_value m (stringify v @ CHR '','' # join '','' (map member_str kvs) @ ''}'' @ r)
          = Some (v, CHR '','' # join '','' (map member_str kvs) @ ''}'' @ r)"
      using Cons.prems(3) n j ml by (intro pv) auto
    moreover have "parse_members m (obj_put acc k v) (join '','' (map member_str kvs) @ ''}'' @ r)
                   = Some (foldl (\<lambda>acc (k, v). obj_put acc k v) (obj_put acc k v) kvs, r)"
      using Cons.prems Cons.IH[where acc = "obj_put acc k v" and n = m] n j ml \<open>kvs = w # ws\<close> by auto
    ultimately show ?thesis
      using n j kv parse_member_head[of m v "CHR '','' # join '','' (map member_str kvs) @ ''}'' @ r" acc k]
      by simp
  qed
qed

lemma parses_back_all: "wf_json v \<Longrightarrow> parses_back v"
proof (induction v rule: stringify.induct)
  case 1
  then show ?case by (auto simp: parses_back_def is_json_ws_def dest!: Suc_le_D)
next
  case (2 b)
  then show ?case by (cases b) (auto simp: parses_back_def is_json_ws_def dest!: Suc_le_D)
next
  case (3 x)
  then have x: "canonical x" by simp
  then obtain c cs where c: "num_to_string x = c # cs" "c = CHR ''-'' \<or> is_digit c"
    using num_to_string_first by blast
  have ne: "c \<noteq> CHR ''{''" "c \<noteq> CHR ''[''" "c \<noteq> dquote" "c \<noteq> CHR ''t''" "c \<noteq> CHR ''f''" "c \<noteq> CHR ''n''"
    "\<not> is_json_ws c"
    using c(2) by (auto simp: is_digit_def is_json_ws_def)
  show ?case
    unfolding parses_back_def
  proof (intro allI impI)
    fix n r assume r: "value_end r" and len: "length (stringify (JNum x)) \<le> n"
    then obtain m where n: "n = Suc m" using c by (cases n) auto
    have "parse_number (c # cs @ r) = Some (x, r)" using parse_num_to_string[OF x r] c by simp
    then show "parse_value n (stringify (JNum x) @ r) = Some (JNum x, r)"
      using n c ne by simp
  qed
next
  case (4 s)
  show ?case
    by (auto simp: parses_back_def quote_str_def parse_string_quoted dest!: Suc_le_D)
next
  case (5 vs)
  show ?case
    unfolding parses_back_def
  proof (intro allI impI)
    fix n r assume r: "value_end r" and len: "length (stringify (JArr vs)) \<le> n"
    then obtain m where n: "n = Suc m" by (cases n) auto
    show "parse_value n (stringify (JArr vs) @ r) = Some (JArr vs, r)"
    proof (cases vs)
      case Nil
      then show ?thesis using n by simp
    next
      case (Cons w ws)
      have all: "\<forall>v \<in> set vs. wf_json v \<and> parses_back v" using "5.IH" "5.prems" by simp
      obtain c cs where c: "stringify w = c # cs" "\<not> is_json_ws c" "c \<noteq> CHR '']''"
        using stringify_first[of w] all Cons by auto
      have "parse_elems m [] (join '','' (map stringify vs) @ '']'' @ r) = Some (vs, r)"
        using parse_elems_join[OF all, of m "[]" r] Cons len n by simp
      moreover obtain t where "join '','' (map stringify vs) = c # t"
        using Cons c by (cases ws) auto
      ultimately show ?thesis using n c by simp
    qed
  qed
next
  case (6 kvs)
  show ?case
    unfolding parses_back_def
  proof (intro allI impI)
    fix n r assume r: "value_end r" and len: "length (stringify (JObj kvs)) \<le> n"
    then obtain m where n: "n = Suc m" by (cases n) auto
    show "parse_value n (stringify (JObj kvs) @ r) = Some (JObj kvs, r)"
    proof (cases kvs)
      case Nil
      then show ?thesis using n by simp
    next
      case (Cons kv kvs')
      have all: "\<forall>kv \<in> set kvs. wf_json (snd kv) \<and> parses_back (snd kv)"
        using "6.IH" "6.prems" by fastforce
      have b: "foldl (\<lambda>acc (k, v). obj_put acc k v) [] kvs = kvs"
        using "6.prems" by (simp add: build_obj_def)
      have "parse_members m [] (join '','' (map member_str kvs) @ ''}'' @ r) = Some (kvs, r)"
        using parse_members_join[OF all, of m "[]" r] Cons len n b by simp
      moreover obtain k v where "kv = (k, v)" by (cases kv)
      moreover have "\<exists>t. join '','' (map member_str kvs) = dquote # t"
        using Cons \<open>kv = (k, v)\<close> by (cases kvs') (auto simp: quote_str_def)
      ultimately show ?thesis using n by (auto simp: Cons[symmetric])
    qed
  qed
qed

theorem json_parse_stringify: "wf_json v \<Longrightarrow> json_parse (stringify v) = Some v"
proof -
  assume v: "wf_json v"
  have le: "length (stringify v) \<le> 2 * length (stringify v) + 1" by simp
  have "parse_value (2 * length (stringify v) + 1) (stringify v @ []) = Some (v, [])"
    using parses_back_all[OF v, unfolded parses_back_def, rule_format, OF value_end_simps(1) le] .
  then show ?thesis by (simp add: json_parse_def del: parse_value.simps)
qed

end
