(* ===== verification/Store.thy ===== *)
theory Store
  imports Item JsonRoundtrip
begin

text \<open>
  The item store (src/app.js lines 6, 57-79 and the delete handler's store update,
  lines 260-262). \<open>localStorage\<close> is an association list from keys to strings with
  a quota: \<open>setItem\<close> throws \<open>QuotaExceededError\<close> when the entries would outgrow it
  (an attached image is a data URL and easily does). The records live under one key
  as the \<open>JSON.stringify\<close> of an array. \<open>load_items\<close> returns whatever
  \<open>JSON.parse\<close> produced, \<open>[]\<close> when the key is absent, empty or unparsable; the
  script never checks that the result is an array of records, so the operations
  after it are modelled with JavaScript's behaviour on other values.

  \<open>represents st its\<close> is the abstraction: the store holds exactly the records
  \<open>its\<close>, newest first. The lemmas show that every operation keeps a representation
  and acts on it as the specification (spec 4.1) says.
\<close>

type_synonym storage = "(string \<times> string) list"

definition LS_KEY :: string where
  "LS_KEY = ''safeconnect_items_v1''"

definition LS_THEME :: string where
  "LS_THEME = ''safeconnect_theme_v1''"

section \<open>localStorage\<close>

definition storage_size :: "storage \<Rightarrow> nat" where
  "storage_size st = sum_list (map (\<lambda>(k, v). length k + length v) st)"

definition get_item :: "storage \<Rightarrow> string \<Rightarrow> string option" where
  "get_item st k = map_of st k"

definition set_item :: "nat \<Rightarrow> storage \<Rightarrow> string \<Rightarrow> string \<Rightarrow> storage js" where
  "set_item quota st k v =
     (let st' = AList.update k v st in
      if storage_size st' \<le> quota then Inr st' else Inl QuotaExceededError)"

definition remove_item :: "storage \<Rightarrow> string \<Rightarrow> storage" where
  "remove_item st k = AList.delete k st"

section \<open>The store operations\<close>

text \<open>\<open>loadItems\<close>: \<open>JSON.parse(localStorage.getItem(LS_KEY) || "[]")\<close>, and \<open>[]\<close>
  when the parse throws.\<close>

definition load_items :: "storage \<Rightarrow> json" where
  "load_items st =
     (let raw = (case get_item st LS_KEY of None \<Rightarrow> ''[]'' | Some v \<Rightarrow> if v = [] then ''[]'' else v)
      in case json_parse raw of None \<Rightarrow> JArr [] | Some v \<Rightarrow> v)"

definition save_items :: "nat \<Rightarrow> storage \<Rightarrow> json \<Rightarrow> storage js" where
  "save_items quota st items = set_item quota st LS_KEY (stringify items)"

text \<open>\<open>items.unshift(item)\<close> exists on arrays only.\<close>

definition js_unshift :: "json \<Rightarrow> json \<Rightarrow> json js" where
  "js_unshift arr x =
     (case arr of
        JArr vs \<Rightarrow> Inr (JArr (x # vs))
      | JNull \<Rightarrow> Inl (TypeError ''Cannot read properties of null'')
      | _ \<Rightarrow> Inl (TypeError ''items.unshift is not a function''))"

text \<open>\<open>addItem(item)\<close> up to its \<open>renderAll()\<close>, which the controller adds.\<close>

definition add_item_store :: "nat \<Rightarrow> storage \<Rightarrow> json \<Rightarrow> storage js" where
  "add_item_store quota st item =
     js_bind (js_unshift (load_items st) item) (\<lambda>items. save_items quota st items)"

text \<open>\<open>clearAll()\<close> up to its \<open>renderAll()\<close>.\<close>

definition clear_store :: "storage \<Rightarrow> storage" where
  "clear_store st = remove_item st LS_KEY"

text \<open>\<open>Array.prototype.filter\<close> on whatever was loaded: a method of arrays only.\<close>

definition js_array_filter :: "(json \<Rightarrow> bool js) \<Rightarrow> json \<Rightarrow> json list js" where
  "js_array_filter p v =
     (case v of
        JArr vs \<Rightarrow> js_filter p vs
      | JNull \<Rightarrow> Inl (TypeError ''Cannot read properties of null'')
      | _ \<Rightarrow> Inl (TypeError ''filter is not a function''))"

text \<open>The delete button's handler, lines 260-262:
  \<open>saveItems(loadItems().filter(it => it.id !== id))\<close>.\<close>

definition delete_store :: "nat \<Rightarrow> storage \<Rightarrow> string \<Rightarrow> storage js" where
  "delete_store quota st del_id =
     js_bind (js_array_filter (\<lambda>it. js_bind (get_prop it ''id'') (\<lambda>v. Inr (\<not> str_eq v del_id))) (load_items st))
       (\<lambda>items. save_items quota st (JArr items))"

section \<open>Abstraction\<close>

definition items_blob :: "item list \<Rightarrow> string" where
  "items_blob its = stringify (JArr (map item_json its))"

definition represents :: "storage \<Rightarrow> item list \<Rightarrow> bool" where
  "represents st its \<longleftrightarrow>
     (\<forall>it \<in> set its. wf_item it) \<and>
     (case get_item st LS_KEY of None \<Rightarrow> its = [] | Some raw \<Rightarrow> raw = items_blob its)"

section \<open>Store lemmas\<close>

lemma json_parse_empty_array [simp]: "json_parse ''[]'' = Some (JArr [])"
  by (simp add: json_parse_def numeral_eq_Suc)

lemma wf_json_items: "\<forall>it \<in> set its. wf_item it \<Longrightarrow> wf_json (JArr (map item_json its))"
  by (auto intro: wf_json_item_json)

lemma items_blob_not_Nil [simp]: "items_blob its \<noteq> []"
  by (simp add: items_blob_def)

lemma json_parse_items_blob:
  "\<forall>it \<in> set its. wf_item it \<Longrightarrow> json_parse (items_blob its) = Some (JArr (map item_json its))"
  unfolding items_blob_def by (rule json_parse_stringify[OF wf_json_items])

lemma load_items_represents:
  "represents st its \<Longrightarrow> load_items st = JArr (map item_json its)"
  by (auto simp: represents_def load_items_def json_parse_items_blob split: option.splits)

lemma get_item_update [simp]: "get_item (AList.update k v st) k = Some v"
  by (simp add: get_item_def update_conv')

lemma set_item_get: "set_item q st k v = Inr st' \<Longrightarrow> get_item st' k = Some v"
  by (auto simp: set_item_def Let_def split: if_splits)

lemma save_items_represents:
  "\<forall>it \<in> set its. wf_item it \<Longrightarrow> save_items q st (JArr (map item_json its)) = Inr st'
   \<Longrightarrow> represents st' its"
  by (auto simp: save_items_def represents_def items_blob_def dest: set_item_get)

lemma add_item_store_eq:
  "represents st its \<Longrightarrow>
   add_item_store q st (item_json it) = set_item q st LS_KEY (items_blob (it # its))"
  by (simp add: add_item_store_def load_items_represents js_unshift_def save_items_def items_blob_def)

lemma delete_store_eq:
  "represents st its \<Longrightarrow>
   delete_store q st i = set_item q st LS_KEY (items_blob (filter (\<lambda>x. item_id x \<noteq> i) its))"
proof -
  assume r: "represents st its"
  have "js_filter (\<lambda>it. js_bind (get_prop it ''id'') (\<lambda>v. Inr (\<not> str_eq v i))) (map item_json its)
        = Inr (map item_json (filter (\<lambda>x. item_id x \<noteq> i) its))"
    by (rule js_filter_map) (simp add: str_eq_def)
  then show ?thesis
    using r by (simp add: delete_store_def load_items_represents js_array_filter_def save_items_def items_blob_def)
qed

lemma clear_store_get [simp]: "get_item (clear_store st) LS_KEY = None"
  by (simp add: clear_store_def remove_item_def get_item_def delete_conv')

lemma load_items_clear: "load_items (clear_store st) = JArr []"
  by (simp add: load_items_def)

lemma represents_clear: "represents (clear_store st) []"
  by (simp add: represents_def)

lemma load_after_save:
  "\<forall>it \<in> set its. wf_item it \<Longrightarrow> save_items q st (JArr (map item_json its)) = Inr st'
   \<Longrightarrow> load_items st' = JArr (map item_json its)"
  by (rule load_items_represents) (rule save_items_represents)

lemma set_item_same:
  "get_item st k = Some v \<Longrightarrow> storage_size st \<le> q \<Longrightarrow> set_item q st k v = Inr st"
  by (simp add: set_item_def get_item_def update_triv)

lemma save_load_same:
  "represents st its \<Longrightarrow> get_item st LS_KEY \<noteq> None \<Longrightarrow> storage_size st \<le> q
   \<Longrightarrow> save_items q st (load_items st) = Inr st"
  by (auto simp: load_items_represents save_items_def represents_def items_blob_def set_item_same)

lemma set_item_result:
  "set_item q st k v = (if storage_size (AList.update k v st) \<le> q then Inr (AList.update k v st)
                         else Inl QuotaExceededError)"
  by (simp add: set_item_def)

lemma load_items_corrupt:
  "get_item st LS_KEY = Some raw \<Longrightarrow> json_parse raw = None \<Longrightarrow> load_items st = JArr []"
  by (auto simp: load_items_def)

lemma add_item_store_not_array:
  "load_items st = v \<Longrightarrow> (\<forall>vs. v \<noteq> JArr vs) \<Longrightarrow> \<exists>msg. add_item_store q st x = Inl (TypeError msg)"
  by (cases v) (auto simp: add_item_store_def js_unshift_def)

lemma set_item_represents:
  "\<forall>it \<in> set its. wf_item it \<Longrightarrow> set_item q st LS_KEY (items_blob its) = Inr st' \<Longrightarrow> represents st' its"
  by (auto simp: represents_def dest: set_item_get)

lemma length_filter_distinct_id:
  "distinct (map f xs) \<Longrightarrow>
   length (filter (\<lambda>x. f x \<noteq> i) xs) = (if i \<in> f ` set xs then length xs - 1 else length xs)"
proof (induction xs)
  case Nil
  then show ?case by simp
next
  case (Cons x xs)
  then show ?case
    by (auto simp: filter_id_conv) (metis (mono_tags) Suc_pred length_pos_if_in_set image_eqI)
qed

lemma inj_item_json: "inj item_json"
  by (rule injI) (metis item_of_json_item_json option.inject)

lemma represents_unique: "represents st its \<Longrightarrow> represents st its' \<Longrightarrow> its = its'"
  using load_items_represents[of st its] load_items_represents[of st its'] inj_item_json
  by (simp add: inj_map_eq_map)

lemma set_item_other_key:
  "k \<noteq> LS_KEY \<Longrightarrow> set_item q st k v = Inr st' \<Longrightarrow> get_item st' LS_KEY = get_item st LS_KEY"
  by (auto simp: set_item_def get_item_def update_conv' Let_def split: if_splits)

lemma represents_other_key:
  "represents st its \<Longrightarrow> k \<noteq> LS_KEY \<Longrightarrow> set_item q st k v = Inr st' \<Longrightarrow> represents st' its"
  by (simp add: represents_def set_item_other_key)

lemma LS_THEME_not_KEY [simp]: "LS_THEME \<noteq> LS_KEY"
  by (simp add: LS_THEME_def LS_KEY_def)

lemma set_item_errors: "set_item q st k v = Inl e \<Longrightarrow> e = QuotaExceededError"
  by (simp add: set_item_def Let_def split: if_splits)

end
