(* ===== verification/Feed.thy ===== *)
theory Feed
  imports Query Html Store
begin

text \<open>
  The feed projection (src/app.js \<open>renderFeed\<close>, lines 202-267). The feed is
  recomputed from the store on every call: load, filter (Query), then either the
  placeholder or one row per record. A row is modelled by the values the template
  (lines 220-243) puts into its slots; the template's fixed markup carries no data.
  \<open>nice_time\<close>, the engine's \<open>new Date(iso).toLocaleString()\<close> (\<open>niceTime\<close>,
  lines 47-50), is locale dependent and enters as a parameter. The two row buttons
  carry their payloads in attributes; the browser normalises newlines and NUL and
  decodes the character references that \<open>escapeHtml\<close> wrote, so the handlers read
  \<open>html_decode\<close> of the attribute (lines 250, 260).
\<close>

record feed_row =
  row_tag_class :: string
  row_tag_text :: string
  row_title :: string
  row_meta :: string
  row_details :: string
  row_location :: string
  row_image :: "string option"
  row_maps_link :: string
  row_copy :: string
  row_delete :: string

datatype feed_view = FeedEmpty | FeedRows "feed_row list"

section \<open>One row\<close>

text \<open>\<open>locText\<close> and \<open>mapsLink\<close>, lines 217-218.\<close>

definition loc_text :: "jsval \<Rightarrow> string js" where
  "loc_text l =
     (if truthy l then
        js_bind (get_prop_v l ''lat'') (\<lambda>la. js_bind (js_to_fixed 5 la) (\<lambda>las.
        js_bind (get_prop_v l ''lng'') (\<lambda>ln. js_bind (js_to_fixed 5 ln) (\<lambda>lns.
        js_bind (get_prop_v l ''acc'') (\<lambda>ac.
          Inr (las @ '', '' @ lns @ '' ('' @ plus_minus @ to_str ac @ ''m)''))))))
      else Inr ''No location'')"

definition maps_link :: "jsval \<Rightarrow> string js" where
  "maps_link l =
     (if truthy l then
        js_bind (get_prop_v l ''lat'') (\<lambda>la. js_bind (get_prop_v l ''lng'') (\<lambda>ln.
          Inr (coords_to_maps_link la ln)))
      else Inr ''#'')"

text \<open>The row of lines 215-243 for one record.\<close>

definition render_row :: "(jsval \<Rightarrow> string) \<Rightarrow> json \<Rightarrow> feed_row js" where
  "render_row nice_time it =
     js_bind (get_prop it ''kind'') (\<lambda>k.
     js_bind (get_prop it ''location'') (\<lambda>l.
     js_bind (loc_text l) (\<lambda>lt.
     js_bind (maps_link l) (\<lambda>ml.
     js_bind (get_prop it ''type'') (\<lambda>t.
     js_bind (get_prop it ''createdAt'') (\<lambda>ca.
     js_bind (get_prop it ''description'') (\<lambda>d.
     js_bind (get_prop it ''imageDataUrl'') (\<lambda>img.
     js_bind (get_prop it ''id'') (\<lambda>i.
       Inr \<lparr>row_tag_class = (if str_eq k ''PANIC'' then ''panic'' else ''report''),
            row_tag_text = (if str_eq k ''PANIC'' then ''PANIC ALERT'' else ''REPORT''),
            row_title = escape_html (to_str (js_or t
                          (V (JStr (if str_eq k ''PANIC'' then ''Emergency'' else ''Incident''))))),
            row_meta = escape_html (nice_time ca),
            row_details = escape_html (to_str (js_or d (V (JStr '''')))),
            row_location = escape_html lt,
            row_image = (if truthy img then Some (to_str img) else None),
            row_maps_link = ml,
            row_copy = escape_html lt,
            row_delete = escape_html (to_str i)\<rparr>)))))))))"

section \<open>The whole feed\<close>

definition render_feed :: "(jsval \<Rightarrow> string) \<Rightarrow> storage \<Rightarrow> string \<Rightarrow> string \<Rightarrow> feed_view js" where
  "render_feed nice_time st search f =
     js_bind (js_array_filter (feed_pred (trim search) f) (load_items st)) (\<lambda>filtered.
       if filtered = [] then Inr FeedEmpty
       else js_bind (js_map (render_row nice_time) filtered) (\<lambda>rows. Inr (FeedRows rows)))"

text \<open>What the two row buttons hand to their handlers: \<open>btn.getAttribute(...)\<close>.\<close>

definition copy_payload :: "feed_row \<Rightarrow> string" where
  "copy_payload r = html_decode (row_copy r)"

definition delete_target :: "feed_row \<Rightarrow> string" where
  "delete_target r = html_decode (row_delete r)"

section \<open>The rows of typed records\<close>

definition loc_text_of :: "coords option \<Rightarrow> string" where
  "loc_text_of loc =
     (case loc of
        None \<Rightarrow> ''No location''
      | Some c \<Rightarrow> to_fixed 5 (lat c) @ '', '' @ to_fixed 5 (lng c) @ '' ('' @ plus_minus
                  @ num_to_string (num_of_int (acc c)) @ ''m)'')"

definition row_of :: "(jsval \<Rightarrow> string) \<Rightarrow> item \<Rightarrow> feed_row" where
  "row_of nice_time it =
     \<lparr>row_tag_class = (if kind it = PANIC then ''panic'' else ''report''),
      row_tag_text = (if kind it = PANIC then ''PANIC ALERT'' else ''REPORT''),
      row_title = escape_html (if item_type it = [] then (if kind it = PANIC then ''Emergency'' else ''Incident'')
                               else item_type it),
      row_meta = escape_html (nice_time (V (JStr (createdAt it)))),
      row_details = escape_html (description it),
      row_location = escape_html (loc_text_of (location it)),
      row_image = (case imageDataUrl it of None \<Rightarrow> None | Some u \<Rightarrow> if u = [] then None else Some u),
      row_maps_link = (case location it of None \<Rightarrow> ''#''
                       | Some c \<Rightarrow> coords_to_maps_link (V (JNum (lat c))) (V (JNum (lng c)))),
      row_copy = escape_html (loc_text_of (location it)),
      row_delete = escape_html (item_id it)\<rparr>"

text \<open>The feed the specification asks for (spec 4.3): the placeholder when the query
  selects nothing, else one row per selected record in store order.\<close>

definition feed_of :: "(jsval \<Rightarrow> string) \<Rightarrow> item list \<Rightarrow> string \<Rightarrow> category \<Rightarrow> feed_view" where
  "feed_of nice_time its q c =
     (let rs = query its (trim q) c in if rs = [] then FeedEmpty else FeedRows (map (row_of nice_time) rs))"

section \<open>Feed lemmas\<close>

lemma loc_text_coords:
  "loc_text (V (case loc of None \<Rightarrow> JNull | Some c \<Rightarrow> coords_json c)) = Inr (loc_text_of loc)"
  by (cases loc) (simp_all add: loc_text_def loc_text_of_def js_to_fixed_def get_prop_v_def)

lemma maps_link_coords:
  "maps_link (V (case loc of None \<Rightarrow> JNull | Some c \<Rightarrow> coords_json c))
   = Inr (case loc of None \<Rightarrow> ''#'' | Some c \<Rightarrow> coords_to_maps_link (V (JNum (lat c))) (V (JNum (lng c))))"
  by (cases loc) (simp_all add: maps_link_def get_prop_v_def)

lemma title_slot:
  "to_str (js_or (V (JStr t)) (V (JStr d))) = (if t = [] then d else t)"
  by (simp add: js_or_def)

lemma image_slot:
  "(if truthy (V (case u of None \<Rightarrow> JNull | Some s \<Rightarrow> JStr s))
    then Some (to_str (V (case u of None \<Rightarrow> JNull | Some s \<Rightarrow> JStr s))) else None)
   = (case u of None \<Rightarrow> None | Some s \<Rightarrow> if s = [] then None else Some s)"
  by (cases u) simp_all

lemma render_row_item_json:
  "render_row nt (item_json it) = Inr (row_of nt it)"
  by (simp add: render_row_def row_of_def loc_text_coords maps_link_coords title_slot image_slot
                str_eq_def kind_str_def split: kind.split)

lemma map_item_json_Nil_iff [simp]: "map item_json xs = [] \<longleftrightarrow> xs = []"
  by simp

lemma render_feed_represents:
  assumes "represents st its"
  shows "render_feed nt st q (category_str c) =
           Inr (if query its (trim q) c = [] then FeedEmpty
                else FeedRows (map (row_of nt) (query its (trim q) c)))"
proof -
  have f: "js_filter (feed_pred (trim q) (category_str c)) (map item_json its)
           = Inr (map item_json (query its (trim q) c))"
    using filter_feed_item_json[of its "trim q" c] by (simp add: filter_feed_def)
  have m: "js_map (render_row nt) (map item_json rs) = Inr (map (row_of nt) rs)" for rs
    by (rule js_map_map) (rule render_row_item_json)
  show ?thesis
    using assms f m by (simp add: render_feed_def load_items_represents js_array_filter_def)
qed

lemma delete_target_row_of: "delete_target (row_of nt it) = attr_norm (item_id it)"
  by (simp add: delete_target_def row_of_def html_decode_escape_html)

lemma render_row_null: "render_row nt JNull = Inl (TypeError ''Cannot read properties of null'')"
  by (simp add: render_row_def get_prop_def)

lemma feed_pred_null: "feed_pred q f JNull \<noteq> Inr False"
  by (simp add: feed_pred_def matches_search_def matches_filter_def get_prop_def)

lemma render_feed_null_entry:
  assumes "load_items st = JArr vs" "JNull \<in> set vs"
  shows "\<exists>e. render_feed nt st q f = Inl e"
proof (cases "js_filter (feed_pred (trim q) f) vs")
  case (Inl e)
  then show ?thesis using assms(1) by (simp add: render_feed_def js_array_filter_def)
next
  case (Inr ys)
  have "feed_pred (trim q) f JNull = Inr True"
  proof (cases "feed_pred (trim q) f JNull")
    case (Inl e)
    then show ?thesis using js_filter_throws[OF assms(2), of "feed_pred (trim q) f" e] Inr by auto
  next
    case (Inr b)
    then show ?thesis using feed_pred_null[of "trim q" f] by simp
  qed
  then have "JNull \<in> set ys" using js_filter_keeps[OF Inr assms(2)] by blast
  moreover obtain e where "js_map (render_row nt) ys = Inl e"
    using js_map_throws[OF calculation, of "render_row nt", OF render_row_null] by blast
  ultimately show ?thesis using assms(1) Inr by (auto simp: render_feed_def js_array_filter_def)
qed

lemma render_feed_feed_of:
  "represents st its \<Longrightarrow> render_feed nt st q (category_str c) = Inr (feed_of nt its q c)"
  by (simp add: feed_of_def Let_def render_feed_represents)

end
