(* ===== verification/MapView.thy ===== *)
theory MapView
  imports Html Store
begin

text \<open>
  The map projection (src/app.js lines 120-179): \<open>initMap\<close>, \<open>updateMyMarkerOnMap\<close>,
  \<open>upsertIncidentMarker\<close> and \<open>rebuildMarkers\<close>, with the part of Leaflet they use.
  \<open>mapst\<close> holds Leaflet's state (whether \<open>L.map\<close> was created, the view, the marker
  objects, the layers on the map, the open popup) and the script's two globals
  \<open>markers\<close> (a JavaScript \<open>Map\<close> from record id to marker) and \<open>myMarker\<close>.
  Marker objects live in a heap: \<open>L.marker(...)\<close> allocates the next handle, and
  \<open>setLatLng\<close> and \<open>bindPopup\<close> update the object in place, so that a marker held in
  \<open>markers\<close> and on the map is the same object.

  Leaflet rejects a position whose coordinates are not numbers; its coercion of
  strings, booleans and \<open>null\<close> is not modelled: every non-number is rejected with
  \<open>InvalidLatLng\<close>. Records written by the script always carry numbers. A popup is
  modelled by the values its template (lines 153-160) fills in. The tile layer is
  not modelled: it holds no data of the application.
\<close>

datatype popup = YouAreHere | IncidentPopup string string string string

record marker =
  m_lat :: jsnum
  m_lng :: jsnum
  m_popup :: "popup option"

record mapst =
  map_on :: bool
  view :: "jsnum \<times> jsnum \<times> nat"
  heap :: "marker list"
  layer :: "nat list"
  popup_open :: "nat option"
  markers :: "(jsval \<times> nat) list"
  my_marker :: "nat option"

text \<open>Before \<open>initMap\<close> runs: \<open>map\<close> and \<open>myMarker\<close> are \<open>undefined\<close>, \<open>markers\<close> is
  an empty \<open>Map\<close>.\<close>

definition map_init_state :: mapst where
  "map_init_state =
     \<lparr>map_on = False, view = (Num 0 0, Num 0 0, 0), heap = [], layer = [], popup_open = None,
      markers = [], my_marker = None\<rparr>"

section \<open>Leaflet\<close>

definition to_latlng :: "jsval \<Rightarrow> jsval \<Rightarrow> (jsnum \<times> jsnum) js" where
  "to_latlng la ln =
     (case (la, ln) of (V (JNum a), V (JNum b)) \<Rightarrow> Inr (a, b) | _ \<Rightarrow> Inl InvalidLatLng)"

text \<open>\<open>L.marker([lat, lng])\<close>: a new object, not yet on the map.\<close>

definition new_marker :: "jsval \<Rightarrow> jsval \<Rightarrow> mapst \<Rightarrow> (nat \<times> mapst) js" where
  "new_marker la ln ms =
     js_bind (to_latlng la ln) (\<lambda>(a, b).
       Inr (length (heap ms), ms\<lparr>heap := heap ms @ [\<lparr>m_lat = a, m_lng = b, m_popup = None\<rparr>]\<rparr>))"

definition add_to_map :: "nat \<Rightarrow> mapst \<Rightarrow> mapst" where
  "add_to_map r ms = ms\<lparr>layer := (if r \<in> set (layer ms) then layer ms else layer ms @ [r])\<rparr>"

definition remove_layer :: "nat \<Rightarrow> mapst \<Rightarrow> mapst" where
  "remove_layer r ms = ms\<lparr>layer := removeAll r (layer ms)\<rparr>"

definition bind_popup :: "nat \<Rightarrow> popup \<Rightarrow> mapst \<Rightarrow> mapst" where
  "bind_popup r p ms = ms\<lparr>heap := (heap ms)[r := (heap ms ! r)\<lparr>m_popup := Some p\<rparr>]\<rparr>"

definition set_lat_lng :: "nat \<Rightarrow> jsval \<Rightarrow> jsval \<Rightarrow> mapst \<Rightarrow> mapst js" where
  "set_lat_lng r la ln ms =
     js_bind (to_latlng la ln) (\<lambda>(a, b).
       Inr (ms\<lparr>heap := (heap ms)[r := (heap ms ! r)\<lparr>m_lat := a, m_lng := b\<rparr>]\<rparr>))"

section \<open>The script's Map from ids to markers\<close>

text \<open>\<open>Map\<close> compares keys by SameValueZero: primitives by value, objects and arrays by
  identity. Every \<open>JSON.parse\<close> creates fresh objects, so an object key never matches
  a key read from another parse.\<close>

definition same_key :: "jsval \<Rightarrow> jsval \<Rightarrow> bool" where
  "same_key a b = (case a of V (JArr _) \<Rightarrow> False | V (JObj _) \<Rightarrow> False | _ \<Rightarrow> a = b)"

fun jmap_get :: "(jsval \<times> 'a) list \<Rightarrow> jsval \<Rightarrow> 'a option" where
  "jmap_get [] k = None"
| "jmap_get ((k', v) # m) k = (if same_key k' k then Some v else jmap_get m k)"

fun jmap_set :: "(jsval \<times> 'a) list \<Rightarrow> jsval \<Rightarrow> 'a \<Rightarrow> (jsval \<times> 'a) list" where
  "jmap_set [] k v = [(k, v)]"
| "jmap_set ((k', v') # m) k v = (if same_key k' k then (k', v) # m else (k', v') # jmap_set m k v)"

section \<open>The projection\<close>

text \<open>\<open>updateMyMarkerOnMap\<close>, lines 132-143.\<close>

definition update_my_marker :: "coords option \<Rightarrow> mapst \<Rightarrow> mapst js" where
  "update_my_marker pos ms =
     (if \<not> map_on ms then Inr ms
      else case pos of
        None \<Rightarrow> Inr ms
      | Some c \<Rightarrow>
          (case my_marker ms of
             None \<Rightarrow> js_bind (new_marker (V (JNum (lat c))) (V (JNum (lng c))) ms) (\<lambda>(r, ms').
                       Inr ((bind_popup r YouAreHere (add_to_map r ms'))\<lparr>my_marker := Some r\<rparr>))
           | Some r \<Rightarrow> set_lat_lng r (V (JNum (lat c))) (V (JNum (lng c))) ms))"

text \<open>\<open>initMap\<close>, lines 121-130: Johannesburg at zoom 12, then the own marker.\<close>

definition init_map :: "coords option \<Rightarrow> mapst \<Rightarrow> mapst js" where
  "init_map pos ms =
     update_my_marker pos (ms\<lparr>map_on := True, view := (Num (-262041) (-4), Num 280473 (-4), 12)\<rparr>)"

text \<open>The popup labels, with the emoji U+1F6A8 and U+1F4DD as UTF-8 bytes.\<close>

definition panic_label :: string where
  "panic_label = [CHR 0xF0, CHR 0x9F, CHR 0x9A, CHR 0xA8] @ '' Panic Alert''"

definition report_label :: string where
  "report_label = [CHR 0xF0, CHR 0x9F, CHR 0x93, CHR 0x9D] @ '' Report''"

text \<open>\<open>upsertIncidentMarker(item)\<close>, lines 145-168.\<close>

definition upsert_incident_marker :: "(jsval \<Rightarrow> string) \<Rightarrow> json \<Rightarrow> mapst \<Rightarrow> mapst js" where
  "upsert_incident_marker nice_time it ms =
     (if \<not> map_on ms then Inr ms
      else js_bind (get_prop it ''location'') (\<lambda>l.
        if \<not> truthy l then Inr ms
        else js_bind (get_prop_v l ''lat'') (\<lambda>la. js_bind (get_prop_v l ''lng'') (\<lambda>ln.
             js_bind (get_prop it ''kind'') (\<lambda>k. js_bind (get_prop it ''type'') (\<lambda>t.
             js_bind (get_prop it ''createdAt'') (\<lambda>ca. js_bind (get_prop it ''description'') (\<lambda>d.
             js_bind (get_prop it ''id'') (\<lambda>i.
               let title = (if str_eq k ''PANIC'' then panic_label else report_label) @ '': ''
                           @ to_str (js_or t (V (JStr ''Incident'')));
                   p = IncidentPopup (escape_html title) (escape_html (nice_time ca))
                         (escape_html (to_str (js_or d (V (JStr '''')))))
                         (coords_to_maps_link la ln)
               in case jmap_get (markers ms) i of
                    Some r \<Rightarrow> js_bind (set_lat_lng r la ln ms) (\<lambda>ms'. Inr (bind_popup r p ms'))
                  | None \<Rightarrow> js_bind (new_marker la ln ms) (\<lambda>(r, ms').
                              Inr ((bind_popup r p (add_to_map r ms'))
                                     \<lparr>markers := jmap_set (markers ms') i r\<rparr>)))))))))))"

text \<open>The \<open>for (const item of items)\<close> loop: markers already placed stay when a later
  record throws.\<close>

fun upsert_all :: "(jsval \<Rightarrow> string) \<Rightarrow> json list \<Rightarrow> mapst \<Rightarrow> mapst js_st" where
  "upsert_all nice_time [] ms = (None, ms)"
| "upsert_all nice_time (v # vs) ms =
     st_bind (st_atomic ms (upsert_incident_marker nice_time v ms)) (upsert_all nice_time vs)"

text \<open>\<open>rebuildMarkers()\<close>, lines 170-179. \<open>for ... of\<close> iterates an array's elements
  and a string's characters (on which the upsert returns at once, a character having
  no \<open>location\<close>); any other value is not iterable.\<close>

definition rebuild_markers :: "(jsval \<Rightarrow> string) \<Rightarrow> storage \<Rightarrow> mapst \<Rightarrow> mapst js_st" where
  "rebuild_markers nice_time st ms =
     (if \<not> map_on ms \<and> markers ms \<noteq> [] then (Some (TypeError ''Cannot read properties of undefined''), ms)
      else
        let ms1 = (fold (\<lambda>(k, r). remove_layer r) (markers ms) ms)\<lparr>markers := []\<rparr> in
        case load_items st of
          JArr vs \<Rightarrow> upsert_all nice_time vs ms1
        | JStr s \<Rightarrow> (None, ms1)
        | _ \<Rightarrow> (Some (TypeError ''items is not iterable''), ms1))"

section \<open>The specification of the projection\<close>

text \<open>The incident markers as the script sees them: each entry of \<open>markers\<close> with
  the marker object it names.\<close>

definition incident_pins :: "mapst \<Rightarrow> (jsval \<times> marker) list" where
  "incident_pins ms = map (\<lambda>(k, r). (k, heap ms ! r)) (markers ms)"

text \<open>The marker a located record should have (spec 4.4): at its coordinates, with
  the label, type, time, description and link of its popup.\<close>

definition incident_pin :: "(jsval \<Rightarrow> string) \<Rightarrow> item \<Rightarrow> coords \<Rightarrow> jsval \<times> marker" where
  "incident_pin nice_time it c =
     (V (JStr (item_id it)),
      \<lparr>m_lat = lat c, m_lng = lng c,
       m_popup = Some (IncidentPopup
         (escape_html ((if kind it = PANIC then panic_label else report_label) @ '': ''
                       @ (if item_type it = [] then ''Incident'' else item_type it)))
         (escape_html (nice_time (V (JStr (createdAt it)))))
         (escape_html (description it))
         (coords_to_maps_link (V (JNum (lat c))) (V (JNum (lng c)))))\<rparr>)"

definition expected_pins :: "(jsval \<Rightarrow> string) \<Rightarrow> item list \<Rightarrow> (jsval \<times> marker) list" where
  "expected_pins nice_time its = List.map_filter (\<lambda>it. map_option (incident_pin nice_time it) (location it)) its"

text \<open>Placing a new marker: allocated, put on the map, entered in \<open>markers\<close>.\<close>

definition place_pin :: "jsval \<times> marker \<Rightarrow> mapst \<Rightarrow> mapst" where
  "place_pin p ms =
     ms\<lparr>heap := heap ms @ [snd p], layer := layer ms @ [length (heap ms)],
        markers := markers ms @ [(fst p, length (heap ms))]\<rparr>"

text \<open>The well-formedness of the map state: every handle in use is allocated, the
  layers on the map are exactly the incident markers and the own marker, and no two
  entries of \<open>markers\<close> share an object.\<close>

definition map_wf :: "mapst \<Rightarrow> bool" where
  "map_wf ms \<longleftrightarrow>
     (\<forall>r \<in> set (layer ms). r < length (heap ms)) \<and>
     set (layer ms) = snd ` set (markers ms) \<union> set_option (my_marker ms) \<and>
     distinct (map snd (markers ms)) \<and>
     (\<forall>r \<in> set_option (my_marker ms). r \<notin> snd ` set (markers ms)) \<and>
     (\<not> map_on ms \<longrightarrow> markers ms = [] \<and> my_marker ms = None)"

section \<open>Map lemmas\<close>

lemma filter_removeAll: "filter P (removeAll b xs) = filter (\<lambda>r. r \<noteq> b \<and> P r) xs"
  by (induction xs) auto

lemma fold_remove_layer:
  "fold (\<lambda>(k, r). remove_layer r) mk ms = ms\<lparr>layer := filter (\<lambda>r. r \<notin> snd ` set mk) (layer ms)\<rparr>"
  by (induction mk arbitrary: ms) (auto simp: remove_layer_def filter_removeAll)

lemma jmap_set_absent: "jmap_get m k = None \<Longrightarrow> jmap_set m k v = m @ [(k, v)]"
  by (induction m) (auto split: if_splits)

lemma jmap_get_snoc:
  "jmap_get (m @ [(k', v)]) k = (case jmap_get m k of None \<Rightarrow> if same_key k' k then Some v else None | x \<Rightarrow> x)"
  by (induction m) auto

lemma same_key_str [simp]: "same_key (V (JStr a)) k \<longleftrightarrow> k = V (JStr a)"
  by (auto simp: same_key_def)

lemma upsert_unlocated:
  "location it = None \<Longrightarrow> map_on ms \<Longrightarrow> upsert_incident_marker nt (item_json it) ms = Inr ms"
  by (simp add: upsert_incident_marker_def)

lemma upsert_located:
  assumes "location it = Some c" "map_on ms" "jmap_get (markers ms) (V (JStr (item_id it))) = None"
    and "\<forall>r \<in> set (layer ms). r < length (heap ms)"
  shows "upsert_incident_marker nt (item_json it) ms = Inr (place_pin (incident_pin nt it c) ms)"
proof -
  have "length (heap ms) \<notin> set (layer ms)" using assms(4) by auto
  then show ?thesis
    using assms(1-3)
    by (simp add: upsert_incident_marker_def get_prop_v_def new_marker_def to_latlng_def add_to_map_def
                  bind_popup_def place_pin_def incident_pin_def jmap_set_absent str_eq_def kind_str_def js_or_def
             split: kind.split)
qed

lemma place_pin_frame [simp]:
  "map_on (place_pin p ms) = map_on ms" "my_marker (place_pin p ms) = my_marker ms"
  "view (place_pin p ms) = view ms" "popup_open (place_pin p ms) = popup_open ms"
  by (simp_all add: place_pin_def)

lemma fold_place_pin:
  "fold place_pin ps ms =
     ms\<lparr>heap := heap ms @ map snd ps,
        layer := layer ms @ [length (heap ms)..<length (heap ms) + length ps],
        markers := markers ms @ zip (map fst ps) [length (heap ms)..<length (heap ms) + length ps]\<rparr>"
proof (induction ps arbitrary: ms)
  case Nil
  then show ?case by simp
next
  case (Cons p ps)
  show ?case
    by (simp only: fold_Cons comp_def Cons.IH) (simp del: upt_Suc add: place_pin_def upt_conv_Cons)
qed

lemma expected_pins_Cons:
  "expected_pins nt (it # its) =
     (case location it of None \<Rightarrow> expected_pins nt its | Some c \<Rightarrow> incident_pin nt it c # expected_pins nt its)"
  by (simp add: expected_pins_def List.map_filter_simps split: option.split)

lemma upsert_all_items:
  assumes "map_on ms" "distinct (map item_id its)"
    and "\<forall>it \<in> set its. jmap_get (markers ms) (V (JStr (item_id it))) = None"
    and "\<forall>r \<in> set (layer ms). r < length (heap ms)"
  shows "upsert_all nt (map item_json its) ms = (None, fold place_pin (expected_pins nt its) ms)"
  using assms
proof (induction its arbitrary: ms)
  case Nil
  then show ?case by (simp add: expected_pins_def List.map_filter_simps)
next
  case (Cons it its)
  show ?case
  proof (cases "location it")
    case None
    then show ?thesis using Cons by (simp add: upsert_unlocated expected_pins_Cons)
  next
    case (Some c)
    let ?ms' = "place_pin (incident_pin nt it c) ms"
    have up: "upsert_incident_marker nt (item_json it) ms = Inr ?ms'"
      using Cons.prems Some by (intro upsert_located) auto
    have fresh: "\<forall>x \<in> set its. jmap_get (markers ?ms') (V (JStr (item_id x))) = None"
    proof
      fix x assume "x \<in> set its"
      then have "item_id x \<noteq> item_id it" using Cons.prems(2) by (auto simp: image_iff)
      then show "jmap_get (markers ?ms') (V (JStr (item_id x))) = None"
        using Cons.prems(3) \<open>x \<in> set its\<close> by (simp add: place_pin_def jmap_get_snoc incident_pin_def)
    qed
    have "\<forall>r \<in> set (layer ?ms'). r < length (heap ?ms')"
      using Cons.prems(4) by (auto simp: place_pin_def)
    then have "upsert_all nt (map item_json its) ?ms' = (None, fold place_pin (expected_pins nt its) ?ms')"
      using Cons.prems(1,2) fresh by (intro Cons.IH) auto
    then show ?thesis using up Some by (simp add: expected_pins_Cons)
  qed
qed

lemma incident_pins_fold_place_pin:
  "markers ms = [] \<Longrightarrow> incident_pins (fold place_pin ps ms) = ps"
  by (auto simp: incident_pins_def fold_place_pin nth_append intro!: nth_equalityI)

lemma rebuild_markers_represents:
  assumes "represents st its" "distinct (map item_id its)" "map_wf ms" "map_on ms"
  shows "rebuild_markers nt st ms =
           (None, fold place_pin (expected_pins nt its)
                    (ms\<lparr>layer := filter (\<lambda>r. r \<notin> snd ` set (markers ms)) (layer ms), markers := []\<rparr>))"
proof -
  have "\<forall>r \<in> set (layer ms). r < length (heap ms)" using assms(3) by (simp add: map_wf_def)
  then show ?thesis
    using assms by (simp add: rebuild_markers_def fold_remove_layer load_items_represents upsert_all_items)
qed

lemma map_wf_rebuild:
  assumes "map_wf ms" "map_on ms"
  shows "map_wf (fold place_pin ps
                   (ms\<lparr>layer := filter (\<lambda>r. r \<notin> snd ` set (markers ms)) (layer ms), markers := []\<rparr>))"
proof -
  let ?n = "length (heap ms)" and ?k = "length ps"
  let ?old = "filter (\<lambda>r. r \<notin> snd ` set (markers ms)) (layer ms)"
  have bound: "\<forall>r \<in> set (layer ms). r < ?n"
    and eq: "set (layer ms) = snd ` set (markers ms) \<union> set_option (my_marker ms)"
    and my: "\<forall>r \<in> set_option (my_marker ms). r \<notin> snd ` set (markers ms)"
    using assms(1) by (simp_all add: map_wf_def)
  have old: "set ?old = set_option (my_marker ms)" using eq my by auto
  have my_lt: "\<forall>r \<in> set_option (my_marker ms). r < ?n" using bound eq by auto
  have keys: "snd ` set (zip (map fst ps) [?n..<?n + ?k]) = {?n..<?n + ?k}"
    by (metis length_map length_upt add_diff_cancel_left' map_snd_zip set_map set_upt)
  have "map snd (zip (map fst ps) [?n..<?n + ?k]) = [?n..<?n + ?k]"
    by (simp add: map_snd_zip)
  then show ?thesis
    using bound old my_lt keys assms(2) by (auto simp: map_wf_def fold_place_pin)
qed

lemma map_wf_marker_bound:
  "map_wf m \<Longrightarrow> (k, r) \<in> set (markers m) \<Longrightarrow> r < length (heap m)"
  by (force simp: map_wf_def)

lemma incident_pins_heap_update:
  "r \<notin> snd ` set (markers m) \<Longrightarrow> incident_pins (m\<lparr>heap := (heap m)[r := x]\<rparr>) = incident_pins m"
  by (simp add: incident_pins_def image_iff) (auto split: prod.split)

lemma update_my_marker_ok:
  assumes "map_wf m" "map_on m"
  shows "\<exists>m'. update_my_marker pos m = Inr m' \<and> map_on m' \<and> map_wf m' \<and> incident_pins m' = incident_pins m"
proof (cases pos)
  case None
  then show ?thesis using assms by (simp add: update_my_marker_def)
next
  case (Some c)
  show ?thesis
  proof (cases "my_marker m")
    case None
    let ?n = "length (heap m)"
    have bound: "\<forall>r \<in> set (layer m). r < ?n" using assms(1) by (simp add: map_wf_def)
    then have notin: "?n \<notin> set (layer m)" by auto
    have mk: "\<forall>(k, r) \<in> set (markers m). r < ?n" using assms(1) map_wf_marker_bound by blast
    then have pins: "map (\<lambda>(k, r). (k, (heap m @ [y]) ! r)) (markers m) = incident_pins m" for y
      by (force simp: incident_pins_def nth_append intro!: map_cong)
    have "?n \<notin> snd ` set (markers m)" using mk by force
    then show ?thesis
      using assms None Some notin bound pins
      by (auto simp: update_my_marker_def new_marker_def to_latlng_def add_to_map_def bind_popup_def
                     map_wf_def incident_pins_def)
  next
    case (Some r)
    have "r \<notin> snd ` set (markers m)" using assms(1) Some by (simp add: map_wf_def)
    then show ?thesis
      using assms Some \<open>pos = Some c\<close>
      by (simp add: update_my_marker_def set_lat_lng_def to_latlng_def incident_pins_heap_update)
         (simp add: map_wf_def)
  qed
qed

lemma length_expected_pins: "length (expected_pins nt its) = length (filter (\<lambda>it. location it \<noteq> None) its)"
  by (induction its) (simp_all add: expected_pins_def List.map_filter_simps split: option.split)

lemma length_incident_pins: "length (incident_pins m) = length (markers m)"
  by (simp add: incident_pins_def)

end
