(* ===== verification/LocationPanel.thy ===== *)
theory LocationPanel
  imports Item
begin

text \<open>
  The location panel (src/app.js \<open>renderLocationBox\<close>, lines 269-284) and the two
  texts built from the own position: the coordinates the copy button writes (line 390)
  and the panic alert's share text (lines 331-333). The panel has no state
  of its own: every render overwrites all of its fields from \<open>myPosition\<close>, which
  is \<open>null\<close> or the object \<open>ensureGeolocation\<close> resolved with.
\<close>

record location_box =
  box_lat :: string
  box_lng :: string
  box_acc :: string
  box_href :: string
  box_disabled :: bool

text \<open>The em dash U+2014 as its UTF-8 bytes.\<close>

abbreviation em_dash :: string where
  "em_dash \<equiv> [CHR 0xE2, CHR 0x80, CHR 0x94]"

definition acc_text :: "coords \<Rightarrow> string" where
  "acc_text c = plus_minus @ num_to_string (num_of_int (acc c)) @ ''m''"

definition render_location_box :: "coords option \<Rightarrow> location_box" where
  "render_location_box pos =
     (case pos of
        None \<Rightarrow> \<lparr>box_lat = em_dash, box_lng = em_dash, box_acc = em_dash, box_href = ''#'',
                 box_disabled = True\<rparr>
      | Some c \<Rightarrow> \<lparr>box_lat = to_fixed 6 (lat c), box_lng = to_fixed 6 (lng c), box_acc = acc_text c,
                   box_href = coords_to_maps_link (V (JNum (lat c))) (V (JNum (lng c))),
                   box_disabled = False\<rparr>)"

text \<open>\<open>`${lat.toFixed(6)}, ${lng.toFixed(6)} (\<plusminus>${acc}m)`\<close>, line 390.\<close>

definition coords_text :: "coords \<Rightarrow> string" where
  "coords_text c = to_fixed 6 (lat c) @ '', '' @ to_fixed 6 (lng c) @ '' ('' @ acc_text c @ '')''"

text \<open>The siren emoji U+1F6A8 as its UTF-8 bytes, and the share text of a panic
  alert, lines 331-333.\<close>

abbreviation siren :: string where
  "siren \<equiv> [CHR 0xF0, CHR 0x9F, CHR 0x9A, CHR 0xA8]"

definition panic_share_text :: "coords option \<Rightarrow> string" where
  "panic_share_text loc =
     (case loc of
        Some c \<Rightarrow> siren @ '' SAFEConnect PANIC ALERT!'' @ [CHR 0x0A] @ ''Location: '' @ coords_text c
                  @ [CHR 0x0A] @ ''Open: '' @ coords_to_maps_link (V (JNum (lat c))) (V (JNum (lng c)))
      | None \<Rightarrow> siren @ '' SAFEConnect PANIC ALERT!'' @ [CHR 0x0A] @ ''Location not available.''
                @ [CHR 0x0A] @ ''Open the app to see details.'')"

section \<open>Panel lemmas\<close>

lemma render_location_box_absent:
  "render_location_box None = \<lparr>box_lat = em_dash, box_lng = em_dash, box_acc = em_dash, box_href = ''#'',
                                box_disabled = True\<rparr>"
  by (simp add: render_location_box_def)

lemma box_disabled_iff: "box_disabled (render_location_box pos) \<longleftrightarrow> pos = None"
  by (simp add: render_location_box_def split: option.split)

end
