(* ===== verification/App.thy ===== *)
theory App
  imports Feed MapView LocationPanel
begin

text \<open>
  The controller (src/app.js lines 35-39 and 286-460): the script's global state as
  the record \<open>app\<close>, \<open>renderAll\<close>, \<open>addItem\<close> and \<open>clearAll\<close> with their re-render,
  and every event handler. A handler runs to its first \<open>await\<close> in the event that
  starts it; what follows an \<open>await\<close> is a pending task (\<open>task\<close>), resumed by a later
  event with what the platform delivered, so that any other event can run in
  between, as in the browser. A promise that is already settled resumes in the
  browser before any other event; the model allows other events first, which only
  adds interleavings. The awaits on \<open>navigator.share\<close> and on the clipboard are
  tasks as well, resumed by the outcome the platform delivers.

  An exception that escapes a handler leaves the state as it was when it was
  thrown; \<open>run\<close> records it in \<open>uncaught\<close>. The platform's inputs are
  parameters of the events: the geolocation outcome, the id \<open>uuid()\<close> and the
  time \<open>nowISO()\<close> of a new record, the outcome of a share or clipboard write, the
  file chosen in the form (given by the data URL \<open>FileReader\<close> makes of it) and
  whether reading it succeeds. The quota of
  \<open>localStorage\<close> and \<open>niceTime\<close> are parameters of the whole model.

  The page markup is not part of the repository: \<open>filterSelect\<close> starts at
  \<open>"ALL"\<close>, the body without the class \<open>light\<close>, and \<open>reportForm.reset()\<close> is
  taken to empty the form.
\<close>

datatype task =
    TPanic
  | TRefresh
  | TCenter
  | TSubmitGeo
  | TSubmitFile "coords option" "string option"
  | TPanicShare string
  | TShareApp string
  | TCopyCoords string
  | TCopyRow string

text \<open>What a share or clipboard write did: \<open>navigator.share\<close> exists and
  succeeded or was cancelled, or it does not exist and the clipboard write
  succeeded or was blocked.\<close>

datatype share_outcome = Shared | ShareFailed | Copied | CopyFailed

datatype event =
    EvPanic
  | EvRefresh
  | EvCenter
  | EvSubmit
  | EvClear bool
  | EvDelete nat
  | EvCopyRow nat
  | EvCopyCoords
  | EvFillDemo
  | EvSearch string
  | EvFilter category
  | EvToggleTheme
  | EvOpenMaps
  | EvShareApp string
  | EvForm string string "string option"
  | EvGeo nat geo_outcome string string
  | EvFile nat bool string string
  | EvShare nat share_outcome
  | EvClipboard nat bool

record app =
  store :: storage
  my_position :: "coords option"
  mapv :: mapst
  feed :: "feed_view option"
  loc_box :: "location_box option"
  status :: "string \<times> string"
  search :: string
  filter_sel :: string
  form_type :: string
  form_desc :: string
  form_file :: "string option"
  light :: bool
  outbox :: "string list"
  pending :: "task list"
  uncaught :: "js_error list"

definition app_init :: "storage \<Rightarrow> app" where
  "app_init st =
     \<lparr>store = st, my_position = None, mapv = map_init_state, feed = None, loc_box = None,
      status = ('''', ''''), search = '''', filter_sel = ''ALL'', form_type = '''', form_desc = '''',
      form_file = None, light = False, outbox = [], pending = [], uncaught = []\<rparr>"

section \<open>Status texts\<close>

text \<open>U+2705, U+2026, U+2728, U+2019, U+201C and U+201D as UTF-8 bytes.\<close>

abbreviation check_mark :: string where "check_mark \<equiv> [CHR 0xE2, CHR 0x9C, CHR 0x85]"
abbreviation ellipsis :: string where "ellipsis \<equiv> [CHR 0xE2, CHR 0x80, CHR 0xA6]"
abbreviation sparkles :: string where "sparkles \<equiv> [CHR 0xE2, CHR 0x9C, CHR 0xA8]"
abbreviation rsquo :: string where "rsquo \<equiv> [CHR 0xE2, CHR 0x80, CHR 0x99]"
abbreviation ldquo :: string where "ldquo \<equiv> [CHR 0xE2, CHR 0x80, CHR 0x9C]"
abbreviation rdquo :: string where "rdquo \<equiv> [CHR 0xE2, CHR 0x80, CHR 0x9D]"

text \<open>\<open>setStatus(main, sub)\<close>, lines 52-55.\<close>

definition set_status :: "string \<Rightarrow> string \<Rightarrow> app \<Rightarrow> app" where
  "set_status m s a = a\<lparr>status := (m, s)\<rparr>"

section \<open>Rendering and the store operations with their re-render\<close>

text \<open>\<open>renderAll()\<close>, lines 286-293.\<close>

definition render_all :: "nat \<Rightarrow> (jsval \<Rightarrow> string) \<Rightarrow> app \<Rightarrow> app js_st" where
  "render_all q nt a =
     (let a1 = a\<lparr>loc_box := Some (render_location_box (my_position a))\<rparr> in
      case render_feed nt (store a1) (search a1) (filter_sel a1) of
        Inl e \<Rightarrow> (Some e, a1)
      | Inr fv \<Rightarrow>
          (let a2 = a1\<lparr>feed := Some fv\<rparr> in
           if map_on (mapv a2) then
             (case rebuild_markers nt (store a2) (mapv a2) of
                (Some e, m) \<Rightarrow> (Some e, a2\<lparr>mapv := m\<rparr>)
              | (None, m) \<Rightarrow> st_atomic (a2\<lparr>mapv := m\<rparr>)
                               (js_bind (update_my_marker (my_position a2) m) (\<lambda>m'. Inr (a2\<lparr>mapv := m'\<rparr>))))
           else (None, a2)))"

text \<open>\<open>addItem(item)\<close>, lines 69-74, and \<open>clearAll()\<close>, lines 76-79.\<close>

definition add_item :: "nat \<Rightarrow> (jsval \<Rightarrow> string) \<Rightarrow> json \<Rightarrow> app \<Rightarrow> app js_st" where
  "add_item q nt it a =
     (case add_item_store q (store a) it of
        Inl e \<Rightarrow> (Some e, a)
      | Inr st \<Rightarrow> render_all q nt (a\<lparr>store := st\<rparr>))"

definition clear_all :: "nat \<Rightarrow> (jsval \<Rightarrow> string) \<Rightarrow> app \<Rightarrow> app js_st" where
  "clear_all q nt a = render_all q nt (a\<lparr>store := clear_store (store a)\<rparr>)"

section \<open>Handlers\<close>

text \<open>\<open>refreshLocation()\<close>, lines 296-305: up to its \<open>await\<close>, and its continuation.
  The \<open>try\<close> also catches an exception of \<open>renderAll\<close>.\<close>

definition refresh_start :: "app \<Rightarrow> app" where
  "refresh_start a =
     set_status (''Getting your location'' @ ellipsis) ''Please allow location permission.'' a"

definition refresh_resume :: "nat \<Rightarrow> (jsval \<Rightarrow> string) \<Rightarrow> geo_outcome \<Rightarrow> app \<Rightarrow> app" where
  "refresh_resume q nt g a =
     (case ensure_geolocation g of
        None \<Rightarrow> set_status ''Location failed'' ''Tip: Use Chrome and enable location permission.'' a
      | Some c \<Rightarrow>
          (case render_all q nt (set_status (''Location updated '' @ check_mark)
                   ''Your current coordinates are shown and used for reports.'' (a\<lparr>my_position := Some c\<rparr>)) of
             (None, a') \<Rightarrow> a'
           | (Some e, a') \<Rightarrow> set_status ''Location failed'' ''Tip: Use Chrome and enable location permission.'' a'))"

text \<open>The panic button, lines 307-351. Its first continuation creates the record,
  adds it and starts the share; the second one reports how the share went.\<close>

definition panic_start :: "app \<Rightarrow> app" where
  "panic_start a =
     (set_status (''Panic pressed '' @ siren) (''Getting your live location'' @ ellipsis) a)
       \<lparr>pending := pending a @ [TPanic]\<rparr>"

definition panic_share :: "string \<Rightarrow> share_outcome \<Rightarrow> app \<Rightarrow> app" where
  "panic_share txt sh a =
     (case sh of
        Shared \<Rightarrow> set_status (''Panic alert created + shared '' @ check_mark) ''Shared via your phone share menu.''
                    (a\<lparr>outbox := outbox a @ [txt]\<rparr>)
      | Copied \<Rightarrow> set_status (''Panic alert created '' @ check_mark)
                    ''Share text copied to clipboard (paste to WhatsApp/SMS).'' (a\<lparr>outbox := outbox a @ [txt]\<rparr>)
      | _ \<Rightarrow> set_status (''Panic alert created '' @ check_mark) ''Open the feed/map to view it.'' a)"

definition panic_resume ::
  "nat \<Rightarrow> (jsval \<Rightarrow> string) \<Rightarrow> geo_outcome \<Rightarrow> string \<Rightarrow> string \<Rightarrow> app \<Rightarrow> app js_st" where
  "panic_resume q nt g uid now a =
     (let loc = ensure_geolocation g;
          a1 = (case loc of
                  Some c \<Rightarrow> a\<lparr>my_position := Some c\<rparr>
                | None \<Rightarrow> set_status (''Panic pressed '' @ siren)
                            ''Location permission not granted. Alert will be saved without GPS.'' a)
      in st_bind (add_item q nt (item_json (panic_item uid now loc)) a1)
           (\<lambda>a2. (None, a2\<lparr>pending := pending a2 @ [TPanicShare (panic_share_text loc)]\<rparr>)))"

text \<open>The centre button, lines 370-379.\<close>

definition center_tail :: "app \<Rightarrow> app" where
  "center_tail a =
     (case my_position a of
        None \<Rightarrow> a
      | Some c \<Rightarrow> a\<lparr>mapv := (mapv a)\<lparr>view := (lat c, lng c, 16),
                     popup_open := (case my_marker (mapv a) of None \<Rightarrow> popup_open (mapv a) | Some r \<Rightarrow> Some r)\<rparr>\<rparr>)"

definition center_start :: "app \<Rightarrow> app" where
  "center_start a =
     (if \<not> map_on (mapv a) then a
      else if my_position a = None then (refresh_start a)\<lparr>pending := pending a @ [TCenter]\<rparr>
      else center_tail a)"

definition center_resume :: "nat \<Rightarrow> (jsval \<Rightarrow> string) \<Rightarrow> geo_outcome \<Rightarrow> app \<Rightarrow> app" where
  "center_resume q nt g a = center_tail (refresh_resume q nt g a)"

text \<open>The report form, lines 405-433: the position is fetched only when none is
  known; the file is read after that; the form's fields are read only when the file
  has been read.\<close>

definition submit_start :: "app \<Rightarrow> app" where
  "submit_start a =
     (case my_position a of
        None \<Rightarrow> a\<lparr>pending := pending a @ [TSubmitGeo]\<rparr>
      | Some c \<Rightarrow> a\<lparr>pending := pending a @ [TSubmitFile (Some c) (form_file a)]\<rparr>)"

definition submit_geo_resume :: "geo_outcome \<Rightarrow> app \<Rightarrow> app" where
  "submit_geo_resume g a =
     (case ensure_geolocation g of
        Some c \<Rightarrow> a\<lparr>my_position := Some c, pending := pending a @ [TSubmitFile (Some c) (form_file a)]\<rparr>
      | None \<Rightarrow> a\<lparr>pending := pending a @ [TSubmitFile None (form_file a)]\<rparr>)"

text \<open>\<open>fileToDataURL(file)\<close>, lines 110-118: no file resolves to \<open>null\<close> at once;
  otherwise the reader's \<open>onload\<close> resolves to the data URL, its \<open>onerror\<close>
  rejects.\<close>

definition file_to_data_url :: "string option \<Rightarrow> bool \<Rightarrow> string option js" where
  "file_to_data_url file ok =
     (case file of
        None \<Rightarrow> Inr None
      | Some u \<Rightarrow> if ok then Inr (Some u) else Inl FileReadError)"

definition submit_file_resume ::
  "nat \<Rightarrow> (jsval \<Rightarrow> string) \<Rightarrow> bool \<Rightarrow> string \<Rightarrow> string \<Rightarrow> coords option \<Rightarrow> string option \<Rightarrow> app \<Rightarrow> app js_st" where
  "submit_file_resume q nt ok uid now loc file a =
     (case file_to_data_url file ok of
        Inl e \<Rightarrow> (Some e, a)
      | Inr du \<Rightarrow>
          st_bind (add_item q nt (item_json (report_item uid now (form_type a) (form_desc a) loc du)) a)
            (\<lambda>a'. (None, set_status (''Report submitted '' @ check_mark) (''It'' @ rsquo @ ''s saved and pinned on the map.'')
                           (a'\<lparr>form_type := '''', form_desc := '''', form_file := None\<rparr>))))"

text \<open>The row buttons of the feed, lines 246-266.\<close>

definition delete_row :: "nat \<Rightarrow> (jsval \<Rightarrow> string) \<Rightarrow> nat \<Rightarrow> app \<Rightarrow> app js_st" where
  "delete_row q nt n a =
     (case feed a of
        Some (FeedRows rs) \<Rightarrow>
          if n < length rs then
            (case delete_store q (store a) (delete_target (rs ! n)) of
               Inl e \<Rightarrow> (Some e, a)
             | Inr st \<Rightarrow> st_bind (render_all q nt (a\<lparr>store := st\<rparr>))
                           (\<lambda>a'. (None, set_status ''Deleted'' ''Item removed from the local database.'' a')))
          else (None, a)
      | _ \<Rightarrow> (None, a))"

definition copy_row_start :: "nat \<Rightarrow> app \<Rightarrow> app" where
  "copy_row_start n a =
     (case feed a of
        Some (FeedRows rs) \<Rightarrow>
          if n < length rs then a\<lparr>pending := pending a @ [TCopyRow (copy_payload (rs ! n))]\<rparr> else a
      | _ \<Rightarrow> a)"

definition copy_row :: "string \<Rightarrow> bool \<Rightarrow> app \<Rightarrow> app" where
  "copy_row txt ok a =
     (if ok then set_status (''Copied '' @ check_mark) ''Location copied to clipboard.''
                   (a\<lparr>outbox := outbox a @ [txt]\<rparr>)
      else set_status ''Copy failed'' ''Your browser blocked clipboard access.'' a)"

text \<open>Clear all with its confirmation, lines 381-386; copy coordinates, lines
  388-397; the demo filler, lines 399-403; share app, lines 355-368; the maps
  link of the panel, lines 456-460.\<close>

definition clear_click :: "nat \<Rightarrow> (jsval \<Rightarrow> string) \<Rightarrow> bool \<Rightarrow> app \<Rightarrow> app js_st" where
  "clear_click q nt ok a =
     (if \<not> ok then (None, a)
      else st_bind (clear_all q nt a)
             (\<lambda>a'. (None, set_status (''Cleared '' @ check_mark) ''Local database cleared.'' a')))"

definition copy_coords_start :: "app \<Rightarrow> app" where
  "copy_coords_start a =
     (case my_position a of
        None \<Rightarrow> a
      | Some c \<Rightarrow> a\<lparr>pending := pending a @ [TCopyCoords (coords_text c)]\<rparr>)"

definition copy_coords :: "string \<Rightarrow> bool \<Rightarrow> app \<Rightarrow> app" where
  "copy_coords txt ok a =
     (if ok then set_status (''Copied '' @ check_mark) ''Your coordinates were copied.''
                  (a\<lparr>outbox := outbox a @ [txt]\<rparr>)
      else set_status ''Copy failed'' ''Clipboard blocked by browser.'' a)"

definition fill_demo :: "app \<Rightarrow> app" where
  "fill_demo a =
     set_status (''Demo filled '' @ sparkles) ''You can now submit to see it on the map.''
       (a\<lparr>form_type := ''Suspicious Activity'',
          form_desc := ''Unknown person walking around checking gates (demo report).''\<rparr>)"

definition share_app_text :: string where
  "share_app_text =
     ''SafeConnect (School Prototype): Safety alerts + incident map + reports.'' @ [CHR 0x0A]
     @ ''Open this page on your device to test.''"

definition share_app_start :: "string \<Rightarrow> app \<Rightarrow> app" where
  "share_app_start href a = a\<lparr>pending := pending a @ [TShareApp href]\<rparr>"

definition share_app :: "string \<Rightarrow> share_outcome \<Rightarrow> app \<Rightarrow> app" where
  "share_app href sh a =
     (case sh of
        Shared \<Rightarrow> set_status (''Shared '' @ check_mark) ''Link shared successfully.''
                    (a\<lparr>outbox := outbox a @ [share_app_text]\<rparr>)
      | Copied \<Rightarrow> set_status (''Copied '' @ check_mark) ''Link copied to clipboard.''
                    (a\<lparr>outbox := outbox a @ [href]\<rparr>)
      | _ \<Rightarrow> set_status ''Share cancelled'' '''' a)"

definition open_maps_click :: "app \<Rightarrow> app" where
  "open_maps_click a =
     (if my_position a = None
      then set_status ''No location yet'' (''Tap '' @ ldquo @ ''Get My Location'' @ rdquo @ '' first.'') a
      else a)"

text \<open>The search box and the category select re-render the feed only, lines
  436-437; the theme toggle, lines 444-447.\<close>

definition feed_only :: "(jsval \<Rightarrow> string) \<Rightarrow> app \<Rightarrow> app js_st" where
  "feed_only nt a =
     (case render_feed nt (store a) (search a) (filter_sel a) of
        Inl e \<Rightarrow> (Some e, a)
      | Inr fv \<Rightarrow> (None, a\<lparr>feed := Some fv\<rparr>))"

definition toggle_theme :: "nat \<Rightarrow> app \<Rightarrow> app js_st" where
  "toggle_theme q a =
     (let a1 = a\<lparr>light := \<not> light a\<rparr> in
      st_atomic a1 (js_bind (set_item q (store a1) LS_THEME (if light a1 then ''light'' else ''dark''))
                     (\<lambda>st. Inr (a1\<lparr>store := st\<rparr>))))"

text \<open>The script's top level, lines 440-453: \<open>loadTheme()\<close>, \<open>initMap()\<close>,
  \<open>renderAll()\<close>.\<close>

definition boot :: "nat \<Rightarrow> (jsval \<Rightarrow> string) \<Rightarrow> app \<Rightarrow> app js_st" where
  "boot q nt a =
     (let a1 = a\<lparr>light := (get_item (store a) LS_THEME = Some ''light'')\<rparr> in
      case init_map (my_position a1) (mapv a1) of
        Inl e \<Rightarrow> (Some e, a1)
      | Inr m \<Rightarrow> render_all q nt (a1\<lparr>mapv := m\<rparr>))"

section \<open>Steps\<close>

definition run :: "app js_st \<Rightarrow> app" where
  "run r = (case r of (None, a) \<Rightarrow> a | (Some e, a) \<Rightarrow> a\<lparr>uncaught := uncaught a @ [e]\<rparr>)"

definition remove_nth :: "nat \<Rightarrow> 'a list \<Rightarrow> 'a list" where
  "remove_nth n xs = take n xs @ drop (Suc n) xs"

text \<open>Resuming the \<open>n\<close>-th pending task with a geolocation outcome, or with the
  outcome of a file read; an event that does not fit the task changes nothing.\<close>

definition resume_geo ::
  "nat \<Rightarrow> (jsval \<Rightarrow> string) \<Rightarrow> nat \<Rightarrow> geo_outcome \<Rightarrow> string \<Rightarrow> string \<Rightarrow> app \<Rightarrow> app" where
  "resume_geo q nt n g uid now a =
     (if n < length (pending a) then
        (let a' = a\<lparr>pending := remove_nth n (pending a)\<rparr> in
         case pending a ! n of
           TPanic \<Rightarrow> run (panic_resume q nt g uid now a')
         | TRefresh \<Rightarrow> refresh_resume q nt g a'
         | TCenter \<Rightarrow> center_resume q nt g a'
         | TSubmitGeo \<Rightarrow> submit_geo_resume g a'
         | _ \<Rightarrow> a)
      else a)"

definition resume_file :: "nat \<Rightarrow> (jsval \<Rightarrow> string) \<Rightarrow> nat \<Rightarrow> bool \<Rightarrow> string \<Rightarrow> string \<Rightarrow> app \<Rightarrow> app" where
  "resume_file q nt n ok uid now a =
     (if n < length (pending a) then
        (case pending a ! n of
           TSubmitFile loc file \<Rightarrow>
             run (submit_file_resume q nt ok uid now loc file (a\<lparr>pending := remove_nth n (pending a)\<rparr>))
         | _ \<Rightarrow> a)
      else a)"

text \<open>Resuming a pending share or clipboard write with its outcome.\<close>

definition resume_share :: "nat \<Rightarrow> share_outcome \<Rightarrow> app \<Rightarrow> app" where
  "resume_share n sh a =
     (if n < length (pending a) then
        (let a' = a\<lparr>pending := remove_nth n (pending a)\<rparr> in
         case pending a ! n of
           TPanicShare txt \<Rightarrow> panic_share txt sh a'
         | TShareApp href \<Rightarrow> share_app href sh a'
         | _ \<Rightarrow> a)
      else a)"

definition resume_clipboard :: "nat \<Rightarrow> bool \<Rightarrow> app \<Rightarrow> app" where
  "resume_clipboard n ok a =
     (if n < length (pending a) then
        (let a' = a\<lparr>pending := remove_nth n (pending a)\<rparr> in
         case pending a ! n of
           TCopyCoords txt \<Rightarrow> copy_coords txt ok a'
         | TCopyRow txt \<Rightarrow> copy_row txt ok a'
         | _ \<Rightarrow> a)
      else a)"

fun app_step :: "nat \<Rightarrow> (jsval \<Rightarrow> string) \<Rightarrow> app \<Rightarrow> event \<Rightarrow> app" where
  "app_step q nt a EvPanic = panic_start a"
| "app_step q nt a EvRefresh = (refresh_start a)\<lparr>pending := pending a @ [TRefresh]\<rparr>"
| "app_step q nt a EvCenter = center_start a"
| "app_step q nt a EvSubmit = submit_start a"
| "app_step q nt a (EvClear ok) = run (clear_click q nt ok a)"
| "app_step q nt a (EvDelete n) = run (delete_row q nt n a)"
| "app_step q nt a (EvCopyRow n) = copy_row_start n a"
| "app_step q nt a EvCopyCoords = copy_coords_start a"
| "app_step q nt a EvFillDemo = fill_demo a"
| "app_step q nt a (EvSearch s) = run (feed_only nt (a\<lparr>search := s\<rparr>))"
| "app_step q nt a (EvFilter c) = run (feed_only nt (a\<lparr>filter_sel := category_str c\<rparr>))"
| "app_step q nt a EvToggleTheme = run (toggle_theme q a)"
| "app_step q nt a EvOpenMaps = open_maps_click a"
| "app_step q nt a (EvShareApp href) = share_app_start href a"
| "app_step q nt a (EvForm ty desc file) = a\<lparr>form_type := ty, form_desc := desc, form_file := file\<rparr>"
| "app_step q nt a (EvGeo n g uid now) = resume_geo q nt n g uid now a"
| "app_step q nt a (EvFile n ok uid now) = resume_file q nt n ok uid now a"
| "app_step q nt a (EvShare n sh) = resume_share n sh a"
| "app_step q nt a (EvClipboard n ok) = resume_clipboard n ok a"

text \<open>A sequence of events, one after the other.\<close>

definition app_run :: "nat \<Rightarrow> (jsval \<Rightarrow> string) \<Rightarrow> app \<Rightarrow> event list \<Rightarrow> app" where
  "app_run q nt a evs = fold (\<lambda>ev a. app_step q nt a ev) evs a"

end
