(* ===== verification/AppInvariant.thy ===== *)
theory AppInvariant
  imports App
begin

text \<open>
  The controller's invariant (App): the reachable states, the invariant
  \<open>ok_state\<close> that ties the map markers and the feed to the stored records, the
  proof that every step keeps it, and the abstract store machine \<open>store_op\<close> that
  every step refines.
\<close>

section \<open>The invariant and the reachable states\<close>

definition parse_category :: "string \<Rightarrow> category option" where
  "parse_category s =
     (if s = ''ALL'' then Some AllKinds else if s = ''PANIC'' then Some (Only PANIC)
      else if s = ''REPORT'' then Some (Only REPORT) else None)"

text \<open>The ids of the stored records, as \<open>loadItems()\<close> shows them.\<close>

definition stored_ids :: "storage \<Rightarrow> string list" where
  "stored_ids st =
     (case load_items st of
        JArr vs \<Rightarrow> List.map_filter (\<lambda>v. case get_prop v ''id'' of Inr (V (JStr s)) \<Rightarrow> Some s | _ \<Rightarrow> None) vs
      | _ \<Rightarrow> [])"

definition geo_ok :: "geo_outcome \<Rightarrow> bool" where
  "geo_ok g \<longleftrightarrow> (case g of GeoPosition la ln ac \<Rightarrow> canonical la \<and> canonical ln | _ \<Rightarrow> True)"

text \<open>What the platform guarantees of an event's inputs: \<open>uuid()\<close> returns an id no
  stored record has (\<open>crypto.randomUUID\<close> repeats with negligible probability), and
  a position's coordinates are numbers, each in its one canonical form.\<close>

definition platform_ok :: "app \<Rightarrow> event \<Rightarrow> bool" where
  "platform_ok a ev \<longleftrightarrow>
     (case ev of
        EvGeo n g uid now \<Rightarrow> uid \<notin> set (stored_ids (store a)) \<and> geo_ok g
      | EvFile n ok uid now \<Rightarrow> uid \<notin> set (stored_ids (store a))
      | _ \<Rightarrow> True)"

definition task_ok :: "task \<Rightarrow> bool" where
  "task_ok t \<longleftrightarrow> (case t of TSubmitFile loc file \<Rightarrow> loc_ok loc | _ \<Rightarrow> True)"

definition err_ok :: "js_error \<Rightarrow> bool" where
  "err_ok e \<longleftrightarrow> e = QuotaExceededError \<or> e = FileReadError"

text \<open>The part of the invariant every handler keeps before it re-renders, and the
  whole invariant: the store holds records with distinct ids, the map is initialised
  and well formed, its incident markers are those of the stored records, and the
  feed shows the query of the search box and the category select.\<close>

definition base_ok :: "item list \<Rightarrow> app \<Rightarrow> bool" where
  "base_ok its a \<longleftrightarrow>
     represents (store a) its \<and> distinct (map item_id its) \<and> map_on (mapv a) \<and> map_wf (mapv a) \<and>
     parse_category (filter_sel a) \<noteq> None \<and> loc_ok (my_position a) \<and>
     list_all task_ok (pending a) \<and> list_all err_ok (uncaught a)"

definition feed_synced :: "(jsval \<Rightarrow> string) \<Rightarrow> item list \<Rightarrow> app \<Rightarrow> bool" where
  "feed_synced nt its a \<longleftrightarrow>
     (case parse_category (filter_sel a) of None \<Rightarrow> False | Some c \<Rightarrow> feed a = Some (feed_of nt its (search a) c))"

definition ok_state :: "(jsval \<Rightarrow> string) \<Rightarrow> item list \<Rightarrow> app \<Rightarrow> bool" where
  "ok_state nt its a \<longleftrightarrow>
     base_ok its a \<and> incident_pins (mapv a) = expected_pins nt its \<and> feed_synced nt its a"

inductive reachable :: "nat \<Rightarrow> (jsval \<Rightarrow> string) \<Rightarrow> app \<Rightarrow> bool" for q nt where
  boot: "represents st its \<Longrightarrow> distinct (map item_id its) \<Longrightarrow> reachable q nt (run (boot q nt (app_init st)))"
| step: "reachable q nt a \<Longrightarrow> platform_ok a ev \<Longrightarrow> reachable q nt (app_step q nt a ev)"

text \<open>The store operations the specification allows (spec 3, 4.1): keep the
  records, prepend a new record with a fresh id, remove the records with one id,
  remove them all.\<close>

inductive store_op :: "item list \<Rightarrow> item list \<Rightarrow> bool" where
  keep: "store_op its its"
| prepend: "item_id it \<notin> set (map item_id its) \<Longrightarrow> wf_item it \<Longrightarrow> store_op its (it # its)"
| remove: "store_op its (filter (\<lambda>x. item_id x \<noteq> i) its)"
| clear: "store_op its []"

text \<open>The platform's guarantee along a sequence of events.\<close>

fun run_ok :: "nat \<Rightarrow> (jsval \<Rightarrow> string) \<Rightarrow> app \<Rightarrow> event list \<Rightarrow> bool" where
  "run_ok q nt a [] = True"
| "run_ok q nt a (ev # evs) = (platform_ok a ev \<and> run_ok q nt (app_step q nt a ev) evs)"

text \<open>The same run, evaluated once: the final state when the platform's guarantee
  holds at every step.\<close>

fun run_checked :: "nat \<Rightarrow> (jsval \<Rightarrow> string) \<Rightarrow> app \<Rightarrow> event list \<Rightarrow> app option" where
  "run_checked q nt a [] = Some a"
| "run_checked q nt a (ev # evs) = (if platform_ok a ev then run_checked q nt (app_step q nt a ev) evs else None)"

definition boot_state :: "nat \<Rightarrow> (jsval \<Rightarrow> string) \<Rightarrow> storage \<Rightarrow> app" where
  "boot_state q nt st = run (boot q nt (app_init st))"

section \<open>Controller lemmas\<close>

lemma parse_category_str [simp]: "parse_category (category_str c) = Some c"
  by (cases c rule: category.exhaust; cases "case c of Only k \<Rightarrow> k | _ \<Rightarrow> PANIC")
     (auto simp: parse_category_def category_str_def kind_str_def split: kind.splits)

lemma parse_category_Some: "parse_category s = Some c \<Longrightarrow> s = category_str c"
  by (auto simp: parse_category_def category_str_def kind_str_def split: if_splits)

lemma stored_ids_map_item_json:
  "List.map_filter (\<lambda>v. case get_prop v ''id'' of Inr (V (JStr s)) \<Rightarrow> Some s | _ \<Rightarrow> None) (map item_json xs)
   = map item_id xs"
  by (induction xs) (simp_all add: List.map_filter_simps)

lemma stored_ids_represents: "represents st its \<Longrightarrow> stored_ids st = map item_id its"
  by (simp add: stored_ids_def load_items_represents stored_ids_map_item_json)

lemma map_on_fold_place_pin [simp]: "map_on (fold place_pin ps m) = map_on m"
  by (simp add: fold_place_pin)

lemma render_all_ok:
  assumes "base_ok its a"
  obtains m c where
    "render_all q nt a = (None, a\<lparr>loc_box := Some (render_location_box (my_position a)),
                                   feed := Some (feed_of nt its (search a) c), mapv := m\<rparr>)"
    "parse_category (filter_sel a) = Some c" "map_on m" "map_wf m" "incident_pins m = expected_pins nt its"
proof -
  obtain c where c: "parse_category (filter_sel a) = Some c" using assms by (auto simp: base_ok_def)
  have r: "represents (store a) its" and d: "distinct (map item_id its)"
    and on: "map_on (mapv a)" and wf: "map_wf (mapv a)"
    using assms by (simp_all add: base_ok_def)
  let ?M = "fold place_pin (expected_pins nt its)
              ((mapv a)\<lparr>layer := filter (\<lambda>r. r \<notin> snd ` set (markers (mapv a))) (layer (mapv a)), markers := []\<rparr>)"
  have fv: "render_feed nt (store a) (search a) (filter_sel a) = Inr (feed_of nt its (search a) c)"
    using c r by (simp add: parse_category_Some[OF c] render_feed_feed_of)
  have rb: "rebuild_markers nt (store a) (mapv a) = (None, ?M)"
    using r d wf on by (rule rebuild_markers_represents)
  have M: "map_on ?M" "map_wf ?M" "incident_pins ?M = expected_pins nt its"
    using on wf by (simp_all add: map_wf_rebuild incident_pins_fold_place_pin)
  obtain m where m: "update_my_marker (my_position a) ?M = Inr m" "map_on m" "map_wf m"
      "incident_pins m = incident_pins ?M"
    using update_my_marker_ok[OF M(2) M(1)] by blast
  show ?thesis
    by (rule that[of m c]) (use fv rb m M c on in \<open>simp_all add: render_all_def\<close>)
qed

lemma render_all_ok_state:
  assumes "base_ok its a"
  shows "\<exists>a'. render_all q nt a = (None, a') \<and> ok_state nt its a'"
proof -
  obtain m c where
    r: "render_all q nt a = (None, a\<lparr>loc_box := Some (render_location_box (my_position a)),
                                      feed := Some (feed_of nt its (search a) c), mapv := m\<rparr>)"
    and "parse_category (filter_sel a) = Some c" "map_on m" "map_wf m" "incident_pins m = expected_pins nt its"
    using render_all_ok[OF assms] by blast
  then show ?thesis using assms by (simp add: ok_state_def base_ok_def feed_synced_def)
qed

lemma ok_state_base: "ok_state nt its a \<Longrightarrow> base_ok its a"
  by (simp add: ok_state_def)

lemma ok_state_frame [simp]:
  "ok_state nt its (set_status m s a) = ok_state nt its a"
  "ok_state nt its (a\<lparr>outbox := ob\<rparr>) = ok_state nt its a"
  "ok_state nt its (a\<lparr>form_type := t, form_desc := d, form_file := f\<rparr>) = ok_state nt its a"
  "ok_state nt its (a\<lparr>form_type := t, form_desc := d\<rparr>) = ok_state nt its a"
  by (simp_all add: ok_state_def base_ok_def feed_synced_def set_status_def split: option.split)

lemma ok_state_uncaught:
  "ok_state nt its (a\<lparr>uncaught := uncaught a @ [e]\<rparr>) \<longleftrightarrow> ok_state nt its a \<and> err_ok e"
  by (auto simp: ok_state_def base_ok_def feed_synced_def split: option.split)

lemma base_ok_store:
  "base_ok its a \<Longrightarrow> represents st its' \<Longrightarrow> distinct (map item_id its') \<Longrightarrow> base_ok its' (a\<lparr>store := st\<rparr>)"
  by (simp add: base_ok_def)

lemma add_item_ok:
  assumes "base_ok its a" "item_id it \<notin> set (map item_id its)" "wf_item it"
  shows "add_item q nt (item_json it) a = (Some QuotaExceededError, a) \<or>
         (\<exists>a'. add_item q nt (item_json it) a = (None, a') \<and> ok_state nt (it # its) a')"
proof (cases "set_item q (store a) LS_KEY (items_blob (it # its))")
  case (Inl e)
  have r: "represents (store a) its" using assms(1) by (simp add: base_ok_def)
  from Inl have "e = QuotaExceededError" by (rule set_item_errors)
  then show ?thesis
    using Inl by (simp add: add_item_def add_item_store_eq[OF r])
next
  case (Inr st)
  have r: "represents (store a) its" using assms(1) by (simp add: base_ok_def)
  have "represents st (it # its)"
    using Inr r assms(3) by (intro set_item_represents) (auto simp: represents_def)
  then have "base_ok (it # its) (a\<lparr>store := st\<rparr>)"
    using assms by (intro base_ok_store) (auto simp: base_ok_def)
  then show ?thesis
    using Inr render_all_ok_state by (simp add: add_item_def add_item_store_eq[OF r])
qed

lemma ok_state_pending:
  "ok_state nt its a \<Longrightarrow> list_all task_ok ts \<Longrightarrow> ok_state nt its (a\<lparr>pending := ts\<rparr>)"
  by (auto simp: ok_state_def base_ok_def feed_synced_def split: option.split)

lemma ok_state_position:
  "ok_state nt its a \<Longrightarrow> loc_ok p \<Longrightarrow> ok_state nt its (a\<lparr>my_position := p\<rparr>)"
  by (auto simp: ok_state_def base_ok_def feed_synced_def split: option.split)

lemma ok_state_tasks: "ok_state nt its a \<Longrightarrow> list_all task_ok (pending a)"
  by (simp add: ok_state_def base_ok_def)

lemma geo_loc_ok: "geo_ok g \<Longrightarrow> loc_ok (ensure_geolocation g)"
  by (cases g) (simp_all add: geo_ok_def loc_ok_def ensure_geolocation_def)

lemma list_all_remove_nth: "list_all P xs \<Longrightarrow> list_all P (remove_nth n xs)"
  by (auto simp: remove_nth_def list_all_iff dest: in_set_takeD in_set_dropD)

lemma center_tail_ok: "ok_state nt its a \<Longrightarrow> ok_state nt its (center_tail a)"
  by (auto simp: center_tail_def ok_state_def base_ok_def feed_synced_def map_wf_def incident_pins_def
           split: option.split)

lemma refresh_resume_ok:
  assumes "ok_state nt its a" "geo_ok g"
  shows "ok_state nt its (refresh_resume q nt g a)"
proof (cases "ensure_geolocation g")
  case None
  then show ?thesis using assms(1) by (simp add: refresh_resume_def)
next
  case (Some c)
  let ?a = "set_status (''Location updated '' @ check_mark)
              ''Your current coordinates are shown and used for reports.'' (a\<lparr>my_position := Some c\<rparr>)"
  have "ok_state nt its ?a"
    using assms Some geo_loc_ok[OF assms(2)] by (simp add: ok_state_position)
  then obtain a' where "render_all q nt ?a = (None, a')" "ok_state nt its a'"
    using render_all_ok_state[OF ok_state_base] by blast
  then show ?thesis using Some by (simp add: refresh_resume_def)
qed

lemma fresh_id:
  "ok_state nt its a \<Longrightarrow> uid \<notin> set (stored_ids (store a)) \<Longrightarrow> uid \<notin> set (map item_id its)"
  by (auto simp: ok_state_def base_ok_def dest: stored_ids_represents)

lemma panic_resume_ok:
  assumes "ok_state nt its a" "geo_ok g" "uid \<notin> set (stored_ids (store a))"
  shows "\<exists>its'. ok_state nt its' (run (panic_resume q nt g uid now a)) \<and> store_op its its'"
proof -
  let ?loc = "ensure_geolocation g"
  let ?a1 = "case ?loc of Some c \<Rightarrow> a\<lparr>my_position := Some c\<rparr>
               | None \<Rightarrow> set_status (''Panic pressed '' @ siren)
                          ''Location permission not granted. Alert will be saved without GPS.'' a"
  let ?it = "panic_item uid now ?loc"
  have a1: "ok_state nt its ?a1"
    using assms(1) geo_loc_ok[OF assms(2)] by (auto simp: ok_state_position split: option.split)
  have fresh: "item_id ?it \<notin> set (map item_id its)"
    using fresh_id[OF assms(1,3)] by (simp add: panic_item_def)
  have wf: "wf_item ?it" using geo_loc_ok[OF assms(2)] by (simp add: wf_item_loc_ok panic_item_def)
  have p: "panic_resume q nt g uid now a =
             st_bind (add_item q nt (item_json ?it) ?a1)
               (\<lambda>a2. (None, a2\<lparr>pending := pending a2 @ [TPanicShare (panic_share_text ?loc)]\<rparr>))"
    by (simp add: panic_resume_def Let_def)
  from add_item_ok[OF ok_state_base[OF a1] fresh wf, of q nt]
  show ?thesis
  proof
    assume "add_item q nt (item_json ?it) ?a1 = (Some QuotaExceededError, ?a1)"
    then show ?thesis
      using a1 by (intro exI[of _ its]) (simp add: p run_def ok_state_uncaught err_ok_def store_op.keep)
  next
    assume "\<exists>a'. add_item q nt (item_json ?it) ?a1 = (None, a') \<and> ok_state nt (?it # its) a'"
    then obtain a' where "add_item q nt (item_json ?it) ?a1 = (None, a')" "ok_state nt (?it # its) a'"
      by blast
    then show ?thesis
      using fresh wf
      by (intro exI[of _ "?it # its"])
         (simp add: p run_def store_op.prepend ok_state_pending ok_state_tasks task_ok_def)
  qed
qed

lemma file_to_data_url_read [simp]: "file_to_data_url fl True = Inr fl"
  by (cases fl) (simp_all add: file_to_data_url_def)

lemma file_to_data_url_errors: "file_to_data_url file ok = Inl e \<Longrightarrow> e = FileReadError"
  by (auto simp: file_to_data_url_def split: option.splits if_splits)

lemma submit_file_resume_ok:
  assumes "ok_state nt its a" "loc_ok loc" "uid \<notin> set (stored_ids (store a))"
  shows "\<exists>its'. ok_state nt its' (run (submit_file_resume q nt ok uid now loc file a)) \<and> store_op its its'"
proof (cases "file_to_data_url file ok")
  case (Inl e)
  then show ?thesis
    using assms(1) file_to_data_url_errors[OF Inl]
    by (intro exI[of _ its]) (simp add: submit_file_resume_def run_def ok_state_uncaught err_ok_def store_op.keep)
next
  case (Inr du)
  let ?it = "report_item uid now (form_type a) (form_desc a) loc du"
  have fresh: "item_id ?it \<notin> set (map item_id its)"
    using fresh_id[OF assms(1,3)] by (simp add: report_item_def)
  have wf: "wf_item ?it" using assms(2) by (simp add: wf_item_loc_ok report_item_def)
  from add_item_ok[OF ok_state_base[OF assms(1)] fresh wf, of q nt]
  show ?thesis
  proof
    assume "add_item q nt (item_json ?it) a = (Some QuotaExceededError, a)"
    then show ?thesis
      using Inr assms(1)
      by (intro exI[of _ its]) (simp add: submit_file_resume_def run_def ok_state_uncaught err_ok_def store_op.keep)
  next
    assume "\<exists>a'. add_item q nt (item_json ?it) a = (None, a') \<and> ok_state nt (?it # its) a'"
    then obtain a' where "add_item q nt (item_json ?it) a = (None, a')" "ok_state nt (?it # its) a'"
      by blast
    then show ?thesis
      using Inr fresh wf
      by (intro exI[of _ "?it # its"]) (simp add: submit_file_resume_def run_def store_op.prepend)
  qed
qed

lemma delete_row_ok:
  assumes "ok_state nt its a"
  shows "\<exists>its'. ok_state nt its' (run (delete_row q nt n a)) \<and> store_op its its'"
proof (cases "\<exists>rs. feed a = Some (FeedRows rs) \<and> n < length rs")
  case False
  then have "delete_row q nt n a = (None, a)"
    by (auto simp: delete_row_def split: option.split feed_view.split)
  then show ?thesis using assms by (intro exI[of _ its]) (simp add: run_def store_op.keep)
next
  case True
  then obtain rs where rs: "feed a = Some (FeedRows rs)" "n < length rs" by blast
  let ?i = "delete_target (rs ! n)"
  have r: "represents (store a) its" and d: "distinct (map item_id its)"
    using assms by (simp_all add: ok_state_def base_ok_def)
  show ?thesis
  proof (cases "set_item q (store a) LS_KEY (items_blob (filter (\<lambda>x. item_id x \<noteq> ?i) its))")
    case (Inl e)
    then have "e = QuotaExceededError" by (rule set_item_errors)
    then show ?thesis
      using Inl rs assms
      by (intro exI[of _ its]) (simp add: delete_row_def delete_store_eq[OF r] run_def ok_state_uncaught err_ok_def store_op.keep)
  next
    case (Inr st)
    have "represents st (filter (\<lambda>x. item_id x \<noteq> ?i) its)"
      using Inr r by (intro set_item_represents) (auto simp: represents_def)
    then have "base_ok (filter (\<lambda>x. item_id x \<noteq> ?i) its) (a\<lparr>store := st\<rparr>)"
      using assms d by (intro base_ok_store[OF ok_state_base]) (auto simp: distinct_map_filter)
    then obtain a' where "render_all q nt (a\<lparr>store := st\<rparr>) = (None, a')"
        "ok_state nt (filter (\<lambda>x. item_id x \<noteq> ?i) its) a'"
      using render_all_ok_state by blast
    then show ?thesis
      using Inr rs
      by (intro exI[of _ "filter (\<lambda>x. item_id x \<noteq> ?i) its"])
         (simp add: delete_row_def delete_store_eq[OF r] run_def store_op.remove)
  qed
qed

lemma clear_click_ok:
  assumes "ok_state nt its a"
  shows "\<exists>its'. ok_state nt its' (run (clear_click q nt ok a)) \<and> store_op its its'"
proof (cases ok)
  case False
  then show ?thesis using assms by (intro exI[of _ its]) (simp add: clear_click_def run_def store_op.keep)
next
  case True
  have "base_ok [] (a\<lparr>store := clear_store (store a)\<rparr>)"
    using assms by (intro base_ok_store[OF ok_state_base]) (simp_all add: represents_clear)
  then obtain a' where "render_all q nt (a\<lparr>store := clear_store (store a)\<rparr>) = (None, a')" "ok_state nt [] a'"
    using render_all_ok_state by blast
  then show ?thesis
    using True by (intro exI[of _ "[]"]) (simp add: clear_click_def clear_all_def run_def store_op.clear)
qed

lemma feed_only_ok:
  assumes "base_ok its b" "parse_category (filter_sel b) = Some c" "incident_pins (mapv b) = expected_pins nt its"
  shows "ok_state nt its (run (feed_only nt b))"
proof -
  have r: "represents (store b) its" using assms(1) by (simp add: base_ok_def)
  show ?thesis
    using assms render_feed_feed_of[OF r, of nt "search b" c]
    by (simp add: feed_only_def run_def parse_category_Some[OF assms(2)] ok_state_def base_ok_def feed_synced_def)
qed

lemma toggle_theme_ok:
  assumes "ok_state nt its a"
  shows "ok_state nt its (run (toggle_theme q a))"
proof -
  have r: "represents (store a) its" using assms by (simp add: ok_state_def base_ok_def)
  show ?thesis
  proof (cases "set_item q (store a) LS_THEME (if \<not> light a then ''light'' else ''dark'')")
    case (Inl e)
    then have "e = QuotaExceededError" by (rule set_item_errors)
    then show ?thesis using Inl assms
      by (auto simp: toggle_theme_def run_def ok_state_def base_ok_def feed_synced_def err_ok_def split: option.split)
  next
    case (Inr st)
    have "represents st its" using represents_other_key[OF r _ Inr] by simp
    then show ?thesis using Inr assms
      by (auto simp: toggle_theme_def run_def ok_state_def base_ok_def feed_synced_def split: option.split)
  qed
qed

lemma submit_geo_resume_ok:
  assumes "ok_state nt its a" "geo_ok g"
  shows "ok_state nt its (submit_geo_resume g a)"
proof -
  have l: "loc_ok (ensure_geolocation g)" using assms(2) by (rule geo_loc_ok)
  have t: "list_all task_ok (pending a)" using assms(1) by (rule ok_state_tasks)
  show ?thesis
  proof (cases "ensure_geolocation g")
    case None
    then show ?thesis
      using assms(1) t by (simp add: submit_geo_resume_def ok_state_pending task_ok_def loc_ok_def)
  next
    case (Some c)
    then have "ok_state nt its (a\<lparr>my_position := Some c\<rparr>)" using assms(1) l by (simp add: ok_state_position)
    then show ?thesis
      using Some l t by (simp add: submit_geo_resume_def ok_state_pending[where a = "a\<lparr>my_position := Some c\<rparr>", simplified] task_ok_def)
  qed
qed

lemma ok_state_remove_task:
  "ok_state nt its a \<Longrightarrow> ok_state nt its (a\<lparr>pending := remove_nth n (pending a)\<rparr>)"
  by (simp add: ok_state_pending ok_state_tasks list_all_remove_nth)

lemma task_ok_nth: "ok_state nt its a \<Longrightarrow> n < length (pending a) \<Longrightarrow> task_ok (pending a ! n)"
  using ok_state_tasks by (auto simp: list_all_length)

lemma resume_geo_ok:
  assumes "ok_state nt its a" "geo_ok g" "uid \<notin> set (stored_ids (store a))"
  shows "\<exists>its'. ok_state nt its' (resume_geo q nt n g uid now a) \<and> store_op its its'"
proof (cases "n < length (pending a)")
  case False
  then show ?thesis using assms(1) by (intro exI[of _ its]) (simp add: resume_geo_def store_op.keep)
next
  case True
  let ?a = "a\<lparr>pending := remove_nth n (pending a)\<rparr>"
  have a: "ok_state nt its ?a" using assms(1) by (rule ok_state_remove_task)
  have u: "uid \<notin> set (stored_ids (store ?a))" using assms(3) by simp
  show ?thesis
  proof (cases "pending a ! n")
    case TPanic
    then show ?thesis using True panic_resume_ok[OF a assms(2) u] by (simp add: resume_geo_def)
  next
    case TRefresh
    then show ?thesis
      using True refresh_resume_ok[OF a assms(2)] by (intro exI[of _ its]) (simp add: resume_geo_def store_op.keep)
  next
    case TCenter
    then show ?thesis
      using True center_tail_ok[OF refresh_resume_ok[OF a assms(2)]]
      by (intro exI[of _ its]) (simp add: resume_geo_def center_resume_def store_op.keep)
  next
    case TSubmitGeo
    then show ?thesis
      using True submit_geo_resume_ok[OF a assms(2)]
      by (intro exI[of _ its]) (simp add: resume_geo_def store_op.keep)
  qed (use True assms(1) in \<open>simp_all add: resume_geo_def exI[of _ its] store_op.keep\<close>)
qed

lemma resume_file_ok:
  assumes "ok_state nt its a" "uid \<notin> set (stored_ids (store a))"
  shows "\<exists>its'. ok_state nt its' (resume_file q nt n ok uid now a) \<and> store_op its its'"
proof (cases "n < length (pending a) \<and> (\<exists>loc file. pending a ! n = TSubmitFile loc file)")
  case False
  then have "resume_file q nt n ok uid now a = a"
    by (auto simp: resume_file_def split: task.split)
  then show ?thesis using assms(1) by (intro exI[of _ its]) (simp add: store_op.keep)
next
  case True
  then obtain loc fl where n: "n < length (pending a)" and t: "pending a ! n = TSubmitFile loc fl" by blast
  have l: "loc_ok loc" using task_ok_nth[OF assms(1) n] t by (simp add: task_ok_def)
  have "\<exists>its'. ok_state nt its' (run (submit_file_resume q nt ok uid now loc fl
                                        (a\<lparr>pending := remove_nth n (pending a)\<rparr>))) \<and> store_op its its'"
    by (rule submit_file_resume_ok[OF ok_state_remove_task[OF assms(1)]]) (simp_all add: l assms(2))
  then show ?thesis using n t by (simp add: resume_file_def)
qed

lemmas ok_frame_simps = ok_state_def base_ok_def feed_synced_def set_status_def task_ok_def

lemma resume_share_ok: "ok_state nt its a \<Longrightarrow> ok_state nt its (resume_share n sh a)"
  by (auto simp: resume_share_def Let_def panic_share_def share_app_def ok_frame_simps list_all_remove_nth
           split: task.split share_outcome.split option.split)

lemma resume_clipboard_ok: "ok_state nt its a \<Longrightarrow> ok_state nt its (resume_clipboard n ok a)"
  by (auto simp: resume_clipboard_def Let_def copy_coords_def copy_row_def ok_frame_simps list_all_remove_nth
           split: task.split option.split)

lemma step_ok:
  assumes "ok_state nt its a" "platform_ok a ev"
  shows "\<exists>its'. ok_state nt its' (app_step q nt a ev) \<and> store_op its its'"
proof (cases ev)
  case (EvSearch s)
  have "base_ok its (a\<lparr>search := s\<rparr>)" "incident_pins (mapv (a\<lparr>search := s\<rparr>)) = expected_pins nt its"
    using assms(1) by (simp_all add: ok_state_def base_ok_def)
  moreover obtain c where "parse_category (filter_sel a) = Some c"
    using assms(1) by (auto simp: ok_state_def base_ok_def)
  ultimately show ?thesis using EvSearch by (intro exI[of _ its]) (simp add: feed_only_ok store_op.keep)
next
  case (EvFilter c)
  have "base_ok its (a\<lparr>filter_sel := category_str c\<rparr>)"
    "incident_pins (mapv (a\<lparr>filter_sel := category_str c\<rparr>)) = expected_pins nt its"
    using assms(1) by (simp_all add: ok_state_def base_ok_def)
  then show ?thesis using EvFilter by (intro exI[of _ its]) (simp add: feed_only_ok store_op.keep)
next
  case (EvGeo n g uid now)
  then show ?thesis using assms resume_geo_ok by (simp add: platform_ok_def)
next
  case (EvShare n sh)
  then show ?thesis using resume_share_ok[OF assms(1)] by (intro exI[of _ its]) (simp add: store_op.keep)
next
  case (EvClipboard n ok)
  then show ?thesis using resume_clipboard_ok[OF assms(1)] by (intro exI[of _ its]) (simp add: store_op.keep)
next
  case (EvFile n ok uid now)
  then show ?thesis using assms resume_file_ok by (simp add: platform_ok_def)
next
  case (EvClear ok)
  then show ?thesis using assms(1) clear_click_ok by simp
next
  case (EvDelete n)
  then show ?thesis using assms(1) delete_row_ok by simp
next
  case EvToggleTheme
  then show ?thesis using toggle_theme_ok[OF assms(1)] by (intro exI[of _ its]) (simp add: store_op.keep)
next
  case EvCenter
  show ?thesis
  proof (cases "my_position a")
    case None
    then show ?thesis using assms(1) EvCenter
      by (intro exI[of _ its]) (auto simp: center_start_def refresh_start_def ok_frame_simps store_op.keep split: option.split)
  next
    case (Some c)
    then show ?thesis using assms(1) EvCenter center_tail_ok
      by (intro exI[of _ its]) (simp add: center_start_def store_op.keep)
  qed
next
  case EvSubmit
  then show ?thesis using assms(1)
    by (intro exI[of _ its]) (auto simp: submit_start_def ok_frame_simps store_op.keep split: option.split)
qed (use assms(1) in \<open>(intro exI[of _ its];
      auto simp: panic_start_def refresh_start_def copy_row_start_def copy_coords_start_def fill_demo_def
                 open_maps_click_def share_app_start_def ok_frame_simps store_op.keep
           split: option.split feed_view.split)+\<close>)

lemma boot_ok:
  assumes "represents st its" "distinct (map item_id its)"
  shows "ok_state nt its (run (boot q nt (app_init st)))"
proof -
  let ?m = "map_init_state\<lparr>map_on := True, view := (Num (-262041) (-4), Num 280473 (-4), 12)\<rparr>"
  let ?a = "(app_init st)\<lparr>light := (get_item st LS_THEME = Some ''light''), mapv := ?m\<rparr>"
  have "base_ok its ?a"
    using assms by (simp add: base_ok_def app_init_def map_wf_def map_init_state_def parse_category_def loc_ok_def)
  then obtain a' where "render_all q nt ?a = (None, a')" "ok_state nt its a'"
    using render_all_ok_state by blast
  then show ?thesis
    by (simp add: boot_def init_map_def update_my_marker_def app_init_def run_def)
qed

lemma reachable_ok: "reachable q nt a \<Longrightarrow> \<exists>its. ok_state nt its a"
proof (induction rule: reachable.induct)
  case (boot st its)
  then show ?case by (blast intro: boot_ok)
next
  case (step a ev)
  then obtain its where "ok_state nt its a" by blast
  then show ?case using step_ok[OF _ step.hyps(2), of nt its q] by blast
qed

lemma reachable_ok_state: "reachable q nt a \<Longrightarrow> represents (store a) its \<Longrightarrow> ok_state nt its a"
proof -
  assume r: "reachable q nt a" and s: "represents (store a) its"
  obtain its0 where ok: "ok_state nt its0 a" using reachable_ok[OF r] by blast
  then have "its0 = its" using s by (auto simp: ok_state_def base_ok_def intro: represents_unique)
  then show ?thesis using ok by simp
qed

lemma reachable_store_step:
  assumes "reachable q nt a" "platform_ok a ev"
    and "represents (store a) its" "represents (store (app_step q nt a ev)) its'"
  shows "store_op its its'"
proof -
  obtain its0 where ok: "ok_state nt its0 a" using reachable_ok[OF assms(1)] by blast
  have "its0 = its" using ok assms(3) by (auto simp: ok_state_def base_ok_def intro: represents_unique)
  moreover obtain its1 where "ok_state nt its1 (app_step q nt a ev)" "store_op its0 its1"
    using step_ok[OF ok assms(2)] by blast
  moreover have "its1 = its'" using calculation(2) assms(4) by (auto simp: ok_state_def base_ok_def intro: represents_unique)
  ultimately show ?thesis by simp
qed

lemma reachable_app_run:
  "reachable q nt a \<Longrightarrow> run_ok q nt a evs \<Longrightarrow> reachable q nt (app_run q nt a evs)"
  by (induction evs arbitrary: a) (auto simp: app_run_def intro: reachable.step)

lemma reachable_boot_state:
  "represents st its \<Longrightarrow> distinct (map item_id its) \<Longrightarrow> reachable q nt (boot_state q nt st)"
  unfolding boot_state_def by (rule reachable.boot)

lemma reachable_boot_empty: "reachable q nt (boot_state q nt [])"
  by (rule reachable_boot_state[of _ "[]"]) (simp_all add: represents_def get_item_def)

lemma render_all_keeps_store: "store (snd (render_all q nt a)) = store a"
  by (auto simp: render_all_def Let_def st_atomic_def split: sum.split prod.split option.split)

lemma add_item_stores:
  assumes "represents (store a) its" "set_item q (store a) LS_KEY (items_blob (it # its)) = Inr st"
  shows "store (snd (add_item q nt (item_json it) a)) = st"
  using assms render_all_keeps_store[of q nt "a\<lparr>store := st\<rparr>"]
  by (simp add: add_item_def add_item_store_eq)

lemma run_checked_sound:
  "run_checked q nt a evs = Some b \<Longrightarrow> reachable q nt a \<Longrightarrow> reachable q nt b \<and> b = app_run q nt a evs"
  by (induction evs arbitrary: a) (auto simp: app_run_def intro: reachable.step split: if_splits)

lemma run_checked_holds:
  assumes "case run_checked q nt a evs of Some b \<Rightarrow> P b | None \<Rightarrow> False" "reachable q nt a"
  shows "reachable q nt (app_run q nt a evs) \<and> P (app_run q nt a evs)"
proof -
  obtain b where r: "run_checked q nt a evs = Some b" and p: "P b"
    using assms(1) by (auto split: option.splits)
  have "reachable q nt b" "b = app_run q nt a evs" using run_checked_sound[OF r assms(2)] by blast+
  then show ?thesis using p by simp
qed

end
