(* ===== verification/JsonFuel.thy ===== *)
theory JsonFuel
  imports Json
begin

text \<open>
  The fuel of \<open>JSON.parse\<close> (Json, \<open>parse_value\<close>) is enough. Every call of
  the recursive descent either consumes input or spends fuel, and every successful
  parse returns a strictly shorter rest (\<open>parse_shorter\<close>). So a text of length
  \<open>l\<close> never needs more than \<open>2 * l + 1\<close> units: with that much fuel or more the
  result no longer depends on the fuel (\<open>parse_fuel_stable\<close>), and \<open>json_parse\<close>
  is the parser of the whole grammar, not a truncation of it.
\<close>

section \<open>Each parser returns a shorter rest\<close>

lemma skip_ws_Cons_shorter: "skip_ws s = c # r \<Longrightarrow> length r < length s"
  using length_dropWhile_le[of is_json_ws s] by simp

lemma length_dropWhile_less_Suc [simp]: "length (dropWhile P xs) < Suc (length xs)"
  using length_dropWhile_le[of P xs] by simp

lemma parse_string_shorter: "parse_string s = Some (t, r) \<Longrightarrow> length r < length s"
proof (induction "length s" arbitrary: s t rule: less_induct)
  case less
  then obtain c cs where s: "s = c # cs" by (cases s) simp_all
  have ih: "parse_string u = Some (t', r) \<Longrightarrow> length u < length s \<Longrightarrow> length r < length s" for u t'
    using less.hyps by fastforce
  show ?case
    using less.prems ih
    by (fastforce simp: s cons_str_def Let_def split: if_splits list.splits option.splits)
qed

lemma parse_int_part_shorter: "parse_int_part s = Some (ip, s2) \<Longrightarrow> length s2 < length s"
  by (auto simp: parse_int_part_def split: list.splits if_splits)

lemma parse_frac_shorter: "parse_frac s = Some (fp, s3) \<Longrightarrow> length s3 \<le> length s"
  by (cases s) (auto simp: parse_frac_def split: if_splits intro: le_SucI length_dropWhile_le)

lemma parse_exp_shorter: "parse_exp s = Some (x, s4) \<Longrightarrow> length s4 \<le> length s"
  by (cases s) (auto simp: parse_exp_def Let_def split: if_splits list.splits prod.splits
                     intro: le_SucI length_dropWhile_le)

lemma parse_number_shorter: "parse_number s = Some (x, r) \<Longrightarrow> length r < length s"
  by (auto simp: parse_number_def Let_def split: list.splits if_splits prod.splits option.splits
           dest!: parse_int_part_shorter parse_frac_shorter parse_exp_shorter)

lemma map_option_pair_Some [simp]:
  "map_option (\<lambda>(a, b). (f a, b)) x = Some (v, r) \<longleftrightarrow> (\<exists>a. x = Some (a, r) \<and> v = f a)"
  by (cases x) auto

lemma scalar_shorter:
  assumes "(if c = dquote then map_option (\<lambda>(t, y). (JStr t, y)) (parse_string r)
         else if prefix ''true'' (c # r) then Some (JBool True, drop 3 r)
         else if prefix ''false'' (c # r) then Some (JBool False, drop 4 r)
         else if prefix ''null'' (c # r) then Some (JNull, drop 3 r)
         else map_option (\<lambda>(x, y). (JNum x, y)) (parse_number (c # r))) = Some (v, r')"
  shows "length r' < Suc (length r)"
proof -
  consider "c = dquote" "\<exists>t. parse_string r = Some (t, r')" | "r' = drop 3 r \<or> r' = drop 4 r"
    | "\<exists>x. parse_number (c # r) = Some (x, r')"
    using assms by (auto split: if_splits simp del: prefix_code)
  then show ?thesis
    by cases (auto dest: parse_string_shorter parse_number_shorter)
qed

lemma parse_value_step_shorter:
  assumes ihm: "\<And>acc s kvs r. parse_members n acc s = Some (kvs, r) \<Longrightarrow> length r < length s"
    and ihe: "\<And>acc s vs r. parse_elems n acc s = Some (vs, r) \<Longrightarrow> length r < length s"
    and p: "parse_value (Suc n) s = Some (v, r)"
  shows "length r < length s"
proof (cases "skip_ws s")
  case Nil
  then show ?thesis using p by (simp only: parse_value.simps list.case option.distinct)
next
  case (Cons c t)
  have lt: "length t < length s" using Cons by (rule skip_ws_Cons_shorter)
  have inner: "length r < length s"
    if "(case skip_ws t of [] \<Rightarrow> None
         | d # u \<Rightarrow> if d = e then Some (x, u) else map_option (\<lambda>(a, b). (f a, b)) (g (d # u))) = Some (v, r)"
       and ih: "\<And>w a. g w = Some (a, r) \<Longrightarrow> length r < length w"
    for e x f g
  proof (cases "skip_ws t")
    case Nil
    then show ?thesis using that(1) by (simp only: list.case option.distinct)
  next
    case (Cons d u)
    have "length (d # u) \<le> length t" using length_dropWhile_le[of is_json_ws t] Cons by simp
    moreover have "length u < length t" using Cons by (rule skip_ws_Cons_shorter)
    ultimately show ?thesis using that Cons lt by (auto split: if_splits dest!: ih)
  qed
  show ?thesis
  proof (cases "c = CHR ''{''")
    case True
    then show ?thesis using p Cons by (intro inner[where g = "parse_members n []"]) (simp_all add: ihm)
  next
    case n1: False
    show ?thesis
    proof (cases "c = CHR ''[''")
      case True
      then show ?thesis using p Cons n1 by (intro inner[where g = "parse_elems n []"]) (simp_all add: ihe)
    next
      case False
      have "length r < Suc (length t)"
        using p Cons n1 False by (intro scalar_shorter[of c t v]) (simp del: prefix_code)
      then show ?thesis using lt by simp
    qed
  qed
qed

lemma parse_elems_step_shorter:
  assumes ihv: "\<And>s v r. parse_value n s = Some (v, r) \<Longrightarrow> length r < length s"
    and ihe: "\<And>acc s vs r. parse_elems n acc s = Some (vs, r) \<Longrightarrow> length r < length s"
    and p: "parse_elems (Suc n) acc s = Some (vs, r)"
  shows "length r < length s"
proof (cases "parse_value n s")
  case None
  then show ?thesis using p by simp
next
  case (Some vr)
  obtain v r0 where vr: "vr = (v, r0)" by fastforce
  have l0: "length r0 < length s" using ihv Some vr by simp
  show ?thesis
  proof (cases "skip_ws r0")
    case Nil
    then show ?thesis using p Some vr by (simp only: parse_elems.simps option.case prod.case list.case option.distinct)
  next
    case (Cons c t)
    have "length t < length r0" using Cons by (rule skip_ws_Cons_shorter)
    then show ?thesis using p Some vr Cons l0 by (auto split: if_splits dest!: ihe)
  qed
qed

lemma parse_members_step_shorter:
  assumes ihv: "\<And>s v r. parse_value n s = Some (v, r) \<Longrightarrow> length r < length s"
    and ihm: "\<And>acc s kvs r. parse_members n acc s = Some (kvs, r) \<Longrightarrow> length r < length s"
    and p: "parse_members (Suc n) macc s = Some (kvs, r)"
  shows "length r < length s"
proof (cases "skip_ws s")
  case Nil
  then show ?thesis using p by (simp only: parse_members.simps list.case option.distinct)
next
  case (Cons c t)
  have l1: "length t < length s" using Cons by (rule skip_ws_Cons_shorter)
  obtain k r1 where ks: "parse_string t = Some (k, r1)" and cq: "c = dquote"
    using p Cons by (auto split: if_splits option.splits)
  have l2: "length r1 < length s" using parse_string_shorter[OF ks] l1 by simp
  obtain d r2 where d: "skip_ws r1 = d # r2" "d = CHR '':''"
    using p Cons ks cq by (auto split: if_splits option.splits list.splits)
  have l3: "length r2 < length s" using skip_ws_Cons_shorter[OF d(1)] l2 by simp
  obtain v r3 where pv: "parse_value n r2 = Some (v, r3)"
    using p Cons ks cq d by (auto split: option.splits)
  have l4: "length r3 < length s" using ihv[OF pv] l3 by simp
  obtain e r4 where e: "skip_ws r3 = e # r4"
    using p Cons ks cq d pv by (auto split: list.splits)
  have l5: "length r4 < length s" using skip_ws_Cons_shorter[OF e] l4 by simp
  show ?thesis
    using p Cons ks cq d pv e l5 by (auto split: if_splits dest!: ihm)
qed

lemma parse_shorter:
  "(\<forall>s v r. parse_value n s = Some (v, r) \<longrightarrow> length r < length s)
   \<and> (\<forall>acc s vs r. parse_elems n acc s = Some (vs, r) \<longrightarrow> length r < length s)
   \<and> (\<forall>macc s kvs r. parse_members n macc s = Some (kvs, r) \<longrightarrow> length r < length s)"
proof (induction n)
  case 0
  then show ?case by simp
next
  case (Suc n)
  have v: "\<And>s v r. parse_value n s = Some (v, r) \<Longrightarrow> length r < length s"
    and e: "\<And>acc s vs r. parse_elems n acc s = Some (vs, r) \<Longrightarrow> length r < length s"
    and m: "\<And>macc s kvs r. parse_members n macc s = Some (kvs, r) \<Longrightarrow> length r < length s"
    using Suc.IH by blast+
  show ?case
  proof (intro conjI allI impI)
    fix s v r assume "parse_value (Suc n) s = Some (v, r)"
    then show "length r < length s" by (rule parse_value_step_shorter[rotated 2]) (erule v | erule e | erule m)+
  next
    fix acc s vs r assume "parse_elems (Suc n) acc s = Some (vs, r)"
    then show "length r < length s" by (rule parse_elems_step_shorter[rotated 2]) (erule v | erule e | erule m)+
  next
    fix macc s kvs r assume "parse_members (Suc n) macc s = Some (kvs, r)"
    then show "length r < length s" by (rule parse_members_step_shorter[rotated 2]) (erule v | erule e | erule m)+
  qed
qed

lemma parse_value_shorter: "parse_value n s = Some (v, r) \<Longrightarrow> length r < length s"
  using parse_shorter by blast

section \<open>More fuel changes nothing\<close>

lemma parse_value_step_stable:
  assumes len: "2 * length s + 1 \<le> Suc n"
    and ihm: "\<And>macc s k. 2 * length s + 2 \<le> n \<Longrightarrow> parse_members (n + k) macc s = parse_members n macc s"
    and ihe: "\<And>acc s k. 2 * length s + 2 \<le> n \<Longrightarrow> parse_elems (n + k) acc s = parse_elems n acc s"
  shows "parse_value (Suc n + k) s = parse_value (Suc n) s"
proof (cases "skip_ws s")
  case Nil
  then show ?thesis by (simp only: add_Suc parse_value.simps list.case)
next
  case (Cons c t)
  have lt: "length t < length s" using Cons by (rule skip_ws_Cons_shorter)
  have du: "2 * length (d # u) + 2 \<le> n" if "skip_ws t = d # u" for d u
    using length_dropWhile_le[of is_json_ws t] that lt len by simp
  have m: "parse_members (n + k) [] (d # u) = parse_members n [] (d # u)"
    and e: "parse_elems (n + k) [] (d # u) = parse_elems n [] (d # u)" if "skip_ws t = d # u" for d u
    using du[OF that] by (simp_all add: ihm ihe)
  show ?thesis
    by (cases "skip_ws t") (simp_all add: Cons m e del: dropWhile_eq_Nil_conv prefix_code)
qed

lemma parse_elems_step_stable:
  assumes len: "2 * length s + 2 \<le> Suc n"
    and ihv: "\<And>s k. 2 * length s + 1 \<le> n \<Longrightarrow> parse_value (n + k) s = parse_value n s"
    and ihe: "\<And>acc s k. 2 * length s + 2 \<le> n \<Longrightarrow> parse_elems (n + k) acc s = parse_elems n acc s"
  shows "parse_elems (Suc n + k) acc s = parse_elems (Suc n) acc s"
proof -
  have pv: "parse_value (n + k) s = parse_value n s" using len by (intro ihv) simp
  show ?thesis
  proof (cases "parse_value n s")
    case None
    then show ?thesis by (simp add: pv)
  next
    case (Some vr)
    obtain v r0 where vr: "vr = (v, r0)" by fastforce
    have l0: "length r0 < length s" using parse_value_shorter Some vr by simp
    have e: "parse_elems (n + k) (acc @ [v]) r' = parse_elems n (acc @ [v]) r'" if "skip_ws r0 = c # r'" for c r'
      using skip_ws_Cons_shorter[OF that] l0 len by (intro ihe) simp
    show ?thesis
      using Some vr by (cases "skip_ws r0") (simp_all add: pv e del: dropWhile_eq_Nil_conv)
  qed
qed

lemma parse_members_step_stable:
  assumes len: "2 * length s + 2 \<le> Suc n"
    and ihv: "\<And>s k. 2 * length s + 1 \<le> n \<Longrightarrow> parse_value (n + k) s = parse_value n s"
    and ihm: "\<And>macc s k. 2 * length s + 2 \<le> n \<Longrightarrow> parse_members (n + k) macc s = parse_members n macc s"
  shows "parse_members (Suc n + k) macc s = parse_members (Suc n) macc s"
proof (cases "skip_ws s")
  case Nil
  then show ?thesis by (simp only: add_Suc parse_members.simps list.case)
next
  case (Cons c t)
  have l1: "length t < length s" using Cons by (rule skip_ws_Cons_shorter)
  have v: "parse_value (n + k) r2 = parse_value n r2"
    if "parse_string t = Some (x, r1)" "skip_ws r1 = d # r2" for x r1 d r2
    using parse_string_shorter[OF that(1)] skip_ws_Cons_shorter[OF that(2)] l1 len by (intro ihv) simp
  have m: "parse_members (n + k) acc' r4 = parse_members n acc' r4"
    if "parse_string t = Some (x, r1)" "skip_ws r1 = d # r2" "parse_value n r2 = Some (w, r3)"
       "skip_ws r3 = e # r4" for x r1 d r2 w r3 e r4 acc'
    using parse_string_shorter[OF that(1)] skip_ws_Cons_shorter[OF that(2)]
          parse_value_shorter[OF that(3)] skip_ws_Cons_shorter[OF that(4)] l1 len
    by (intro ihm) simp
  show ?thesis
    by (simp add: Cons v m del: dropWhile_eq_Nil_conv split: option.split list.split)
qed

lemma parse_fuel_stable:
  "(\<forall>s k. 2 * length s + 1 \<le> n \<longrightarrow> parse_value (n + k) s = parse_value n s)
   \<and> (\<forall>acc s k. 2 * length s + 2 \<le> n \<longrightarrow> parse_elems (n + k) acc s = parse_elems n acc s)
   \<and> (\<forall>macc s k. 2 * length s + 2 \<le> n \<longrightarrow> parse_members (n + k) macc s = parse_members n macc s)"
proof (induction n)
  case 0
  then show ?case by simp
next
  case (Suc n)
  have v: "\<And>s k. 2 * length s + 1 \<le> n \<Longrightarrow> parse_value (n + k) s = parse_value n s"
    and e: "\<And>acc s k. 2 * length s + 2 \<le> n \<Longrightarrow> parse_elems (n + k) acc s = parse_elems n acc s"
    and m: "\<And>macc s k. 2 * length s + 2 \<le> n \<Longrightarrow> parse_members (n + k) macc s = parse_members n macc s"
    using Suc.IH by blast+
  show ?case
    using parse_value_step_stable[OF _ m e] parse_elems_step_stable[OF _ v e]
          parse_members_step_stable[OF _ v m]
    by blast
qed


text \<open>So \<open>json_parse\<close> computes the same as the parser with any larger fuel.\<close>

lemma json_parse_fuel:
  assumes "2 * length text + 1 \<le> n"
  shows "json_parse text =
           (case parse_value n text of None \<Rightarrow> None | Some (v, r) \<Rightarrow> if skip_ws r = [] then Some v else None)"
proof -
  have "parse_value n text = parse_value (2 * length text + 1) text"
    using parse_fuel_stable[of "2 * length text + 1"] le_Suc_ex[OF assms] by auto
  then show ?thesis by (simp add: json_parse_def)
qed

end
