(* ===== verification/Schema.thy ===== *)
theory Schema
  imports Feed MapView
begin

text \<open>
  The record type of spec 3 as a type of JSON values: \<open>has_ty item_ty v\<close> says
  that \<open>v\<close> is an object whose fields \<open>id\<close>, \<open>type\<close>, \<open>description\<close> and
  \<open>createdAt\<close> are strings, \<open>kind\<close> is \<open>"PANIC"\<close> or \<open>"REPORT"\<close>, \<open>location\<close> is
  \<open>null\<close> or an object with numbers \<open>lat\<close>, \<open>lng\<close>, \<open>acc\<close>, and
  \<open>imageDataUrl\<close> is \<open>null\<close> or a string; other fields and their order are free.
  Every record the script writes has the type (\<open>item_json_typed\<close>), and on values of
  the type the code that reads the store cannot throw (progress): the feed filter, the
  row template, \<open>upsertIncidentMarker\<close> and so \<open>renderFeed\<close> and
  \<open>rebuildMarkers\<close>.
\<close>

section \<open>The record type\<close>

datatype jty = TyStr | TyNum | TyEnum "string list" | TyNullable jty | TyObj "(string \<times> jty) list"

fun has_ty :: "jty \<Rightarrow> json \<Rightarrow> bool"
and fields_ty :: "(string \<times> json) list \<Rightarrow> (string \<times> jty) list \<Rightarrow> bool" where
  "has_ty TyStr v = (case v of JStr _ \<Rightarrow> True | _ \<Rightarrow> False)"
| "has_ty TyNum v = (case v of JNum _ \<Rightarrow> True | _ \<Rightarrow> False)"
| "has_ty (TyEnum ss) v = (case v of JStr s \<Rightarrow> s \<in> set ss | _ \<Rightarrow> False)"
| "has_ty (TyNullable t) v = (v = JNull \<or> has_ty t v)"
| "has_ty (TyObj fs) v = (case v of JObj kvs \<Rightarrow> fields_ty kvs fs | _ \<Rightarrow> False)"
| "fields_ty kvs [] = True"
| "fields_ty kvs ((k, t) # fs) = ((case map_of kvs k of Some w \<Rightarrow> has_ty t w | None \<Rightarrow> False) \<and> fields_ty kvs fs)"

definition coords_ty :: jty where
  "coords_ty = TyObj [(''lat'', TyNum), (''lng'', TyNum), (''acc'', TyNum)]"

definition item_ty :: jty where
  "item_ty =
     TyObj [(''id'', TyStr), (''kind'', TyEnum [''PANIC'', ''REPORT'']), (''type'', TyStr),
            (''description'', TyStr), (''location'', TyNullable coords_ty), (''createdAt'', TyStr),
            (''imageDataUrl'', TyNullable TyStr)]"

section \<open>Progress on well-typed entries\<close>

lemma item_json_typed: "has_ty item_ty (item_json it)"
  by (cases "location it"; cases "imageDataUrl it"; cases "kind it")
     (simp_all add: item_ty_def coords_ty_def item_json_def coords_json_def kind_str_def)

lemma typed_fields:
  assumes "has_ty item_ty v"
  obtains kvs i k t d l ca img where "v = JObj kvs"
    "map_of kvs ''id'' = Some (JStr i)" "map_of kvs ''kind'' = Some (JStr k)"
    "map_of kvs ''type'' = Some (JStr t)" "map_of kvs ''description'' = Some (JStr d)"
    "map_of kvs ''location'' = Some l" "has_ty (TyNullable coords_ty) l"
    "map_of kvs ''createdAt'' = Some (JStr ca)" "map_of kvs ''imageDataUrl'' = Some img"
  using assms by (auto simp: item_ty_def split: json.splits option.splits)

lemma typed_location:
  assumes "has_ty (TyNullable coords_ty) l"
  shows "l = JNull \<or> (\<exists>kvs la ln ac. l = JObj kvs \<and> map_of kvs ''lat'' = Some (JNum la)
                         \<and> map_of kvs ''lng'' = Some (JNum ln) \<and> map_of kvs ''acc'' = Some ac)"
  using assms by (auto simp: coords_ty_def split: json.splits option.splits)

lemma typed_feed_pred: "has_ty item_ty v \<Longrightarrow> \<exists>b. feed_pred q f v = Inr b"
  by (erule typed_fields)
     (auto simp: feed_pred_def matches_search_def matches_filter_def get_prop_def js_bind_def Let_def)

lemma typed_loc_text: "has_ty (TyNullable coords_ty) l \<Longrightarrow> \<exists>s. loc_text (V l) = Inr s \<and> (\<exists>s. maps_link (V l) = Inr s)"
  by (drule typed_location)
     (auto simp: loc_text_def maps_link_def get_prop_v_def get_prop_def js_to_fixed_def js_bind_def)

lemma typed_render_row: "has_ty item_ty v \<Longrightarrow> \<exists>r. render_row nt v = Inr r"
proof (erule typed_fields)
  fix kvs i k t d l ca img
  assume v: "v = JObj kvs" and f: "map_of kvs ''id'' = Some (JStr i)" "map_of kvs ''kind'' = Some (JStr k)"
    "map_of kvs ''type'' = Some (JStr t)" "map_of kvs ''description'' = Some (JStr d)"
    "map_of kvs ''location'' = Some l" "has_ty (TyNullable coords_ty) l"
    "map_of kvs ''createdAt'' = Some (JStr ca)" "map_of kvs ''imageDataUrl'' = Some img"
  obtain s1 s2 where "loc_text (V l) = Inr s1" "maps_link (V l) = Inr s2"
    using typed_loc_text[OF f(6)] by blast
  then show "\<exists>r. render_row nt v = Inr r"
    using v f by (simp add: render_row_def get_prop_def js_bind_def)
qed

lemma typed_upsert:
  "has_ty item_ty v \<Longrightarrow> \<exists>ms'. upsert_incident_marker nt v ms = Inr ms'"
proof (erule typed_fields)
  fix kvs i k t d l ca img
  assume v: "v = JObj kvs" and f: "map_of kvs ''id'' = Some (JStr i)" "map_of kvs ''kind'' = Some (JStr k)"
    "map_of kvs ''type'' = Some (JStr t)" "map_of kvs ''description'' = Some (JStr d)"
    "map_of kvs ''location'' = Some l" "has_ty (TyNullable coords_ty) l"
    "map_of kvs ''createdAt'' = Some (JStr ca)" "map_of kvs ''imageDataUrl'' = Some img"
  show "\<exists>ms'. upsert_incident_marker nt v ms = Inr ms'"
    using typed_location[OF f(6)] v f
    by (auto simp: upsert_incident_marker_def get_prop_def get_prop_v_def js_bind_def Let_def
                   set_lat_lng_def new_marker_def to_latlng_def split: option.split)
qed

lemma typed_upsert_all: "list_all (has_ty item_ty) vs \<Longrightarrow> fst (upsert_all nt vs ms) = None"
proof (induction vs arbitrary: ms)
  case Nil
  then show ?case by simp
next
  case (Cons v vs)
  obtain ms' where "upsert_incident_marker nt v ms = Inr ms'" using typed_upsert Cons.prems by fastforce
  then show ?case using Cons by (simp add: st_atomic_def st_bind_def split: prod.split)
qed

lemma typed_render_feed:
  assumes "load_items st = JArr vs" "list_all (has_ty item_ty) vs"
  shows "\<exists>fv. render_feed nt st q f = Inr fv"
proof -
  obtain ys where ys: "js_filter (feed_pred (trim q) f) vs = Inr ys"
    using js_filter_ok[of vs "feed_pred (trim q) f"] typed_feed_pred assms(2) by (auto simp: list_all_iff)
  have "list_all (has_ty item_ty) ys" using js_filter_subset[OF ys] assms(2) by (auto simp: list_all_iff)
  then obtain rs where "js_map (render_row nt) ys = Inr rs"
    using js_map_ok[of ys "render_row nt"] typed_render_row by (auto simp: list_all_iff)
  then show ?thesis using assms(1) ys by (simp add: render_feed_def js_array_filter_def js_bind_def)
qed

lemma typed_rebuild_markers:
  assumes "load_items st = JArr vs" "list_all (has_ty item_ty) vs" "map_on ms"
  shows "fst (rebuild_markers nt st ms) = None"
  using assms typed_upsert_all[OF assms(2)] by (simp add: rebuild_markers_def Let_def)

lemma update_my_marker_total: "\<exists>m'. update_my_marker pos m = Inr m'"
  by (auto simp: update_my_marker_def new_marker_def set_lat_lng_def to_latlng_def js_bind_def
           split: option.split)

end
