(* ===== verification/Spec2Isabelle.thy ===== *)
theory Spec2Isabelle
  imports AppInvariant JsonFuel Schema
begin

text \<open>
  \<^bold>\<open>SafeConnect: a verification development of src/app.js.\<close>

  SafeConnect is a single browser script (src/app.js). Users raise panic alerts and
  submit incident reports; each record is stored in \<open>localStorage\<close> as one JSON
  array under the key \<open>safeconnect_items_v1\<close>, newest first, and every change
  re-renders three views from the store: the feed (filtered by a search box and a
  category select), the Leaflet map markers, and the location panel.

  \<^bold>\<open>Theories and what they model.\<close>
  \<^item> \<open>Prelude\<close>: exceptions as values (\<open>'a js = js_error + 'a\<close>), the string
    built-ins the script calls (\<open>toLowerCase\<close>, \<open>trim\<close>, \<open>includes\<close>,
    \<open>replaceAll\<close>, \<open>Array.prototype.filter\<close> with a throwing callback).
  \<^item> \<open>JsNumber\<close>: numbers as canonical decimals, \<open>Number::toString\<close> and
    \<open>toFixed\<close>.
  \<^item> \<open>Json\<close>: \<open>JSON.stringify\<close> and \<open>JSON.parse\<close> (a recursive-descent parser
    with fuel), with JavaScript's property order for objects.
    \<open>JsonRoundtrip\<close> proves \<open>JSON.parse\<close> inverts \<open>JSON.stringify\<close>;
    \<open>JsonFuel\<close> proves that the parser's fuel never cuts a parse short.
  \<^item> \<open>JsValue\<close>: property access, truthiness, template-literal string
    conversion, \<open>encodeURIComponent\<close> and \<open>coordsToMapsLink\<close> (lines 85-88).
  \<^item> \<open>Item\<close>: the incident record (the literals at lines 318-326 and 420-428),
    \<open>ensureGeolocation\<close> (lines 90-108) and the stored JSON encoding.
  \<^item> \<open>Query\<close>: \<open>matchesSearch\<close>, \<open>matchesFilter\<close> and the feed's filter
    (lines 191-207) over parsed JSON, refined to a typed query.
  \<^item> \<open>Html\<close>: \<open>escapeHtml\<close> (lines 182-189) and the attribute decoding
    \<open>getAttribute\<close> sees.
  \<^item> \<open>Store\<close>: \<open>localStorage\<close> with a quota, \<open>loadItems\<close>, \<open>saveItems\<close>,
    \<open>addItem\<close>, \<open>clearAll\<close> and the delete handler's store update (lines 57-79,
    260-262), with the abstraction \<open>represents\<close> from storage to record lists.
  \<^item> \<open>Feed\<close>: \<open>renderFeed\<close> (lines 202-267) as the values its row template
    puts into each slot, the payloads of the copy and delete buttons, and the typed
    feed \<open>feed_of\<close> that the rendered feed refines.
  \<^item> \<open>MapView\<close>: the Leaflet objects the script touches (a marker heap indexed by
    handle, the map's layer list, the script's \<open>markers\<close> JS Map with SameValueZero
    keys), \<open>initMap\<close>, \<open>updateMyMarkerOnMap\<close>, \<open>upsertIncidentMarker\<close> and
    \<open>rebuildMarkers\<close> (lines 110-180). Leaflet's own checks enter only where the
    script can reach them: a coordinate that is not a number throws.
  \<^item> \<open>LocationPanel\<close>: \<open>renderLocationBox\<close> (lines 269-284), the copied
    coordinates text (line 390) and the panic share text (lines 331-333).
  \<^item> \<open>Schema\<close>: the record type of spec 3 as a type of JSON values, and progress:
    the feed filter, the row template and the marker upsert cannot throw on
    well-typed entries.
  \<^item> \<open>App\<close>: the controller. Its state \<open>app\<close> holds the store, \<open>myPosition\<close>, the
    map, the rendered feed and panel, the status line, the form fields, what was
    shared or copied, the pending continuations of the async handlers and the
    uncaught exceptions. Each handler of lines 246-461 is split at its \<open>await\<close>s
    into a start and continuations (\<open>task\<close>): the position fetch, the file read
    (\<open>fileToDataURL\<close>), \<open>navigator.share\<close> and the clipboard write. \<open>app_step\<close>
    runs one user or platform event (a click, a form edit, the outcome of one of those
    awaits), and \<open>app_run\<close> a sequence of them, so any interleaving of handlers is a
    sequence of steps.
  \<^item> \<open>AppInvariant\<close>: \<open>reachable\<close>, the inductive set of states from a boot on a
    store of well-formed records with distinct ids, under \<open>platform_ok\<close>: \<open>uuid()\<close>
    yields an id not in the store and geolocation yields numbers in canonical form;
    the invariant \<open>ok_state\<close>; \<open>store_op\<close>, the abstract store machine of spec 3.

  \<^bold>\<open>What is proved.\<close> In the root theory: the controller invariant \<open>ok_state\<close>
  holds in every reachable state, so the markers match the stored records (C1), the
  ids stay distinct (C3), the feed matches the store (C4) and only quota and file
  errors escape (C5); every step refines \<open>store_op\<close> (C2). Then the store laws of
  spec 8 (C6-C11), the feed as a refinement of the query and the search over the
  rendered feed (C12-C14), escaping and the delete button (C15-C17), the error paths
  of corrupt or full storage (C18-C20), the panic and the confirmed clear on every
  reachable state (C21, C22), two behaviours that diverge from spec 7 and 4.5 (C23,
  C24, recorded as findings), component properties of the map, the panel and the
  handlers (C25-C29), progress on well-typed stores (C30), and the error and frame
  behaviour of the file read and the share and clipboard awaits (C31, C32). The
  demonstration inputs below only serve as witnesses: each instantiates a general
  theorem at a concrete reachable state.

  \<^bold>\<open>Modelling choices.\<close> Strings are byte lists (UTF-8); case mapping and
  whitespace are modelled on ASCII. Numbers are exact decimals in canonical form:
  \<open>Number::toString\<close> is modelled exactly on them, \<open>toFixed\<close> rounds the decimal
  (the engine rounds the binary value; they differ only on exact ties), and
  \<open>JSON.parse\<close> reads decimals exactly (the engine rounds to binary64; on the text
  \<open>JSON.stringify\<close> writes the two agree). NaN, infinities and \<open>-0\<close> are not
  modelled. \<open>JSON.parse\<close> is given fuel \<open>2 * length text + 1\<close>, which JsonFuel
  shows is enough (any larger fuel gives the same result). The quota of \<open>localStorage\<close> is a parameter
  \<open>q\<close>, and \<open>niceTime\<close> (locale dependent) a parameter \<open>nt\<close>; \<open>uuid()\<close> and
  \<open>nowISO()\<close> are values carried by the events. A chosen file is given by the data
  URL \<open>FileReader\<close> makes of it; whether \<open>navigator.share\<close> exists and how a share
  or clipboard write ends are the outcomes of the events that resume those awaits.

  \<^bold>\<open>Not modelled.\<close> DOM lookups and event wiring (lines 9-36: each handler is a
  case of \<open>app_step\<close>), the tile layer (no data the script reads back), how
  \<open>FileReader\<close> encodes a file (the data URL is the event's value), the clock and
  locale behind \<open>nowISO\<close> and \<open>niceTime\<close>, and other tabs writing the same
  storage. The id generator's randomness is replaced by the
  freshness assumption of \<open>platform_ok\<close>.
\<close>

section \<open>Demonstration inputs\<close>

text \<open>Concrete inputs for the witnesses and scenarios: a quota of five million
  characters (the usual \<open>localStorage\<close> limit), a \<open>niceTime\<close> that shows the ISO
  string as it is, and the event sequence of scenario B of spec 8: a panic whose
  position fetch succeeds with latitude -26.1, longitude 28.0, accuracy 15.\<close>

definition demo_quota :: nat where
  "demo_quota = 5000000"

definition demo_time :: "jsval \<Rightarrow> string" where
  "demo_time v = to_str v"

definition scenario_b :: "event list" where
  "scenario_b =
     [EvPanic, EvGeo 0 (GeoPosition (Num (-261) (-1)) (Num 28 0) (Num 15 0)) ''b1'' ''2026-11-09T10:00:00.000Z'']"

definition state_b :: app where
  "state_b = app_run demo_quota demo_time (boot_state demo_quota demo_time []) scenario_b"

text \<open>A report with a photo chosen, whose position fetch succeeds but whose file
  read fails.\<close>

definition scenario_d :: "event list" where
  "scenario_d =
     [EvForm ''Fence Damage'' ''Gate broken'' (Some ''data:image/png;base64,AAAA''),
      EvSubmit, EvGeo 0 (GeoPosition (Num (-261) (-1)) (Num 28 0) (Num 15 0)) ''d0'' ''-'',
      EvFile 0 False ''d1'' ''t1'']"

definition state_d :: app where
  "state_d = app_run demo_quota demo_time (boot_state demo_quota demo_time []) scenario_d"

text \<open>A report submitted without a known position, whose position fetch fails; its
  file read is still pending.\<close>

definition scenario_w :: "event list" where
  "scenario_w = [EvForm ''Fence Damage'' ''Gate broken'' None, EvSubmit, EvGeo 0 GeoFailed ''w0'' ''-'']"

definition state_w :: app where
  "state_w = app_run demo_quota demo_time (boot_state demo_quota demo_time []) scenario_w"

text \<open>A panic pressed after boot, its position fetch still pending: once with the
  usual quota, once on a browser with 100 characters of quota left.\<close>

definition state_p :: app where
  "state_p = app_step demo_quota demo_time (boot_state demo_quota demo_time []) EvPanic"

definition state_pq :: app where
  "state_pq = app_step 100 demo_time (boot_state 100 demo_time []) EvPanic"

text \<open>The map state after \<open>initMap()\<close> with a known position: the own marker is
  handle 0.\<close>

definition map_m1 :: mapst where
  "map_m1 = (case init_map (Some \<lparr>lat = Num (-261) (-1), lng = Num 28 0, acc = 15\<rparr>) map_init_state of
               Inr m \<Rightarrow> m | Inl e \<Rightarrow> map_init_state)"

definition panic_b :: item where
  "panic_b = panic_item ''b1'' ''2026-11-09T10:00:00.000Z'' (Some \<lparr>lat = Num (-261) (-1), lng = Num 28 0, acc = 15\<rparr>)"

text \<open>Each run is evaluated once; the facts the theorems below use are read off
  its final state.\<close>

lemma scenario_b_run:
  "reachable demo_quota demo_time state_b
   \<and> load_items (store state_b) = JArr [item_json panic_b]
   \<and> represents (store state_b) [panic_b]
   \<and> represents (store (app_step demo_quota demo_time state_b (EvDelete 0))) []
   \<and> map_on (mapv state_b)"
  unfolding state_b_def
  by (rule run_checked_holds[where P = "\<lambda>b. load_items (store b) = JArr [item_json panic_b]
     \<and> represents (store b) [panic_b]
     \<and> represents (store (app_step demo_quota demo_time b (EvDelete 0))) []
     \<and> map_on (mapv b)",
     OF _ reachable_boot_empty]) code_simp

lemma reachable_state_b: "reachable demo_quota demo_time state_b"
  using scenario_b_run by blast

lemma scenario_d_run:
  "reachable demo_quota demo_time state_d \<and> my_position state_d \<noteq> None
   \<and> loc_box state_d = Some (render_location_box None) \<and> uncaught state_d = [FileReadError]"
  unfolding state_d_def
  by (rule run_checked_holds[where P = "\<lambda>b. my_position b \<noteq> None
     \<and> loc_box b = Some (render_location_box None) \<and> uncaught b = [FileReadError]", OF _ reachable_boot_empty])
     code_simp

section \<open>The controller's invariants\<close>

text \<open>C1. Marker sync (spec 4.4, 8): in every state the application can reach, the
  incident markers are exactly one per stored record with a location, in store order,
  each at the record's coordinates with its popup; their number is the number of
  located records; and the layers on the map are those markers and the own marker,
  so no marker of a deleted record remains.\<close>

theorem marker_sync:
  assumes "reachable q nt a"
  shows "\<exists>its. represents (store a) its \<and> incident_pins (mapv a) = expected_pins nt its \<and>
           length (markers (mapv a)) = length (filter (\<lambda>it. location it \<noteq> None) its) \<and>
           set (layer (mapv a)) = snd ` set (markers (mapv a)) \<union> set_option (my_marker (mapv a))"
proof -
  obtain its where "ok_state nt its a" using reachable_ok[OF assms] by blast
  then show ?thesis
    by (intro exI[of _ its])
       (auto simp: ok_state_def base_ok_def map_wf_def length_expected_pins simp flip: length_incident_pins)
qed

theorem marker_sync_witness:
  "\<exists>its. represents (store state_b) its \<and> incident_pins (mapv state_b) = expected_pins demo_time its \<and>
     length (markers (mapv state_b)) = length (filter (\<lambda>it. location it \<noteq> None) its) \<and>
     set (layer (mapv state_b)) = snd ` set (markers (mapv state_b)) \<union> set_option (my_marker (mapv state_b))"
  by (rule marker_sync[OF reachable_state_b])

text \<open>C2. Refinement of the store's contract (spec 3, 4.1): every event of the
  application, in any interleaving of handlers and platform callbacks, changes the
  stored records in one of the ways the specification allows: it keeps them,
  prepends one new well-formed record with a fresh id, removes the records of one
  id, or removes them all. No event edits a stored record.\<close>

theorem store_refinement:
  assumes "reachable q nt a" "platform_ok a ev"
    and "represents (store a) its" "represents (store (app_step q nt a ev)) its'"
  shows "store_op its its'"
  using assms by (rule reachable_store_step)

theorem store_refinement_witness: "store_op [panic_b] []"
proof -
  have p: "platform_ok state_b (EvDelete 0)" by (simp add: platform_ok_def)
  show ?thesis using scenario_b_run store_refinement[OF reachable_state_b p] by blast
qed

text \<open>C3. Uniqueness (spec 3): in every reachable state the stored records have
  pairwise distinct ids, given that \<open>uuid()\<close> never returns an id already stored.\<close>

theorem ids_unique:
  assumes "reachable q nt a"
  shows "distinct (stored_ids (store a))"
proof -
  obtain its where "ok_state nt its a" using reachable_ok[OF assms] by blast
  then show ?thesis by (auto simp: ok_state_def base_ok_def stored_ids_represents)
qed

theorem ids_unique_witness: "distinct (stored_ids (store state_b))"
  by (rule ids_unique[OF reachable_state_b])

text \<open>C4. The feed is consistent with the store (spec 4.3, 5): in every reachable
  state the feed shows exactly the rows the query of the search box and the category
  select selects from the stored records, or the placeholder when it selects none.\<close>

theorem feed_matches_store:
  assumes "reachable q nt a"
  shows "\<exists>its c. represents (store a) its \<and> filter_sel a = category_str c \<and>
                 feed a = Some (feed_of nt its (search a) c)"
proof -
  obtain its where ok: "ok_state nt its a" using reachable_ok[OF assms] by blast
  then obtain c where "parse_category (filter_sel a) = Some c" by (auto simp: ok_state_def base_ok_def)
  then show ?thesis
    using ok by (auto simp: ok_state_def base_ok_def feed_synced_def dest: parse_category_Some)
qed

theorem feed_matches_store_witness:
  "\<exists>its c. represents (store state_b) its \<and> filter_sel state_b = category_str c \<and>
           feed state_b = Some (feed_of demo_time its (search state_b) c)"
  by (rule feed_matches_store[OF reachable_state_b])

text \<open>C5. Error containment (spec 7): on a store of well-formed records no
  \<open>TypeError\<close> and no Leaflet error ever escapes a handler; the only exceptions that
  do are a full \<open>localStorage\<close> (\<open>QuotaExceededError\<close>, from \<open>saveItems\<close> or the
  theme) and a failed file read in the report form.\<close>

theorem uncaught_errors:
  assumes "reachable q nt a"
  shows "\<forall>e \<in> set (uncaught a). e = QuotaExceededError \<or> e = FileReadError"
proof -
  obtain its where "ok_state nt its a" using reachable_ok[OF assms] by blast
  then show ?thesis by (auto simp: ok_state_def base_ok_def err_ok_def list_all_iff)
qed

theorem uncaught_errors_witness:
  "list_all (\<lambda>e. e = QuotaExceededError \<or> e = FileReadError) (uncaught state_b)"
  using uncaught_errors[OF reachable_state_b] by (simp add: list_all_iff)

section \<open>Item store\<close>

text \<open>C6. Round trip (spec 8): what \<open>saveItems\<close> writes, \<open>loadItems\<close> reads back as
  the same records in the same order.\<close>

theorem store_save_load_roundtrip:
  assumes "\<forall>it \<in> set its. wf_item it"
    and "save_items quota st (JArr (map item_json its)) = Inr st'"
  shows "load_items st' = JArr (map item_json its)"
  using assms by (rule load_after_save)

theorem store_save_load_roundtrip_witness:
  "load_items [(LS_KEY, items_blob [report_item ''r1'' ''T'' ''Fence Damage'' ''Gate broken'' None None])]
   = JArr (map item_json [report_item ''r1'' ''T'' ''Fence Damage'' ''Gate broken'' None None])"
proof -
  have h1: "\<forall>it \<in> set [report_item ''r1'' ''T'' ''Fence Damage'' ''Gate broken'' None None]. wf_item it"
    by (simp add: wf_item_def report_item_def)
  have h2: "save_items 1000 [] (JArr (map item_json [report_item ''r1'' ''T'' ''Fence Damage'' ''Gate broken'' None None]))
            = Inr [(LS_KEY, items_blob [report_item ''r1'' ''T'' ''Fence Damage'' ''Gate broken'' None None])]"
    by code_simp
  show ?thesis by (rule store_save_load_roundtrip[OF h1 h2])
qed

text \<open>C7. Insertion order (spec 8): after \<open>addItem(r1)\<close> and then \<open>addItem(r2)\<close>,
  \<open>loadItems()\<close> yields \<open>r2\<close>, then \<open>r1\<close>, then the earlier records.\<close>

theorem add_item_newest_first:
  assumes "represents st its" "wf_item r1" "wf_item r2"
    and "add_item_store quota st (item_json r1) = Inr st1"
    and "add_item_store quota st1 (item_json r2) = Inr st2"
  shows "load_items st2 = JArr (map item_json (r2 # r1 # its))"
proof -
  have w: "\<forall>it \<in> set its. wf_item it" using assms(1) by (simp add: represents_def)
  have "represents st1 (r1 # its)"
    using assms(1,4) w assms(2) by (intro set_item_represents) (auto simp: add_item_store_eq)
  then have "represents st2 (r2 # r1 # its)"
    using assms(5) w assms(2,3) by (intro set_item_represents) (auto simp: add_item_store_eq)
  then show ?thesis by (rule load_items_represents)
qed

theorem add_item_newest_first_witness:
  "load_items [(LS_KEY, items_blob [panic_item ''p2'' ''T2'' None, panic_item ''p1'' ''T1'' None])]
   = JArr (map item_json [panic_item ''p2'' ''T2'' None, panic_item ''p1'' ''T1'' None])"
proof -
  have h0: "represents [] []" by (simp add: represents_def get_item_def)
  have h1: "wf_item (panic_item ''p1'' ''T1'' None)" "wf_item (panic_item ''p2'' ''T2'' None)"
    by (simp_all add: wf_item_def panic_item_def)
  have h2: "add_item_store 10000 [] (item_json (panic_item ''p1'' ''T1'' None))
            = Inr [(LS_KEY, items_blob [panic_item ''p1'' ''T1'' None])]"
    by code_simp
  have h3: "add_item_store 10000 [(LS_KEY, items_blob [panic_item ''p1'' ''T1'' None])]
              (item_json (panic_item ''p2'' ''T2'' None))
            = Inr [(LS_KEY, items_blob [panic_item ''p2'' ''T2'' None, panic_item ''p1'' ''T1'' None])]"
    by code_simp
  show ?thesis using add_item_newest_first[OF h0 h1 h2 h3] by simp
qed

text \<open>C8. Deletion (spec 8): with unique ids, deleting an id leaves the other records
  in order, one fewer when the id was present and all of them when it was not.\<close>

theorem delete_item_effect:
  assumes "represents st its" "distinct (map item_id its)"
    and "delete_store quota st i = Inr st'"
  shows "represents st' (filter (\<lambda>x. item_id x \<noteq> i) its)
         \<and> length (filter (\<lambda>x. item_id x \<noteq> i) its)
             = (if i \<in> item_id ` set its then length its - 1 else length its)"
proof
  have w: "\<forall>it \<in> set its. wf_item it" using assms(1) by (simp add: represents_def)
  show "represents st' (filter (\<lambda>x. item_id x \<noteq> i) its)"
    using assms(1,3) w by (intro set_item_represents) (auto simp: delete_store_eq)
  show "length (filter (\<lambda>x. item_id x \<noteq> i) its) = (if i \<in> item_id ` set its then length its - 1 else length its)"
    using assms(2) by (rule length_filter_distinct_id)
qed

theorem delete_item_effect_witness:
  "represents [(LS_KEY, items_blob [panic_item ''p2'' ''T2'' None])] [panic_item ''p2'' ''T2'' None]
   \<and> length [panic_item ''p2'' ''T2'' None] = 2 - 1"
proof -
  have h0: "represents [(LS_KEY, items_blob [panic_item ''p2'' ''T2'' None, panic_item ''p1'' ''T1'' None])]
              [panic_item ''p2'' ''T2'' None, panic_item ''p1'' ''T1'' None]"
    by (simp add: represents_def get_item_def wf_item_def panic_item_def)
  have h1: "distinct (map item_id [panic_item ''p2'' ''T2'' None, panic_item ''p1'' ''T1'' None])"
    by (simp add: panic_item_def)
  have h2: "delete_store 10000 [(LS_KEY, items_blob [panic_item ''p2'' ''T2'' None, panic_item ''p1'' ''T1'' None])] ''p1''
            = Inr [(LS_KEY, items_blob [panic_item ''p2'' ''T2'' None])]"
    by code_simp
  show ?thesis using delete_item_effect[OF h0 h1 h2] by (simp add: panic_item_def)
qed

text \<open>C9. Clear (spec 8): after \<open>clearAll()\<close>, \<open>loadItems()\<close> yields the empty array,
  whatever the store held.\<close>

theorem clear_then_load_empty: "load_items (clear_store st) = JArr []"
  by (rule load_items_clear)

text \<open>C10. Fail-soft load (spec 4.1, 7): a stored blob that is not JSON loads as the
  empty array.\<close>

theorem load_corrupt_is_empty:
  assumes "get_item st LS_KEY = Some raw" and "json_parse raw = None"
  shows "load_items st = JArr []"
  using assms by (rule load_items_corrupt)

theorem load_corrupt_is_empty_witness:
  "load_items [(LS_KEY, ''{oops'')] = JArr []"
proof -
  have h1: "get_item [(LS_KEY, ''{oops'')] LS_KEY = Some ''{oops''" by (simp add: get_item_def)
  have h2: "json_parse ''{oops'' = None" by code_simp
  show ?thesis by (rule load_corrupt_is_empty[OF h1 h2])
qed

text \<open>C11. \<open>save(load())\<close> is a no-op (spec 8): writing back what was loaded leaves the
  storage exactly as it was.\<close>

theorem save_load_noop:
  assumes "represents st its" "get_item st LS_KEY \<noteq> None" "storage_size st \<le> quota"
  shows "save_items quota st (load_items st) = Inr st"
  using assms by (rule save_load_same)

theorem save_load_noop_witness:
  "save_items 1000 [(LS_KEY, items_blob [panic_item ''p1'' ''T1'' None])]
     (load_items [(LS_KEY, items_blob [panic_item ''p1'' ''T1'' None])])
   = Inr [(LS_KEY, items_blob [panic_item ''p1'' ''T1'' None])]"
proof -
  have h0: "represents [(LS_KEY, items_blob [panic_item ''p1'' ''T1'' None])] [panic_item ''p1'' ''T1'' None]"
    by (simp add: represents_def get_item_def wf_item_def panic_item_def)
  have h1: "get_item [(LS_KEY, items_blob [panic_item ''p1'' ''T1'' None])] LS_KEY \<noteq> None"
    by (simp add: get_item_def)
  have h2: "storage_size [(LS_KEY, items_blob [panic_item ''p1'' ''T1'' None])] \<le> 1000"
    by code_simp
  show ?thesis by (rule save_load_noop[OF h0 h1 h2])
qed

section \<open>Feed and query\<close>

text \<open>C12. The feed refines the query (spec 4.2, 4.3): on a store of well-formed
  records, \<open>renderFeed\<close> shows the placeholder when the typed query selects no record,
  and otherwise one row per selected record, in store order.\<close>

theorem feed_rows_refine_query:
  assumes "represents st its"
  shows "render_feed nt st q (category_str c) =
           Inr (if query its (trim q) c = [] then FeedEmpty
                else FeedRows (map (row_of nt) (query its (trim q) c)))"
  using render_feed_feed_of[OF assms] by (simp add: feed_of_def Let_def)

theorem feed_rows_refine_query_witness:
  "render_feed demo_time [(LS_KEY, items_blob [report_item ''r1'' ''T'' ''Fence Damage'' ''Gate broken'' None None])]
     ''gate'' (category_str (Only REPORT))
   = Inr (if query [report_item ''r1'' ''T'' ''Fence Damage'' ''Gate broken'' None None] (trim ''gate'') (Only REPORT) = []
          then FeedEmpty
          else FeedRows (map (row_of demo_time)
                 (query [report_item ''r1'' ''T'' ''Fence Damage'' ''Gate broken'' None None] (trim ''gate'') (Only REPORT))))"
proof -
  have "represents [(LS_KEY, items_blob [report_item ''r1'' ''T'' ''Fence Damage'' ''Gate broken'' None None])]
          [report_item ''r1'' ''T'' ''Fence Damage'' ''Gate broken'' None None]"
    by (simp add: represents_def get_item_def wf_item_def report_item_def)
  then show ?thesis by (rule feed_rows_refine_query)
qed

text \<open>C13. A blank query matches everything (spec 4.2, 8): with a search text that is
  empty or only whitespace and the category \<open>ALL\<close>, the feed shows every stored
  record, in store order.\<close>

theorem blank_query_shows_all:
  assumes "represents st its" "its \<noteq> []" "trim q = []"
  shows "render_feed nt st q ''ALL'' = Inr (FeedRows (map (row_of nt) its))"
proof -
  have "query its [] AllKinds = its" by (simp add: query_def item_matches_def)
  then show ?thesis
    using render_feed_feed_of[OF assms(1), of nt q AllKinds] assms(2,3)
    by (simp add: feed_of_def category_str_def)
qed

theorem blank_query_shows_all_witness:
  "render_feed demo_time [(LS_KEY, items_blob [panic_item ''p1'' ''T1'' None])] ''  '' ''ALL''
   = Inr (FeedRows (map (row_of demo_time) [panic_item ''p1'' ''T1'' None]))"
proof -
  have h: "represents [(LS_KEY, items_blob [panic_item ''p1'' ''T1'' None])] [panic_item ''p1'' ''T1'' None]"
    by (simp add: represents_def get_item_def wf_item_def panic_item_def)
  have t: "trim ''  '' = []" by code_simp
  show ?thesis by (rule blank_query_shows_all[OF h _ t]) simp
qed

text \<open>C14. Search is case-insensitive containment in one of the three fields (spec
  4.2, 8): for a search text without spaces or surrounding whitespace and the
  category \<open>ALL\<close>, \<open>renderFeed\<close> shows exactly the stored records whose kind, type
  or description contains the text, ignoring case, in store order, or the
  placeholder when there is none. The code searches the three fields joined by
  spaces; a text without spaces cannot match across two of them.\<close>

theorem search_any_field:
  assumes "represents st its" "q \<noteq> []" "trim q = q" "CHR '' '' \<notin> set q"
  shows "render_feed nt st q ''ALL'' =
           Inr (let rs = filter (\<lambda>it. sublist (to_lower q) (to_lower (kind_str (kind it)))
                                    \<or> sublist (to_lower q) (to_lower (item_type it))
                                    \<or> sublist (to_lower q) (to_lower (description it))) its
                in if rs = [] then FeedEmpty else FeedRows (map (row_of nt) rs))"
proof -
  have ne: "to_lower q \<noteq> []" using assms(2) by (simp add: to_lower_def)
  have sp: "CHR '' '' \<notin> set (to_lower q)" using assms(4) by (rule to_lower_space)
  have lsp: "to_lower_char CHR '' '' = CHR '' ''" by (simp add: to_lower_char_space)
  have "query its q AllKinds = filter (\<lambda>it. sublist (to_lower q) (to_lower (kind_str (kind it)))
                                    \<or> sublist (to_lower q) (to_lower (item_type it))
                                    \<or> sublist (to_lower q) (to_lower (description it))) its"
    unfolding query_def item_matches_def hay_def
    using assms(2) ne sp by (simp add: lsp sublist_sep_append)
  then show ?thesis
    using render_feed_represents[OF assms(1), of nt q AllKinds] assms(3)
    by (simp add: category_str_def Let_def)
qed

theorem search_any_field_witness:
  "render_feed demo_time [(LS_KEY, items_blob [panic_b])] ''panic'' ''ALL'' =
     Inr (let rs = filter (\<lambda>it. sublist (to_lower ''panic'') (to_lower (kind_str (kind it)))
                              \<or> sublist (to_lower ''panic'') (to_lower (item_type it))
                              \<or> sublist (to_lower ''panic'') (to_lower (description it))) [panic_b]
          in if rs = [] then FeedEmpty else FeedRows (map (row_of demo_time) rs))"
proof -
  have h: "represents [(LS_KEY, items_blob [panic_b])] [panic_b]"
    by (simp add: represents_def get_item_def wf_item_def panic_b_def panic_item_def)
  have t: "trim ''panic'' = ''panic''" by code_simp
  show ?thesis by (rule search_any_field[OF h _ t]) simp_all
qed

section \<open>Row actions and escaping\<close>

text \<open>C15. One-pass escaping (spec 4.3): the five chained \<open>replaceAll\<close> calls of
  \<open>escapeHtml\<close> equal replacing each character by its reference in one pass; in
  particular no reference the first pass writes is escaped again.\<close>

theorem escape_html_one_pass: "escape_html s = concat (map esc_char s)"
  by (rule escape_html_eq)

text \<open>C16. Escaped slots carry no markup (spec 4.3): the title, time, details,
  location text and the two button attributes of a row contain none of the characters
  \<open>< > " '\<close>, whatever the record holds.\<close>

theorem row_slots_escaped:
  "(set (row_title (row_of nt it)) \<union> set (row_meta (row_of nt it)) \<union> set (row_details (row_of nt it))
    \<union> set (row_location (row_of nt it)) \<union> set (row_copy (row_of nt it)) \<union> set (row_delete (row_of nt it)))
   \<inter> {CHR ''<'', CHR ''>'', dq, squote} = {}"
  using escape_html_safe by (fastforce simp: row_of_def)

text \<open>C17. The delete button targets the record of its row (spec 4.3) exactly when
  the record's id contains no carriage return and no NUL: the id the browser hands to
  the delete handler is the attribute \<open>escapeHtml\<close> wrote, after the HTML parser
  has normalised newlines and NUL and decoded the references. An id with a CR or a
  NUL reads back changed, and the delete then removes nothing.\<close>

theorem delete_button_targets_row:
  "delete_target (row_of nt it) = item_id it
   \<longleftrightarrow> CHR 0x0D \<notin> set (item_id it) \<and> CHR 0x00 \<notin> set (item_id it)"
  by (simp add: delete_target_row_of attr_norm_id_iff)

section \<open>Error paths\<close>

text \<open>C18. A stored \<open>null\<close> entry breaks the feed: whatever the search text and
  category, \<open>renderFeed\<close> throws a \<open>TypeError\<close> (reading \<open>kind\<close>, \<open>type\<close> or
  \<open>description\<close> of \<open>null\<close>), and the re-render after it does not run.\<close>

theorem null_entry_breaks_feed:
  assumes "load_items st = JArr vs" "JNull \<in> set vs"
  shows "\<exists>e. render_feed nt st q f = Inl e"
  using assms by (rule render_feed_null_entry)

theorem null_entry_breaks_feed_witness:
  "\<exists>e. render_feed demo_time [(LS_KEY, ''[null]'')] '''' ''ALL'' = Inl e"
proof -
  have h: "load_items [(LS_KEY, ''[null]'')] = JArr [JNull]" by code_simp
  show ?thesis by (rule null_entry_breaks_feed[OF h]) simp
qed

text \<open>C19. A stored value that is not an array makes \<open>addItem\<close> throw: \<open>loadItems\<close>
  returns whatever parses, and \<open>unshift\<close> is not a method of it, so no record can be
  added until the store is cleared.\<close>

theorem non_array_store_blocks_add:
  assumes "load_items st = v" "\<forall>vs. v \<noteq> JArr vs"
  shows "\<exists>msg. add_item_store q st x = Inl (TypeError msg)"
  using assms by (rule add_item_store_not_array)

theorem non_array_store_blocks_add_witness:
  "\<exists>msg. add_item_store demo_quota [(LS_KEY, ''{}'')] (item_json (panic_item ''p1'' ''T1'' None)) = Inl (TypeError msg)"
proof -
  have h: "load_items [(LS_KEY, ''{}'')] = JObj []" by code_simp
  show ?thesis by (rule non_array_store_blocks_add[OF h]) simp
qed

text \<open>C20. A full \<open>localStorage\<close> rejects the new record: when the new blob would
  exceed the quota, \<open>addItem\<close> throws \<open>QuotaExceededError\<close> and the storage keeps
  what it held.\<close>

theorem quota_rejects_add:
  assumes "represents st its" "q < storage_size (AList.update LS_KEY (items_blob (it # its)) st)"
  shows "add_item_store q st (item_json it) = Inl QuotaExceededError"
  using assms by (simp add: add_item_store_eq set_item_def)

theorem quota_rejects_add_witness:
  "add_item_store 50 [] (item_json (panic_item ''p1'' ''T1'' None)) = Inl QuotaExceededError"
proof -
  have h1: "represents [] []" by (simp add: represents_def get_item_def)
  have h2: "(50::nat) < storage_size (AList.update LS_KEY (items_blob [panic_item ''p1'' ''T1'' None]) [])"
    by code_simp
  show ?thesis by (rule quota_rejects_add[OF h1 h2])
qed

section \<open>The handlers on every reachable state\<close>

text \<open>C21. A panic with a position (spec 4.5, 8, scenario B in general): in any
  reachable state with the panic's position fetch pending, a position with canonical
  coordinates, a fresh id and room in the quota store the PANIC record with that
  location in front of the others, put its pin first on the map at those coordinates,
  show the position in the location panel, and start sharing the alert text.\<close>

theorem panic_with_position:
  assumes "reachable q nt a" "n < length (pending a)" "pending a ! n = TPanic"
    and "represents (store a) its" "canonical la" "canonical ln" "uid \<notin> set (stored_ids (store a))"
    and "storage_size (AList.update LS_KEY
           (items_blob (panic_item uid now (Some \<lparr>lat = la, lng = ln, acc = math_round ac\<rparr>) # its)) (store a)) \<le> q"
  shows "let c = \<lparr>lat = la, lng = ln, acc = math_round ac\<rparr>;
             b = app_step q nt a (EvGeo n (GeoPosition la ln ac) uid now) in
           represents (store b) (panic_item uid now (Some c) # its) \<and> my_position b = Some c
           \<and> loc_box b = Some (render_location_box (Some c))
           \<and> incident_pins (mapv b) = incident_pin nt (panic_item uid now (Some c)) c # expected_pins nt its
           \<and> pending b = remove_nth n (pending a) @ [TPanicShare (panic_share_text (Some c))]
           \<and> uncaught b = uncaught a"
proof -
  define c where "c = \<lparr>lat = la, lng = ln, acc = math_round ac\<rparr>"
  define it where "it = panic_item uid now (Some c)"
  define st' where "st' = AList.update LS_KEY (items_blob (it # its)) (store a)"
  define a1 where "a1 = a\<lparr>pending := remove_nth n (pending a), my_position := Some c\<rparr>"
  have ok: "ok_state nt its a" using assms(1,4) by (rule reachable_ok_state)
  have ok1: "ok_state nt its a1"
    using ok_state_position[OF ok_state_remove_task[OF ok, of n], of "Some c"] assms(5,6)
    by (simp add: a1_def c_def loc_ok_def)
  have fresh: "item_id it \<notin> set (map item_id its)"
    using fresh_id[OF ok assms(7)] by (simp add: it_def panic_item_def)
  have wf: "wf_item it" using assms(5,6) by (simp add: it_def c_def panic_item_def wf_item_def)
  have si: "set_item q (store a1) LS_KEY (items_blob (it # its)) = Inr st'"
    using assms(8) by (simp add: set_item_def st'_def a1_def it_def c_def)
  have rep: "represents st' (it # its)"
    using si wf assms(4) by (intro set_item_represents) (auto simp: represents_def)
  have d: "distinct (map item_id (it # its))"
    using fresh ok by (simp add: ok_state_def base_ok_def)
  have "base_ok (it # its) (a1\<lparr>store := st'\<rparr>)"
    using base_ok_store[OF ok_state_base[OF ok1] rep d] .
  then obtain m cat where r:
      "render_all q nt (a1\<lparr>store := st'\<rparr>) =
         (None, a1\<lparr>store := st', loc_box := Some (render_location_box (my_position a1)),
                   feed := Some (feed_of nt (it # its) (search a1) cat), mapv := m\<rparr>)"
      and pins: "incident_pins m = expected_pins nt (it # its)"
    by (rule render_all_ok) simp
  have add: "add_item q nt (item_json it) a1 = render_all q nt (a1\<lparr>store := st'\<rparr>)"
    using si assms(4) by (simp add: add_item_def add_item_store_eq a1_def)
  have step: "app_step q nt a (EvGeo n (GeoPosition la ln ac) uid now)
      = (a1\<lparr>store := st', loc_box := Some (render_location_box (my_position a1)),
             feed := Some (feed_of nt (it # its) (search a1) cat), mapv := m\<rparr>)
          \<lparr>pending := pending a1 @ [TPanicShare (panic_share_text (Some c))]\<rparr>"
    using assms(2,3) add r
    by (simp add: resume_geo_def panic_resume_def Let_def ensure_geolocation_def run_def st_bind_def
                  a1_def c_def it_def)
  show ?thesis
    using step rep pins
    by (simp add: Let_def c_def[symmetric] it_def[symmetric] a1_def expected_pins_Cons it_def panic_item_def)
qed

theorem panic_with_position_witness:
  "let c = \<lparr>lat = Num (-261) (-1), lng = Num 28 0, acc = math_round (Num 15 0)\<rparr>;
             b = app_step demo_quota demo_time state_p (EvGeo 0 (GeoPosition (Num (-261) (-1)) (Num 28 0) (Num 15 0)) ''p1'' ''t1'') in
           represents (store b) (panic_item ''p1'' ''t1'' (Some c) # []) \<and> my_position b = Some c
           \<and> loc_box b = Some (render_location_box (Some c))
           \<and> incident_pins (mapv b) = incident_pin demo_time (panic_item ''p1'' ''t1'' (Some c)) c # expected_pins demo_time []
           \<and> pending b = remove_nth 0 (pending state_p) @ [TPanicShare (panic_share_text (Some c))]
           \<and> uncaught b = uncaught state_p"
proof -
  have r: "reachable demo_quota demo_time state_p"
    unfolding state_p_def by (rule reachable.step[OF reachable_boot_empty]) (simp add: platform_ok_def)
  have h: "0 < length (pending state_p) \<and> pending state_p ! 0 = TPanic \<and> represents (store state_p) []
     \<and> ''p1'' \<notin> set (stored_ids (store state_p))
     \<and> storage_size (AList.update LS_KEY (items_blob [panic_item ''p1'' ''t1''
          (Some \<lparr>lat = Num (-261) (-1), lng = Num 28 0, acc = math_round (Num 15 0)\<rparr>)]) (store state_p)) \<le> demo_quota"
    unfolding state_p_def by code_simp
  have c: "canonical (Num (-261) (-1))" "canonical (Num 28 0)" by code_simp+
  show ?thesis using h by (intro panic_with_position[OF r _ _ _ c]) simp_all
qed

text \<open>C22. A confirmed clear (spec 4.1, 8, scenario C in general): in any reachable
  state, clearing with the confirmation accepted leaves \<open>loadItems()\<close> empty, the
  feed showing the placeholder, no incident pin on the map, and the status line
  reporting the clear.\<close>

theorem clear_confirmed:
  assumes "reachable q nt a"
  shows "let b = app_step q nt a (EvClear True) in
           load_items (store b) = JArr [] \<and> feed b = Some FeedEmpty \<and> incident_pins (mapv b) = []
           \<and> status b = (''Cleared '' @ check_mark, ''Local database cleared.'')"
proof -
  obtain its where ok: "ok_state nt its a" using reachable_ok[OF assms] by blast
  have "base_ok [] (a\<lparr>store := clear_store (store a)\<rparr>)"
    using ok by (intro base_ok_store[OF ok_state_base]) (simp_all add: represents_clear)
  then obtain m c where r:
      "render_all q nt (a\<lparr>store := clear_store (store a)\<rparr>) =
         (None, a\<lparr>store := clear_store (store a), loc_box := Some (render_location_box (my_position a)),
                  feed := Some (feed_of nt [] (search a) c), mapv := m\<rparr>)"
      and "incident_pins m = expected_pins nt []"
    by (rule render_all_ok) simp
  moreover have "load_items (clear_store (store a)) = JArr []"
    using load_items_represents[OF represents_clear] by simp
  ultimately show ?thesis
    by (simp add: clear_click_def clear_all_def run_def st_bind_def set_status_def feed_of_def query_def
                  expected_pins_def List.map_filter_simps)
qed

theorem clear_confirmed_witness:
  "let b = app_step demo_quota demo_time state_b (EvClear True) in
     load_items (store b) = JArr [] \<and> feed b = Some FeedEmpty \<and> incident_pins (mapv b) = []
     \<and> status b = (''Cleared '' @ check_mark, ''Local database cleared.'')"
  by (rule clear_confirmed[OF reachable_state_b])

section \<open>What the scenarios reveal\<close>

text \<open>C23. The location panel can be stale (spec 4.5 says it displays
  \<open>myPosition\<close>): the report form sets \<open>myPosition\<close> after its position fetch but
  re-renders only in \<open>addItem\<close>; when the file read then fails, a reachable state
  has a known position while the panel still shows the dashes.\<close>

theorem stale_location_panel:
  "reachable demo_quota demo_time state_d \<and> my_position state_d \<noteq> None
   \<and> loc_box state_d = Some (render_location_box None) \<and> uncaught state_d = [FileReadError]"
  by (rule scenario_d_run)

text \<open>C24. A panic alert is lost when the quota is exceeded (spec 7 keeps every error
  local to its action): in any state with the panic's position fetch pending, if the
  new array does not fit the quota, the exception escapes the panic handler before
  its share step: the store is unchanged, the error is uncaught, no share is started,
  nothing is handed out, and after a failed fetch the status line still shows the
  fetch's message.\<close>

theorem panic_lost_on_quota:
  assumes "n < length (pending a)" "pending a ! n = TPanic" "represents (store a) its"
    and "q < storage_size (AList.update LS_KEY (items_blob (panic_item uid now (ensure_geolocation g) # its)) (store a))"
  shows "let b = app_step q nt a (EvGeo n g uid now) in
           store b = store a \<and> uncaught b = uncaught a @ [QuotaExceededError]
           \<and> pending b = remove_nth n (pending a) \<and> outbox b = outbox a
           \<and> status b = (if ensure_geolocation g = None
                         then (''Panic pressed '' @ siren, ''Location permission not granted. Alert will be saved without GPS.'')
                         else status a)"
proof -
  have "set_item q (store a) LS_KEY (items_blob (panic_item uid now (ensure_geolocation g) # its)) = Inl QuotaExceededError"
    using assms(4) by (simp add: set_item_def)
  then show ?thesis
    using assms(1-3)
    by (auto simp: resume_geo_def panic_resume_def Let_def add_item_def add_item_store_eq run_def st_bind_def
                   set_status_def split: option.split)
qed

theorem panic_lost_on_quota_witness:
  "let b = app_step 100 demo_time state_pq (EvGeo 0 GeoFailed ''q1'' ''t1'') in
     store b = store state_pq \<and> uncaught b = uncaught state_pq @ [QuotaExceededError]
     \<and> pending b = remove_nth 0 (pending state_pq) \<and> outbox b = outbox state_pq
     \<and> status b = (if ensure_geolocation GeoFailed = None
                   then (''Panic pressed '' @ siren, ''Location permission not granted. Alert will be saved without GPS.'')
                   else status state_pq)"
proof -
  have h: "0 < length (pending state_pq) \<and> pending state_pq ! 0 = TPanic \<and> represents (store state_pq) []
     \<and> 100 < storage_size (AList.update LS_KEY (items_blob [panic_item ''q1'' ''t1'' (ensure_geolocation GeoFailed)])
                               (store state_pq))"
    unfolding state_pq_def by code_simp
  show ?thesis using h by (intro panic_lost_on_quota[of 0 state_pq "[]"]) simp_all
qed

section \<open>Component properties\<close>

text \<open>C25. Rebuilding the markers (spec 4.4): on a store of well-formed records with
  distinct ids and a well-formed map, \<open>rebuildMarkers\<close> returns without an exception,
  removes every earlier incident marker, places exactly the expected marker for each
  located record in store order, and leaves the own marker as it was.\<close>

theorem rebuild_markers_exact:
  assumes "represents st its" "distinct (map item_id its)" "map_wf ms" "map_on ms"
  shows "fst (rebuild_markers nt st ms) = None
         \<and> incident_pins (snd (rebuild_markers nt st ms)) = expected_pins nt its
         \<and> map_wf (snd (rebuild_markers nt st ms))
         \<and> my_marker (snd (rebuild_markers nt st ms)) = my_marker ms"
proof -
  have my: "my_marker (fold place_pin ps m) = my_marker m" for ps m by (simp add: fold_place_pin)
  show ?thesis
    by (simp only: rebuild_markers_represents[OF assms] fst_conv snd_conv)
       (simp add: incident_pins_fold_place_pin map_wf_rebuild[OF assms(3,4)] my)
qed

theorem rebuild_markers_exact_witness:
  "fst (rebuild_markers demo_time [(LS_KEY, items_blob [panic_b])] map_m1) = None
   \<and> incident_pins (snd (rebuild_markers demo_time [(LS_KEY, items_blob [panic_b])] map_m1))
       = expected_pins demo_time [panic_b]
   \<and> map_wf (snd (rebuild_markers demo_time [(LS_KEY, items_blob [panic_b])] map_m1))
   \<and> my_marker (snd (rebuild_markers demo_time [(LS_KEY, items_blob [panic_b])] map_m1)) = my_marker map_m1"
proof -
  have h1: "represents [(LS_KEY, items_blob [panic_b])] [panic_b]"
    by (simp add: represents_def get_item_def wf_item_def panic_b_def panic_item_def)
  have h2: "distinct (map item_id [panic_b])" by simp
  have h3: "map_wf map_m1" "map_on map_m1" by code_simp+
  show ?thesis by (rule rebuild_markers_exact[OF h1 h2 h3])
qed

text \<open>C26. The own marker is moved in place (spec 4.4): once it exists, a new
  position updates the coordinates of the same marker object; no marker is created or
  removed and the incident markers are untouched.\<close>

theorem own_marker_in_place:
  assumes "map_wf m" "map_on m" "my_marker m = Some r"
  shows "\<exists>m'. update_my_marker (Some c) m = Inr m' \<and> my_marker m' = Some r
              \<and> length (heap m') = length (heap m) \<and> layer m' = layer m
              \<and> m_lat (heap m' ! r) = lat c \<and> m_lng (heap m' ! r) = lng c
              \<and> incident_pins m' = incident_pins m"
proof -
  have "r \<in> set (layer m)" "r \<notin> snd ` set (markers m)" using assms by (auto simp: map_wf_def)
  moreover have "r < length (heap m)" using assms(1) calculation(1) by (simp add: map_wf_def)
  ultimately show ?thesis
    using assms by (simp add: update_my_marker_def set_lat_lng_def to_latlng_def incident_pins_heap_update)
qed

theorem own_marker_in_place_witness:
  "\<exists>m'. update_my_marker (Some \<lparr>lat = Num 1 0, lng = Num 2 0, acc = 5\<rparr>) map_m1 = Inr m' \<and> my_marker m' = Some 0
        \<and> length (heap m') = length (heap map_m1) \<and> layer m' = layer map_m1
        \<and> m_lat (heap m' ! 0) = lat \<lparr>lat = Num 1 0, lng = Num 2 0, acc = 5\<rparr>
        \<and> m_lng (heap m' ! 0) = lng \<lparr>lat = Num 1 0, lng = Num 2 0, acc = 5\<rparr>
        \<and> incident_pins m' = incident_pins map_m1"
proof -
  have h: "map_wf map_m1" "map_on map_m1" "my_marker map_m1 = Some 0" by code_simp+
  show ?thesis by (rule own_marker_in_place[OF h])
qed

lemma fixed_digits_shape:
  assumes "0 < f"
  shows "\<exists>ip fp. fixed_digits f n = ip @ ''.'' @ fp \<and> ip \<noteq> [] \<and> length fp = f
                 \<and> list_all is_digit ip \<and> list_all is_digit fp"
proof -
  define m where "m = (if n = 0 then ''0'' else nat_str n)"
  define m' where "m' = (if length m \<le> f then replicate (f + 1 - length m) CHR ''0'' @ m else m)"
  have md: "list_all is_digit m" by (auto simp: m_def list_all_iff is_digit_def dest: nat_str_digits)
  have m'd: "list_all is_digit m'" using md by (auto simp: m'_def list_all_iff is_digit_def)
  have len: "f + 1 \<le> length m'" by (auto simp: m'_def)
  have eq: "fixed_digits f n = take (length m' - f) m' @ ''.'' @ drop (length m' - f) m'"
    using assms by (simp add: fixed_digits_def m_def m'_def Let_def)
  show ?thesis
    using eq len m'd
    by (intro exI[of _ "take (length m' - f) m'"] exI[of _ "drop (length m' - f) m'"])
       (auto simp: list_all_iff dest: in_set_takeD in_set_dropD)
qed

theorem to_fixed_shape:
  assumes "0 < f" "\<not> num_ge_1e21 (nat \<bar>m\<bar>) e"
  shows "\<exists>sg ip fp. to_fixed f (Num m e) = sg @ ip @ ''.'' @ fp \<and> (sg = [] \<or> sg = ''-'')
                    \<and> ip \<noteq> [] \<and> length fp = f \<and> list_all is_digit ip \<and> list_all is_digit fp"
proof -
  obtain ip fp where "fixed_digits f (round_scaled (nat \<bar>m\<bar>) e f) = ip @ ''.'' @ fp" "ip \<noteq> []" "length fp = f"
      "list_all is_digit ip" "list_all is_digit fp"
    using fixed_digits_shape[OF assms(1)] by blast
  then show ?thesis using assms(2)
    by (intro exI[of _ "if m < 0 then ''-'' else []"] exI[of _ ip] exI[of _ fp]) simp
qed

text \<open>C27. The coordinates in the location panel have the shape spec 4.5 asks
  for: below \<open>10\<^sup>2\<^sup>1\<close>, the latitude and longitude fields are an optional minus
  sign, a non-empty run of digits, a point and exactly six digits.\<close>

theorem location_box_coords_shape:
  assumes "lat c = Num m e" "\<not> num_ge_1e21 (nat \<bar>m\<bar>) e"
    and "lng c = Num m' e'" "\<not> num_ge_1e21 (nat \<bar>m'\<bar>) e'"
  shows "(\<exists>sg ip fp. box_lat (render_location_box (Some c)) = sg @ ip @ ''.'' @ fp \<and> (sg = [] \<or> sg = ''-'')
                    \<and> ip \<noteq> [] \<and> length fp = 6 \<and> list_all is_digit ip \<and> list_all is_digit fp)
       \<and> (\<exists>sg ip fp. box_lng (render_location_box (Some c)) = sg @ ip @ ''.'' @ fp \<and> (sg = [] \<or> sg = ''-'')
                    \<and> ip \<noteq> [] \<and> length fp = 6 \<and> list_all is_digit ip \<and> list_all is_digit fp)"
  using to_fixed_shape[of 6 m e, OF _ assms(2)] to_fixed_shape[of 6 m' e', OF _ assms(4)] assms(1,3)
  by (simp add: render_location_box_def)

theorem location_box_coords_shape_witness:
  "(\<exists>sg ip fp. box_lat (render_location_box (Some \<lparr>lat = Num (-261) (-1), lng = Num 28 0, acc = 15\<rparr>))
                = sg @ ip @ ''.'' @ fp \<and> (sg = [] \<or> sg = ''-'')
                \<and> ip \<noteq> [] \<and> length fp = 6 \<and> list_all is_digit ip \<and> list_all is_digit fp)
   \<and> (\<exists>sg ip fp. box_lng (render_location_box (Some \<lparr>lat = Num (-261) (-1), lng = Num 28 0, acc = 15\<rparr>))
                = sg @ ip @ ''.'' @ fp \<and> (sg = [] \<or> sg = ''-'')
                \<and> ip \<noteq> [] \<and> length fp = 6 \<and> list_all is_digit ip \<and> list_all is_digit fp)"
proof -
  have "\<not> num_ge_1e21 (nat \<bar>-261\<bar>) (-1)" "\<not> num_ge_1e21 (nat \<bar>28\<bar>) 0" by code_simp+
  then show ?thesis
    using location_box_coords_shape[of "\<lparr>lat = Num (-261) (-1), lng = Num 28 0, acc = 15\<rparr>" "-261" "-1" 28 0]
    by simp
qed

text \<open>C28. A report is stored once its file has been read (spec 7): in a reachable
  state with the report's file read pending, a successful read with a fresh id stores
  the report in front of the earlier records, when the quota allows the new blob,
  whatever happened in between.\<close>

theorem report_stored_after_read:
  assumes "reachable q nt a" "n < length (pending a)" "pending a ! n = TSubmitFile loc fl"
    and "uid \<notin> set (stored_ids (store a))" "represents (store a) its"
    and "storage_size (AList.update LS_KEY
           (items_blob (report_item uid now (form_type a) (form_desc a) loc fl # its)) (store a)) \<le> q"
  shows "represents (store (app_step q nt a (EvFile n True uid now)))
           (report_item uid now (form_type a) (form_desc a) loc fl # its)"
proof -
  let ?it = "report_item uid now (form_type a) (form_desc a) loc fl"
  let ?a = "a\<lparr>pending := remove_nth n (pending a)\<rparr>"
  let ?st = "AList.update LS_KEY (items_blob (?it # its)) (store a)"
  have ok': "ok_state nt its a" using assms(1,5) by (rule reachable_ok_state)
  have "loc_ok loc" using task_ok_nth[OF ok' assms(2)] assms(3) by (simp add: task_ok_def)
  then have wf: "\<forall>x \<in> set (?it # its). wf_item x"
    using assms(5) by (auto simp: represents_def wf_item_loc_ok report_item_def)
  have si: "set_item q (store ?a) LS_KEY (items_blob (?it # its)) = Inr ?st"
    using assms(6) by (simp add: set_item_def)
  obtain e x where ax: "add_item q nt (item_json ?it) ?a = (e, x)" by fastforce
  have "store x = ?st" using add_item_stores[of ?a its q ?it ?st nt] assms(5) si ax by simp
  moreover have "represents ?st (?it # its)" using wf si by (rule set_item_represents)
  ultimately show ?thesis
    using assms(2,3) ax
    by (cases e) (simp_all add: resume_file_def submit_file_resume_def run_def set_status_def)
qed

theorem report_stored_after_read_witness:
  "represents (store (app_step demo_quota demo_time state_w (EvFile 0 True ''w1'' ''t1'')))
     [report_item ''w1'' ''t1'' ''Fence Damage'' ''Gate broken'' None None]"
proof -
  have f: "reachable demo_quota demo_time state_w
     \<and> 0 < length (pending state_w) \<and> pending state_w ! 0 = TSubmitFile None None
     \<and> ''w1'' \<notin> set (stored_ids (store state_w)) \<and> represents (store state_w) []
     \<and> storage_size (AList.update LS_KEY (items_blob
          [report_item ''w1'' ''t1'' (form_type state_w) (form_desc state_w) None None]) (store state_w)) \<le> demo_quota
     \<and> form_type state_w = ''Fence Damage'' \<and> form_desc state_w = ''Gate broken''"
    unfolding state_w_def
    by (rule run_checked_holds[where P = "\<lambda>b. 0 < length (pending b) \<and> pending b ! 0 = TSubmitFile None None
       \<and> ''w1'' \<notin> set (stored_ids (store b)) \<and> represents (store b) []
       \<and> storage_size (AList.update LS_KEY (items_blob
            [report_item ''w1'' ''t1'' (form_type b) (form_desc b) None None]) (store b)) \<le> demo_quota
       \<and> form_type b = ''Fence Damage'' \<and> form_desc b = ''Gate broken''", OF _ reachable_boot_empty]) code_simp
  have "represents (store (app_step demo_quota demo_time state_w (EvFile 0 True ''w1'' ''t1'')))
     [report_item ''w1'' ''t1'' (form_type state_w) (form_desc state_w) None None]"
    using report_stored_after_read[of demo_quota demo_time state_w 0 None None "''w1''" "[]" "''t1''"] f
    by blast
  then show ?thesis using f by simp
qed

text \<open>C29. Declining the confirmation changes nothing (spec 7): clear all with
  \<open>confirm\<close> answered no leaves the whole application state as it was.\<close>

theorem clear_declined_noop: "app_step q nt a (EvClear False) = a"
  by (simp add: clear_click_def run_def)


section \<open>Types and the platform's awaits\<close>

text \<open>C30. Progress on well-typed stores: whatever the search text, the category
  and the own position, \<open>renderAll()\<close> on an initialised map does not throw when
  every stored entry has the record type, even if the entries were not written by
  this script (other field order, extra fields, non-canonical numbers).\<close>

theorem typed_store_renders:
  assumes "load_items (store a) = JArr vs" "list_all (has_ty item_ty) vs" "map_on (mapv a)"
  shows "fst (render_all q nt a) = None"
proof -
  let ?a1 = "a\<lparr>loc_box := Some (render_location_box (my_position a))\<rparr>"
  obtain fv where fv: "render_feed nt (store a) (search a) (filter_sel a) = Inr fv"
    using typed_render_feed[OF assms(1,2)] by blast
  have "fst (rebuild_markers nt (store a) (mapv a)) = None" by (rule typed_rebuild_markers[OF assms])
  then obtain m where m: "rebuild_markers nt (store a) (mapv a) = (None, m)"
    by (cases "rebuild_markers nt (store a) (mapv a)") simp
  obtain m' where "update_my_marker (my_position a) m = Inr m'" using update_my_marker_total by blast
  then show ?thesis using fv m assms(3) by (simp add: render_all_def st_atomic_def js_bind_def)
qed

theorem typed_store_renders_witness: "fst (render_all demo_quota demo_time state_b) = None"
proof -
  have h: "load_items (store state_b) = JArr [item_json panic_b]" "map_on (mapv state_b)"
    using scenario_b_run by blast+
  show ?thesis
    by (rule typed_store_renders[OF h(1) _ h(2)]) (simp add: item_json_typed)
qed

text \<open>C31. Reading the chosen file (lines 110-118, 417-418): without a file the
  read cannot fail and the report is built with no image; when a chosen file cannot
  be read, the exception escapes the submit handler and the state is left as it was,
  the report not stored.\<close>

theorem file_read_outcomes:
  "submit_file_resume q nt ok uid now loc None a = submit_file_resume q nt True uid now loc None a
   \<and> submit_file_resume q nt False uid now loc (Some u) a = (Some FileReadError, a)"
  by (simp add: submit_file_resume_def file_to_data_url_def)

text \<open>C32. A share or clipboard outcome never rolls back a record (spec 7): resuming
  a pending share or clipboard write changes the status line, what was handed out
  and the pending tasks, never the store, the map or the feed.\<close>

theorem share_keeps_records:
  "store (resume_share n sh a) = store a \<and> mapv (resume_share n sh a) = mapv a
   \<and> feed (resume_share n sh a) = feed a
   \<and> store (resume_clipboard n ok a) = store a \<and> mapv (resume_clipboard n ok a) = mapv a
   \<and> feed (resume_clipboard n ok a) = feed a"
  by (auto simp: resume_share_def resume_clipboard_def Let_def panic_share_def share_app_def
                 copy_coords_def copy_row_def set_status_def split: task.split share_outcome.split)



end
